(* ===== verification/Prelude.thy ===== *)
theory Prelude
  imports Main "HOL-Library.Sublist" "HOL-Library.List_Lexorder" "HOL-Library.Char_ord"
begin

text \<open>
  Shared vocabulary of the development: the Python built-ins that the planning agent's
  code relies on (truthiness of optional values, \<open>str.strip\<close>, \<open>str.lower\<close>,
  \<open>str.upper\<close>, \<open>str.capitalize\<close>, \<open>str.join\<close>, \<open>str.split(sep, 1)\<close>,
  \<open>list.index\<close> and \<open>str()\<close> of an integer), written as executable HOL functions
  over \<open>string\<close> (a list of bytes: non-ASCII text is its UTF-8 encoding, and case
  mapping and white space are those of ASCII), together with the generic lemmas on them
  that the component theories share.
\<close>

named_theorems py_simps "evaluation rules of the Python built-in models"

section \<open>Characters and truthiness\<close>

definition nl :: string where
  "nl = [CHR 0x0A]"

definition em_dash :: string where
  \<comment> \<open>U+2014, as UTF-8 bytes\<close>
  "em_dash = [CHR 0xE2, CHR 0x80, CHR 0x94]"

definition en_dash :: string where
  \<comment> \<open>U+2013, as UTF-8 bytes\<close>
  "en_dash = [CHR 0xE2, CHR 0x80, CHR 0x93]"

text \<open>Python's \<open>bool(x)\<close> on \<open>Optional[str]\<close> and \<open>Optional[int]\<close>.\<close>

fun py_truthy :: "string option \<Rightarrow> bool" where
  "py_truthy None = False"
| "py_truthy (Some s) = (s \<noteq> [])"

fun py_truthy_int :: "int option \<Rightarrow> bool" where
  "py_truthy_int None = False"
| "py_truthy_int (Some n) = (n \<noteq> 0)"

text \<open>The ASCII characters for which \<open>str.isspace\<close> holds.\<close>

definition py_isspace :: "char \<Rightarrow> bool" where
  "py_isspace c \<longleftrightarrow> c \<in> set [CHR 0x09, CHR 0x0A, CHR 0x0B, CHR 0x0C, CHR 0x0D,
                                 CHR 0x1C, CHR 0x1D, CHR 0x1E, CHR 0x1F, CHR 0x20]"

definition py_strip :: "string \<Rightarrow> string" where
  "py_strip s = rev (dropWhile py_isspace (rev (dropWhile py_isspace s)))"

definition py_lower_char :: "char \<Rightarrow> char" where
  "py_lower_char c =
     (if CHR ''A'' \<le> c \<and> c \<le> CHR ''Z'' then char_of (of_char c + (32::nat)) else c)"

definition py_upper_char :: "char \<Rightarrow> char" where
  "py_upper_char c =
     (if CHR ''a'' \<le> c \<and> c \<le> CHR ''z'' then char_of (of_char c - (32::nat)) else c)"

definition py_lower :: "string \<Rightarrow> string" where
  "py_lower s = map py_lower_char s"

definition py_upper :: "string \<Rightarrow> string" where
  "py_upper s = map py_upper_char s"

fun py_capitalize :: "string \<Rightarrow> string" where
  "py_capitalize [] = []"
| "py_capitalize (c # cs) = py_upper_char c # py_lower cs"

section \<open>Joining and splitting\<close>

text \<open>\<open>sep.join(xs)\<close>.\<close>

fun py_join :: "string \<Rightarrow> string list \<Rightarrow> string" where
  "py_join sep [] = []"
| "py_join sep [x] = x"
| "py_join sep (x # y # zs) = x @ sep @ py_join sep (y # zs)"

text \<open>
  \<open>s.split(sep, 1)\<close> guarded by \<open>sep in s\<close>: the text before and after the first
  occurrence of \<open>sep\<close>, or \<open>None\<close> when \<open>sep\<close> does not occur.
\<close>

fun split_once :: "'a list \<Rightarrow> 'a list \<Rightarrow> ('a list \<times> 'a list) option" where
  "split_once sep [] = (if sep = [] then Some ([], []) else None)"
| "split_once sep (x # xs) =
     (if prefix sep (x # xs) then Some ([], drop (length sep) (x # xs))
      else map_option (\<lambda>(a, b). (x # a, b)) (split_once sep xs))"

text \<open>\<open>xs.index(x)\<close>; \<open>None\<close> where Python raises \<open>ValueError\<close>.\<close>

fun py_index :: "'a list \<Rightarrow> 'a \<Rightarrow> nat option" where
  "py_index [] x = None"
| "py_index (y # ys) x = (if y = x then Some 0 else map_option Suc (py_index ys x))"

text \<open>\<open>s.split(c)\<close> for a one-character separator: never empty, and a string
  without the separator is its own single piece.\<close>

fun py_split_on :: "char \<Rightarrow> string \<Rightarrow> string list" where
  "py_split_on c [] = [[]]"
| "py_split_on c (x # xs) =
     (let r = py_split_on c xs in if x = c then [] # r else (x # hd r) # tl r)"

section \<open>Decimal rendering of integers\<close>

definition digit_char :: "nat \<Rightarrow> char" where
  "digit_char d = char_of (48 + d)"

fun string_of_nat :: "nat \<Rightarrow> string" where
  "string_of_nat n =
     (if n < 10 then [digit_char n] else string_of_nat (n div 10) @ [digit_char (n mod 10)])"

definition string_of_int :: "int \<Rightarrow> string" where
  "string_of_int i = (if i < 0 then CHR ''-'' # string_of_nat (nat (- i)) else string_of_nat (nat i))"

text \<open>The inverse reading of a decimal numeral, used to state that rendering loses nothing.\<close>

definition digit_val :: "char \<Rightarrow> nat" where
  "digit_val c = of_char c - 48"

definition nat_of_string :: "string \<Rightarrow> nat" where
  "nat_of_string s = foldl (\<lambda>acc c. 10 * acc + digit_val c) 0 s"

declare string_of_nat.simps [simp del]

lemmas py_defs [py_simps] = nl_def em_dash_def py_isspace_def py_strip_def
  py_lower_def py_upper_def py_lower_char_def py_upper_char_def digit_char_def

section \<open>Lemmas on the built-in models\<close>

lemma py_join_append_sep:
  "xs \<noteq> [] \<Longrightarrow> py_join sep (xs @ [y]) = py_join sep xs @ sep @ y"
  by (induction sep xs rule: py_join.induct) auto

lemma split_once_Some:
  "split_once sep s = Some (a, b) \<Longrightarrow> s = a @ sep @ b"
proof (induction sep s arbitrary: a rule: split_once.induct)
  case (1 sep)
  then show ?case by (auto split: if_splits)
next
  case (2 sep x xs)
  show ?case
  proof (cases "prefix sep (x # xs)")
    case True
    with "2.prems" show ?thesis
      by (auto simp: prefix_def)
  next
    case False
    with "2.prems" obtain a' where "split_once sep xs = Some (a', b)" and "a = x # a'"
      by auto
    with "2.IH" False show ?thesis by simp
  qed
qed

lemma split_once_first:
  "split_once sep s = Some (a, b) \<Longrightarrow> s = a' @ sep @ b' \<Longrightarrow> length a \<le> length a'"
proof (induction sep s arbitrary: a a' rule: split_once.induct)
  case (1 sep)
  then show ?case by (auto split: if_splits)
next
  case (2 sep x xs)
  show ?case
  proof (cases "prefix sep (x # xs)")
    case True
    with "2.prems"(1) have "a = []" by auto
    then show ?thesis by simp
  next
    case False
    with "2.prems"(1) obtain a1 where r: "split_once sep xs = Some (a1, b)" and "a = x # a1"
      by auto
    from False "2.prems"(2) obtain a1' where "a' = x # a1'" and "xs = a1' @ sep @ b'"
      by (cases a') (auto simp: prefix_def)
    with "2.IH" False r \<open>a = x # a1\<close> show ?thesis by fastforce
  qed
qed

lemma split_once_None:
  "split_once sep s = None \<longleftrightarrow> \<not> sublist sep s"
proof (induction sep s rule: split_once.induct)
  case (1 sep)
  then show ?case by simp
next
  case (2 sep x xs)
  then show ?case
    by (auto simp: sublist_Cons_right)
qed

lemma set_map_filter:
  "set (List.map_filter f xs) = {y. \<exists>x\<in>set xs. f x = Some y}"
  by (induction xs) (auto split: option.splits)

lemma py_index_Some:
  "py_index xs x = Some i \<Longrightarrow> i < length xs \<and> xs ! i = x"
  by (induction xs arbitrary: i) (auto split: if_splits)

lemma py_index_distinct:
  "distinct xs \<Longrightarrow> i < length xs \<Longrightarrow> py_index xs (xs ! i) = Some i"
proof (induction xs arbitrary: i)
  case Nil
  then show ?case by simp
next
  case (Cons y ys)
  then show ?case
    by (cases i) (auto simp: nth_mem)
qed

lemma digit_char_val:
  "d < 10 \<Longrightarrow> digit_val (digit_char d) = d"
  by (simp add: digit_char_def digit_val_def)

lemma nat_of_string_snoc:
  "nat_of_string (s @ [c]) = 10 * nat_of_string s + digit_val c"
  by (simp add: nat_of_string_def)

lemma nat_of_string_of_nat:
  "nat_of_string (string_of_nat n) = n"
proof (induction n rule: string_of_nat.induct)
  case (1 n)
  show ?case
  proof (cases "n < 10")
    case True
    then show ?thesis
      by (simp add: string_of_nat.simps [of n] nat_of_string_def digit_char_val)
  next
    case False
    with "1.IH" have "nat_of_string (string_of_nat (n div 10)) = n div 10" by simp
    with False show ?thesis
      by (simp add: string_of_nat.simps [of n] nat_of_string_snoc digit_char_val)
  qed
qed

lemma string_of_nat_inj:
  "string_of_nat m = string_of_nat n \<Longrightarrow> m = n"
  by (metis nat_of_string_of_nat)

lemma string_of_int_nat:
  "string_of_int (int n) = string_of_nat n"
  by (simp add: string_of_int_def)

lemma py_split_on_not_Nil [simp]: "py_split_on c s \<noteq> []"
  by (induction s) (auto simp: Let_def)

lemma py_split_on_no_sep: "c \<notin> set s \<Longrightarrow> py_split_on c s = [s]"
  by (induction s) (auto simp: Let_def)

lemma py_split_on_append_sep:
  "py_split_on c (a @ c # b) = py_split_on c a @ py_split_on c b"
proof (induction a)
  case Nil
  then show ?case by simp
next
  case (Cons x a)
  then show ?case
    by (cases "py_split_on c a") (auto simp: Let_def)
qed

lemma py_join_split_on: "py_join [c] (py_split_on c s) = s"
proof (induction s)
  case Nil
  then show ?case by simp
next
  case (Cons x xs)
  then show ?case
    by (cases "py_split_on c xs" rule: remdups_adj.cases) (auto simp: Let_def)
qed

lemma py_split_on_pieces: "w \<in> set (py_split_on c s) \<Longrightarrow> c \<notin> set w"
proof (induction s arbitrary: w)
  case Nil
  then show ?case by simp
next
  case (Cons x xs)
  then show ?case
    by (cases "py_split_on c xs") (auto simp: Let_def split: if_splits)
qed

end
