(* ===== verification/Models.thy ===== *)
theory Models
  imports Prelude
begin

text \<open>
  The data model of the planning agent: the stage enumeration, its order and the
  \<open>Session\<close> record with \<open>advance_stage\<close> (\<^verbatim>\<open>src/app/models/session.py\<close>), the
  per-stage extraction records (\<^verbatim>\<open>src/app/models/stage_data.py\<close>) and the compiled
  plan (\<^verbatim>\<open>src/app/models/plan.py\<close>). Pydantic models are records; \<open>Optional\<close>
  fields are \<open>option\<close>; Python's unbounded \<open>int\<close> is \<open>int\<close>. Timestamps
  (\<open>created_at\<close>, \<open>updated_at\<close>, message timestamps) are not modelled: no code
  reads them back. Stages are ordered by their position in \<open>STAGE_ORDER\<close>.
\<close>

section \<open>Stages\<close>

datatype stage =
    DefineOutcome
  | StrategicConstraints
  | PhasesAndMilestones
  | TasksAndSubtasks
  | RiskAndGovernance
  | Complete

definition stage_order :: "stage list" where
  "stage_order = [DefineOutcome, StrategicConstraints, PhasesAndMilestones,
                  TasksAndSubtasks, RiskAndGovernance, Complete]"

text \<open>The enum's string value, the key under which a stage's data is stored.\<close>

fun stage_value :: "stage \<Rightarrow> string" where
  "stage_value DefineOutcome = ''define_outcome''"
| "stage_value StrategicConstraints = ''strategic_constraints''"
| "stage_value PhasesAndMilestones = ''phases_and_milestones''"
| "stage_value TasksAndSubtasks = ''tasks_and_subtasks''"
| "stage_value RiskAndGovernance = ''risk_and_governance''"
| "stage_value Complete = ''complete''"

fun stage_index :: "stage \<Rightarrow> nat" where
  "stage_index DefineOutcome = 0"
| "stage_index StrategicConstraints = 1"
| "stage_index PhasesAndMilestones = 2"
| "stage_index TasksAndSubtasks = 3"
| "stage_index RiskAndGovernance = 4"
| "stage_index Complete = 5"

datatype project_type = General | Program

section \<open>Extraction records, one per stage\<close>

record outcome_data =
  od_project_name :: string
  od_project_type :: string
  od_success_definition :: string
  od_measurable_result :: string
  od_key_stakeholders :: "string list"

record constraints_data =
  cd_deadline :: "string option"
  cd_budget :: "string option"
  cd_team_size :: "int option"
  cd_methodology :: "string option"
  cd_key_constraints :: "string list"
  cd_assumptions :: "string list"

text \<open>\<open>ConstraintsData()\<close>: every field at its default.\<close>

definition default_constraints :: constraints_data where
  "default_constraints =
     \<lparr>cd_deadline = None, cd_budget = None, cd_team_size = None, cd_methodology = None,
      cd_key_constraints = [], cd_assumptions = []\<rparr>"

record milestone_definition =
  md_name :: string
  md_deliverable :: string
  md_timeline :: "string option"
  md_owner :: "string option"

record phases_data =
  pd_phases :: "string list"
  pd_milestones :: "milestone_definition list"

record subtask_definition =
  sd_name :: string
  sd_owner :: "string option"
  sd_duration_days :: "int option"
  sd_dependencies :: "string list"
  sd_deliverable :: "string option"

record task_definition =
  td_name :: string
  td_phase :: string
  td_owner :: "string option"
  td_duration_days :: "int option"
  td_dependencies :: "string list"
  td_subtasks :: "subtask_definition list"

record tasks_data =
  ts_tasks :: "task_definition list"

record risk_definition =
  rd_description :: string
  rd_severity :: string
  rd_mitigation :: "string option"

record kpi_definition =
  kd_metric :: string
  kd_target :: "string option"

record risk_governance_data =
  rg_risks :: "risk_definition list"
  rg_stakeholders :: "string list"
  rg_kpis :: "kpi_definition list"
  rg_external_vendors :: "string list"
  rg_review_cadence :: "string option"

text \<open>
  A value of \<open>Session.stage_data\<close>: the dump of one of the five extraction models.
  The constructor records which model produced it.
\<close>

datatype stage_record =
    OutcomeRec outcome_data
  | ConstraintsRec constraints_data
  | PhasesRec phases_data
  | TasksRec tasks_data
  | RiskRec risk_governance_data

text \<open>The stage whose handler's \<open>extraction_model\<close> a record belongs to.\<close>

fun record_stage :: "stage_record \<Rightarrow> stage" where
  "record_stage (OutcomeRec _) = DefineOutcome"
| "record_stage (ConstraintsRec _) = StrategicConstraints"
| "record_stage (PhasesRec _) = PhasesAndMilestones"
| "record_stage (TasksRec _) = TasksAndSubtasks"
| "record_stage (RiskRec _) = RiskAndGovernance"

section \<open>The compiled plan\<close>

record subtask =
  st_name :: string
  st_owner :: "string option"
  st_timeline :: "string option"
  st_deliverable :: "string option"
  st_dependencies :: "string list"

record task =
  t_name :: string
  t_owner :: "string option"
  t_timeline :: "string option"
  t_duration_days :: "int option"
  t_dependencies :: "string list"
  t_subtasks :: "subtask list"

record milestone =
  m_name :: string
  m_deliverable :: "string option"
  m_timeline :: "string option"
  m_owner :: "string option"
  m_tasks :: "task list"

record pillar =
  p_name :: string
  p_milestones :: "milestone list"

record risk =
  r_description :: string
  r_severity :: string
  r_mitigation :: "string option"

record kpi =
  k_metric :: string
  k_target :: "string option"
  k_measurement_method :: "string option"

record governance_info =
  g_stakeholders :: "string list"
  g_kpis :: "kpi list"
  g_risks :: "risk list"
  g_external_vendors :: "string list"
  g_review_cadence :: "string option"

record project_plan =
  plan_project_name :: string
  plan_project_type :: string
  plan_success_definition :: string
  plan_deadline :: "string option"
  plan_budget :: "string option"
  plan_team_size :: "int option"
  plan_methodology :: "string option"
  plan_milestones :: "milestone list"
  plan_pillars :: "pillar list"
  plan_governance :: "governance_info option"
  plan_generated_at :: "string option"

section \<open>Sessions\<close>

record message =
  msg_role :: string
  msg_content :: string

record session =
  session_id :: string
  ses_project_type :: "project_type option"
  current_stage :: stage
  messages :: "message list"
  stage_data :: "stage \<rightharpoonup> stage_record"
  is_complete :: bool

text \<open>\<open>Session()\<close> with a fresh identifier.\<close>

definition new_session :: "string \<Rightarrow> session" where
  "new_session sid =
     \<lparr>session_id = sid, ses_project_type = None, current_stage = DefineOutcome,
      messages = [], stage_data = Map.empty, is_complete = False\<rparr>"

definition get_claude_messages :: "session \<Rightarrow> (string \<times> string) list" where
  "get_claude_messages s = map (\<lambda>m. (msg_role m, msg_content m)) (messages s)"

definition advance_stage :: "session \<Rightarrow> session" where
  "advance_stage s =
     (case py_index stage_order (current_stage s) of
        Some idx \<Rightarrow>
          (if idx < length stage_order - 1
           then s\<lparr>current_stage := stage_order ! (idx + 1)\<rparr> else s)
      | None \<Rightarrow> s)"

section \<open>Stages in \<open>STAGE_ORDER\<close> order\<close>

instantiation stage :: linorder
begin

definition less_eq_stage :: "stage \<Rightarrow> stage \<Rightarrow> bool" where
  "less_eq_stage s t \<longleftrightarrow> stage_index s \<le> stage_index t"

definition less_stage :: "stage \<Rightarrow> stage \<Rightarrow> bool" where
  "less_stage s t \<longleftrightarrow> stage_index s < stage_index t"

lemma stage_index_inj: "stage_index s = stage_index t \<Longrightarrow> s = t"
  by (cases s; cases t) auto

instance
  by standard (auto simp: less_eq_stage_def less_stage_def intro: stage_index_inj)

end

section \<open>Lemmas on stages\<close>

lemma stage_order_index: "py_index stage_order s = Some (stage_index s)"
  by (cases s) (simp_all add: stage_order_def)

lemma stage_order_nth: "i < length stage_order \<Longrightarrow> stage_index (stage_order ! i) = i"
  by (auto simp: stage_order_def less_Suc_eq nth_Cons split: nat.splits)

lemma stage_index_le_5: "stage_index s \<le> 5"
  by (cases s) auto

lemma stage_index_5_iff: "stage_index s = 5 \<longleftrightarrow> s = Complete"
  by (cases s) auto

lemma stage_value_inj: "stage_value s = stage_value t \<Longrightarrow> s = t"
  by (cases s; cases t) auto

lemma set_stage_order: "set stage_order = UNIV"
proof -
  have "s \<in> set stage_order" for s
    by (cases s) (simp_all add: stage_order_def)
  then show ?thesis by blast
qed

lemma list_all_stage_order: "list_all P stage_order \<longleftrightarrow> (\<forall>s. P s)"
  by (simp add: list_all_iff set_stage_order)

lemma less_stage_index: "s < t \<longleftrightarrow> stage_index s < stage_index t"
  by (simp add: less_stage_def)

lemma stage_le_Complete [simp]: "s \<le> Complete"
  by (cases s) (auto simp: less_eq_stage_def)

lemma advance_stage_index:
  "stage_index (current_stage (advance_stage s)) =
     (if current_stage s = Complete then 5 else Suc (stage_index (current_stage s)))"
proof -
  have "length stage_order = 6" by (simp add: stage_order_def)
  then show ?thesis
    using stage_index_le_5 [of "current_stage s"] stage_index_5_iff [of "current_stage s"]
    by (auto simp: advance_stage_def stage_order_index stage_order_nth)
qed

lemma advance_stage_other [simp]:
  "messages (advance_stage s) = messages s"
  "stage_data (advance_stage s) = stage_data s"
  "is_complete (advance_stage s) = is_complete s"
  "session_id (advance_stage s) = session_id s"
  "ses_project_type (advance_stage s) = ses_project_type s"
  by (simp_all add: advance_stage_def split: option.splits)

end
