(* ===== verification/StageHandlers.thy ===== *)
theory StageHandlers
  imports Models
begin

text \<open>
  The per-stage handlers of \<^verbatim>\<open>src/app/agent/stage_handlers.py\<close>. The two model calls
  of a handler are the interface to the external language model: the \<open>llm_oracle\<close> record
  holds the reply it gives for a stage and a conversation (or the exception the client
  raises) and the structured record its tool call yields, already validated against a
  schema (or \<open>None\<close>: no tool-use block, a validation error, or any exception, all
  of which \<open>attempt_extraction\<close> swallows). What the handler itself decides is
  modelled exactly: the schema of each stage, the completeness predicate
  \<open>_has_required_fields\<close> of each stage, and the dispatch table.
\<close>

section \<open>The oracle interface\<close>

text \<open>
  The errors the Anthropic client raises out of \<open>generate_reply\<close>: an HTTP status
  error with its code and message, a connection error, or any other exception.
\<close>

datatype oracle_error =
    APIStatusError int string
  | APIConnectionError
  | OtherError

record llm_oracle =
  reply_of :: "stage \<Rightarrow> (string \<times> string) list \<Rightarrow> oracle_error + string"
  tool_output :: "stage \<Rightarrow> (string \<times> string) list \<Rightarrow> stage_record option"

section \<open>Completeness predicates\<close>

definition outcome_required :: "outcome_data \<Rightarrow> bool" where
  "outcome_required d \<longleftrightarrow>
     od_project_name d \<noteq> [] \<and> od_project_name d \<noteq> ''MISSING''
     \<and> od_success_definition d \<noteq> [] \<and> od_success_definition d \<noteq> ''MISSING''
     \<and> od_measurable_result d \<noteq> [] \<and> od_measurable_result d \<noteq> ''MISSING''
     \<and> od_project_type d \<in> set [''general'', ''program'']"

definition constraints_required :: "constraints_data \<Rightarrow> bool" where
  "constraints_required d \<longleftrightarrow> py_truthy (cd_deadline d) \<or> 0 < length (cd_key_constraints d)"

definition phases_required :: "phases_data \<Rightarrow> bool" where
  "phases_required d \<longleftrightarrow> 2 \<le> length (pd_phases d) \<and> 1 \<le> length (pd_milestones d)"

definition tasks_required :: "tasks_data \<Rightarrow> bool" where
  "tasks_required d \<longleftrightarrow>
     1 \<le> length (ts_tasks d) \<and> list_ex (\<lambda>t. py_truthy (td_owner t)) (ts_tasks d)"

definition risk_governance_required :: "risk_governance_data \<Rightarrow> bool" where
  "risk_governance_required d \<longleftrightarrow> 1 \<le> length (rg_risks d) \<and> 1 \<le> length (rg_stakeholders d)"

text \<open>
  \<open>STAGE_HANDLER_CLASSES[stage]._has_required_fields\<close>: each handler applies its own
  predicate to a record of its own \<open>extraction_model\<close>.
\<close>

fun has_required_fields :: "stage_record \<Rightarrow> bool" where
  "has_required_fields (OutcomeRec d) = outcome_required d"
| "has_required_fields (ConstraintsRec d) = constraints_required d"
| "has_required_fields (PhasesRec d) = phases_required d"
| "has_required_fields (TasksRec d) = tasks_required d"
| "has_required_fields (RiskRec d) = risk_governance_required d"

section \<open>The two calls of a handler\<close>

definition generate_reply :: "llm_oracle \<Rightarrow> stage \<Rightarrow> session \<Rightarrow> oracle_error + string" where
  "generate_reply orc st s = reply_of orc st (get_claude_messages s)"

text \<open>
  \<open>attempt_extraction\<close>: the tool output must validate against the stage's
  \<open>extraction_model\<close> (a record of another model is a \<open>ValidationError\<close>) and pass
  the stage's completeness predicate; otherwise the result is \<open>None\<close>.
\<close>

definition validate_extraction :: "stage \<Rightarrow> stage_record option \<Rightarrow> stage_record option" where
  "validate_extraction st out =
     (case out of
        None \<Rightarrow> None
      | Some r \<Rightarrow> (if record_stage r = st \<and> has_required_fields r then Some r else None))"

definition attempt_extraction :: "llm_oracle \<Rightarrow> stage \<Rightarrow> session \<Rightarrow> stage_record option" where
  "attempt_extraction orc st s = validate_extraction st (tool_output orc st (get_claude_messages s))"

lemma validate_extraction_Some:
  "validate_extraction st out = Some r \<longleftrightarrow>
     out = Some r \<and> record_stage r = st \<and> has_required_fields r"
  by (auto simp: validate_extraction_def split: option.splits)

lemma attempt_extraction_Some:
  "attempt_extraction orc st s = Some r \<Longrightarrow> record_stage r = st \<and> has_required_fields r"
  by (simp add: attempt_extraction_def validate_extraction_Some)

end
