(* ===== verification/Contradiction.thy ===== *)
theory Contradiction
  imports StageHandlers
begin

text \<open>
  The cross-stage checker of \<^verbatim>\<open>src/app/agent/contradiction_detector.py\<close>. Only the
  tasks stage is checked, against the committed constraints: first the owner-count
  rule (distinct normalised owners against the team size), then the duration rule (sum
  of the task durations against 400 days); the first rule that fires wins. The texts
  of the two contradictions are modelled byte for byte, with Python's \<open>str()\<close> of an
  integer as \<open>string_of_int\<close>.
\<close>

record contradiction =
  description :: string
  clarification_question :: string

text \<open>
  \<open>ConstraintsData(**raw)\<close> on a committed record. Every field of
  \<open>ConstraintsData\<close> is optional and pydantic ignores unknown keys, so the dump of
  another stage's model parses to the default record; a committed dump is never
  ill-typed, so the \<open>except\<close> branch (\<open>None\<close>) is not reached from typed records.
\<close>

fun parse_constraints :: "stage_record \<Rightarrow> constraints_data option" where
  "parse_constraints (ConstraintsRec c) = Some c"
| "parse_constraints _ = Some default_constraints"

definition skip_labels :: "string list" where
  "skip_labels = [''tbd'', ''unassigned'', ''n/a'', ''various'', '''']"

definition norm_owner :: "string \<Rightarrow> string" where
  "norm_owner ow = py_lower (py_strip ow)"

text \<open>The element a task contributes to the set comprehension \<open>unique_owners\<close>.\<close>

definition owner_key :: "task_definition \<Rightarrow> string option" where
  "owner_key t =
     (case td_owner t of
        None \<Rightarrow> None
      | Some ow \<Rightarrow> (if ow \<noteq> [] \<and> norm_owner ow \<notin> set skip_labels then Some (norm_owner ow) else None))"

definition unique_owners :: "task_definition list \<Rightarrow> string set" where
  "unique_owners ts = set (List.map_filter owner_key ts)"

definition owner_contradiction :: "int \<Rightarrow> string set \<Rightarrow> contradiction" where
  "owner_contradiction n owners =
     \<lparr>description =
        ''You mentioned a team of '' @ string_of_int n @ '' in Stage 2, ''
        @ ''but I'm now seeing '' @ string_of_nat (card owners) @ '' distinct task owners: ''
        @ py_join '', '' (sorted_list_of_set owners) @ ''.'',
      clarification_question =
        ''Should I update the team size, or are some of these the same ''
        @ ''person referenced by different names?''\<rparr>"

definition owner_count_rule :: "constraints_data \<Rightarrow> tasks_data \<Rightarrow> contradiction option" where
  "owner_count_rule c td =
     (case cd_team_size c of
        None \<Rightarrow> None
      | Some n \<Rightarrow>
          (let owners = unique_owners (ts_tasks td)
           in if n < int (card owners) then Some (owner_contradiction n owners) else None))"

definition total_days :: "task_definition list \<Rightarrow> int" where
  "total_days ts = sum_list (List.map_filter td_duration_days ts)"

definition deadline_str :: "string option \<Rightarrow> string" where
  "deadline_str d =
     (case d of
        None \<Rightarrow> []
      | Some s \<Rightarrow> (if s \<noteq> [] then '' against your deadline of '' @ [CHR 0x27] @ s @ [CHR 0x27]
                   else []))"

definition duration_contradiction :: "int \<Rightarrow> string option \<Rightarrow> contradiction" where
  "duration_contradiction days d =
     \<lparr>description =
        ''The sum of all task durations is approximately '' @ string_of_int days @ '' days''
        @ deadline_str d @ ''. '' @ ''That seems longer than a typical project timeline.'',
      clarification_question =
        ''Are these tasks meant to run in parallel, or should we revisit some ''
        @ ''of the duration estimates?''\<rparr>"

definition duration_rule :: "constraints_data \<Rightarrow> tasks_data \<Rightarrow> contradiction option" where
  "duration_rule c td =
     (let days = total_days (ts_tasks td)
      in if 400 < days then Some (duration_contradiction days (cd_deadline c)) else None)"

definition check_tasks_vs_constraints ::
  "tasks_data \<Rightarrow> (stage \<rightharpoonup> stage_record) \<Rightarrow> contradiction option" where
  "check_tasks_vs_constraints td existing =
     (case existing StrategicConstraints of
        None \<Rightarrow> None
      | Some raw \<Rightarrow>
          (case parse_constraints raw of
             None \<Rightarrow> None
           | Some c \<Rightarrow>
               (case owner_count_rule c td of
                  Some k \<Rightarrow> Some k
                | None \<Rightarrow> duration_rule c td)))"

text \<open>
  \<open>ContradictionDetector.check\<close>. The record at the tasks stage is a \<open>TasksData\<close>
  (\<open>attempt_extraction\<close> validated it); another record there is not reachable.
\<close>

definition check :: "stage \<Rightarrow> stage_record \<Rightarrow> (stage \<rightharpoonup> stage_record) \<Rightarrow> contradiction option" where
  "check st new existing =
     (if st = TasksAndSubtasks
      then (case new of TasksRec td \<Rightarrow> check_tasks_vs_constraints td existing | _ \<Rightarrow> None)
      else None)"

section \<open>Example data for the witnesses\<close>

definition example_task :: "string \<Rightarrow> int option \<Rightarrow> task_definition" where
  "example_task ow d =
     \<lparr>td_name = ''Task'', td_phase = ''Phase 1'', td_owner = Some ow, td_duration_days = d,
      td_dependencies = [], td_subtasks = []\<rparr>"

text \<open>The unit tests' constraints: a team of two with a deadline.\<close>

definition example_constraints :: constraints_data where
  "example_constraints = default_constraints\<lparr>cd_team_size := Some 2, cd_deadline := Some ''Q2 2025''\<rparr>"

section \<open>Lemmas\<close>

lemma unique_owners_finite [simp]: "finite (unique_owners ts)"
  by (simp add: unique_owners_def)

lemma check_other_stage [simp]: "st \<noteq> TasksAndSubtasks \<Longrightarrow> check st new existing = None"
  by (simp add: check_def)

lemma check_tasks_unfold:
  "existing StrategicConstraints = Some raw \<Longrightarrow> parse_constraints raw = Some c \<Longrightarrow>
   check TasksAndSubtasks (TasksRec td) existing =
     (case owner_count_rule c td of Some k \<Rightarrow> Some k | None \<Rightarrow> duration_rule c td)"
  by (simp add: check_def check_tasks_vs_constraints_def)

lemma owner_count_rule_fires:
  "cd_team_size c = Some n \<Longrightarrow>
   owner_count_rule c td \<noteq> None \<longleftrightarrow> n < int (card (unique_owners (ts_tasks td)))"
  by (simp add: owner_count_rule_def Let_def)

lemma duration_rule_fires:
  "duration_rule c td \<noteq> None \<longleftrightarrow> 400 < total_days (ts_tasks td)"
  by (simp add: duration_rule_def Let_def)

lemma sublist_string_of_int_dur:
  "sublist (string_of_int days) (description (duration_contradiction days d))"
  unfolding duration_contradiction_def sublist_def
  by (metis append.assoc contradiction.select_convs(1))

lemma sublist_owner_description:
  "sublist (string_of_int n) (description (owner_contradiction n owners)) \<and>
   sublist (string_of_nat (card owners)) (description (owner_contradiction n owners))"
  unfolding owner_contradiction_def sublist_def
  by (metis append.assoc contradiction.select_convs(1))



subsection \<open>Properties of the checker\<close>

text \<open>
  C9. Owner-count rule exactness: with a recorded team size \<open>n\<close>, the rule fires exactly
  when the number of distinct normalised owners exceeds \<open>n\<close>, and its description
  then names both the team size and the owner count.
\<close>

theorem owner_count_rule_exact:
  assumes "cd_team_size c = Some n"
  shows "(owner_count_rule c td = None \<longleftrightarrow> int (card (unique_owners (ts_tasks td))) \<le> n)
    \<and> (case owner_count_rule c td of
         None \<Rightarrow> True
       | Some k \<Rightarrow> sublist (string_of_int n) (description k)
                   \<and> sublist (string_of_nat (card (unique_owners (ts_tasks td)))) (description k))"
  using assms sublist_owner_description [of n "unique_owners (ts_tasks td)"]
  by (auto simp: owner_count_rule_def Let_def)

theorem owner_count_rule_exact_witness:
  "cd_team_size example_constraints = Some 2
   \<and> card (unique_owners [example_task ''Alice'' None, example_task ''Bob'' None,
                          example_task ''Carol'' None, example_task ''Dave'' None]) = 4
   \<and> owner_count_rule example_constraints
        \<lparr>ts_tasks = [example_task ''Alice'' None, example_task ''Bob'' None,
                     example_task ''Carol'' None, example_task ''Dave'' None]\<rparr> \<noteq> None"
proof -
  let ?ts = "[example_task ''Alice'' None, example_task ''Bob'' None,
              example_task ''Carol'' None, example_task ''Dave'' None]"
  have h: "cd_team_size example_constraints = Some 2"
    by (simp add: example_constraints_def default_constraints_def)
  have c: "card (unique_owners ?ts) = 4"
    by (simp add: unique_owners_def example_task_def owner_key_def) code_simp
  from owner_count_rule_exact [OF h, of "\<lparr>ts_tasks = ?ts\<rparr>"] h c show ?thesis by simp
qed

text \<open>
  C10. Duration threshold: the duration rule fires exactly when the sum of the recorded
  task durations exceeds 400 days (a sum of exactly 400 passes), and its description then
  states that sum.
\<close>

theorem duration_rule_threshold:
  "(duration_rule c td = None \<longleftrightarrow> total_days (ts_tasks td) \<le> 400)
   \<and> (case duration_rule c td of
        None \<Rightarrow> True
      | Some k \<Rightarrow> sublist (string_of_int (total_days (ts_tasks td))) (description k))"
  using sublist_string_of_int_dur [of "total_days (ts_tasks td)" "cd_deadline c"]
  by (auto simp: duration_rule_def Let_def)

text \<open>
  C11. Rule precedence: when the owner-count rule fires, the checker returns its
  contradiction, whatever the duration rule would say.
\<close>

theorem check_rule_precedence:
  assumes "existing StrategicConstraints = Some (ConstraintsRec c)"
    and "owner_count_rule c td = Some k"
  shows "check TasksAndSubtasks (TasksRec td) existing = Some k"
  using assms by (simp add: check_tasks_unfold)

theorem check_rule_precedence_witness:
  "check TasksAndSubtasks
     (TasksRec \<lparr>ts_tasks = [example_task ''Alice'' (Some 81), example_task ''Bob'' (Some 80),
                             example_task ''Carol'' (Some 80), example_task ''Dave'' (Some 80),
                             example_task ''Eve'' (Some 80)]\<rparr>)
     [StrategicConstraints \<mapsto> ConstraintsRec example_constraints]
   = Some (owner_contradiction 2 {''alice'', ''bob'', ''carol'', ''dave'', ''eve''})
   \<and> duration_rule example_constraints
       \<lparr>ts_tasks = [example_task ''Alice'' (Some 81), example_task ''Bob'' (Some 80),
                    example_task ''Carol'' (Some 80), example_task ''Dave'' (Some 80),
                    example_task ''Eve'' (Some 80)]\<rparr> \<noteq> None"
proof -
  let ?td = "\<lparr>ts_tasks = [example_task ''Alice'' (Some 81), example_task ''Bob'' (Some 80),
                          example_task ''Carol'' (Some 80), example_task ''Dave'' (Some 80),
                          example_task ''Eve'' (Some 80)]\<rparr>"
  have owners: "unique_owners [example_task ''Alice'' (Some 81), example_task ''Bob'' (Some 80),
                          example_task ''Carol'' (Some 80), example_task ''Dave'' (Some 80),
                          example_task ''Eve'' (Some 80)] = {''alice'', ''bob'', ''carol'', ''dave'', ''eve''}"
    by (simp add: unique_owners_def example_task_def owner_key_def) code_simp
  have h1: "[StrategicConstraints \<mapsto> ConstraintsRec example_constraints] StrategicConstraints
              = Some (ConstraintsRec example_constraints)"
    by simp
  have h2: "owner_count_rule example_constraints ?td
              = Some (owner_contradiction 2 {''alice'', ''bob'', ''carol'', ''dave'', ''eve''})"
    by (simp add: owner_count_rule_def owners example_constraints_def default_constraints_def Let_def)
  have d: "duration_rule example_constraints ?td \<noteq> None"
    by (simp add: duration_rule_def total_days_def example_task_def map_filter_simps)
  show ?thesis
    using check_rule_precedence [where existing = "[StrategicConstraints \<mapsto> ConstraintsRec example_constraints]",
        OF h1 h2] d by simp
qed

text \<open>
  C12. Scope of the checker: a contradiction is only ever reported for the tasks stage,
  and only when constraints have been committed.
\<close>

theorem check_scope:
  assumes "check st r existing \<noteq> None"
  shows "st = TasksAndSubtasks \<and> existing StrategicConstraints \<noteq> None"
  using assms by (cases "existing StrategicConstraints")
    (auto simp: check_def check_tasks_vs_constraints_def split: if_splits stage_record.splits)

theorem check_scope_witness:
  "check TasksAndSubtasks
     (TasksRec \<lparr>ts_tasks = [example_task ''Alice'' (Some 401)]\<rparr>)
     [StrategicConstraints \<mapsto> ConstraintsRec default_constraints] \<noteq> None
   \<and> TasksAndSubtasks = TasksAndSubtasks"
proof -
  have h: "check TasksAndSubtasks (TasksRec \<lparr>ts_tasks = [example_task ''Alice'' (Some 401)]\<rparr>)
             [StrategicConstraints \<mapsto> ConstraintsRec default_constraints] \<noteq> None"
    by (simp add: check_def check_tasks_vs_constraints_def owner_count_rule_def duration_rule_def
        total_days_def example_task_def default_constraints_def)
  from h check_scope [OF h] show ?thesis by simp
qed



end
