(* ===== verification/StateMachine.thy ===== *)
theory StateMachine
  imports Contradiction Prompts
begin

text \<open>
  The conversation controller \<open>PlanningStateMachine.process_message\<close>
  (\<^verbatim>\<open>src/app/agent/state_machine.py\<close>), which appends the transition texts of
  the \<open>Prompts\<close> theory. The session is
  passed explicitly and returned updated, together with the reply or the error the
  model client raised. Sessions reachable by any sequence of turns against any oracle
  are an inductive set; the invariant that ties the committed data to the current
  stage is proved for all of them by rule induction.
\<close>

section \<open>One turn\<close>

definition already_complete_reply :: string where
  "already_complete_reply =
     ''Your project plan is already complete! ''
     @ ''Use `GET /api/v1/session/{session_id}/plan` to retrieve it.''"

definition conflict_reply :: "contradiction \<Rightarrow> string" where
  "conflict_reply c =
     ''I noticed a potential conflict: '' @ description c @ nl @ nl @ clarification_question c"

definition add_message :: "string \<Rightarrow> string \<Rightarrow> session \<Rightarrow> session" where
  "add_message role content s =
     s\<lparr>messages := messages s @ [\<lparr>msg_role = role, msg_content = content\<rparr>]\<rparr>"

text \<open>Step 5b: store the record under the current stage, then advance.\<close>

definition store_and_advance :: "session \<Rightarrow> stage_record \<Rightarrow> session" where
  "store_and_advance s r =
     advance_stage (s\<lparr>stage_data := (stage_data s)(current_stage s \<mapsto> r)\<rparr>)"

definition process_message ::
  "llm_oracle \<Rightarrow> session \<Rightarrow> string \<Rightarrow> (oracle_error + string) \<times> session" where
  "process_message orc s u =
     (if current_stage s = Complete
      then (Inr already_complete_reply,
            add_message ''assistant'' already_complete_reply (add_message ''user'' u s))
      else
        (let s1 = add_message ''user'' u s in
         case generate_reply orc (current_stage s1) s1 of
           Inl e \<Rightarrow> (Inl e, s1)
         | Inr reply \<Rightarrow>
             (case attempt_extraction orc (current_stage s1) s1 of
                None \<Rightarrow> (Inr reply, add_message ''assistant'' reply s1)
              | Some r \<Rightarrow>
                  (case check (current_stage s1) r (stage_data s1) of
                     Some c \<Rightarrow> (Inr (conflict_reply c), add_message ''assistant'' (conflict_reply c) s1)
                   | None \<Rightarrow>
                       (let s2 = store_and_advance s1 r
                        in if current_stage s2 = Complete
                           then (let reply' = reply @ nl @ nl @ ''---'' @ nl
                                              @ get_stage_transition_message Complete
                                 in (Inr reply', add_message ''assistant'' reply'
                                                   (s2\<lparr>is_complete := True\<rparr>)))
                           else (let reply' = reply @ nl @ nl @ ''---'' @ nl
                                              @ get_stage_transition_message (current_stage s2)
                                 in (Inr reply', add_message ''assistant'' reply' s2)))))))"

section \<open>Sequences of turns\<close>

text \<open>A client sending utterances one after the other to the same session.\<close>

fun run_turns :: "llm_oracle \<Rightarrow> session \<Rightarrow> string list \<Rightarrow> session" where
  "run_turns orc s [] = s"
| "run_turns orc s (u # us) = run_turns orc (snd (process_message orc s u)) us"

text \<open>Whether a turn takes the commit branch of \<open>process_message\<close>, and whether every turn of a run does.\<close>

definition turn_commits :: "llm_oracle \<Rightarrow> session \<Rightarrow> string \<Rightarrow> bool" where
  "turn_commits orc s u \<longleftrightarrow>
     current_stage s \<noteq> Complete
     \<and> (case generate_reply orc (current_stage s) (add_message ''user'' u s) of
          Inl _ \<Rightarrow> False
        | Inr _ \<Rightarrow> (case attempt_extraction orc (current_stage s) (add_message ''user'' u s) of
                      None \<Rightarrow> False
                    | Some r \<Rightarrow> check (current_stage s) r (stage_data s) = None))"

fun all_commit :: "llm_oracle \<Rightarrow> session \<Rightarrow> string list \<Rightarrow> bool" where
  "all_commit orc s [] = True"
| "all_commit orc s (u # us) = (turn_commits orc s u \<and> all_commit orc (snd (process_message orc s u)) us)"

text \<open>One committing turn, for some answer of the model and some utterance.\<close>

definition commit_turn :: "session \<Rightarrow> session \<Rightarrow> bool" where
  "commit_turn s s' \<longleftrightarrow> (\<exists>orc u. turn_commits orc s u \<and> s' = snd (process_message orc s u))"

section \<open>Reachable sessions and the invariant\<close>

inductive reachable_session :: "session \<Rightarrow> bool" where
  created: "reachable_session (new_session sid)"
| turn: "reachable_session s \<Longrightarrow> reachable_session (snd (process_message orc s u))"

text \<open>
  The invariant of a session: data is stored exactly for the stages before the current
  one, each stored record is a complete record of its own stage's model, the completion
  flag is set exactly at the terminal stage, and the project type is never set.
\<close>

definition session_inv :: "session \<Rightarrow> bool" where
  "session_inv s \<longleftrightarrow>
     list_all (\<lambda>st. (stage_data s st \<noteq> None) = (st < current_stage s)) stage_order
   \<and> list_all (\<lambda>st. case stage_data s st of
                      None \<Rightarrow> True
                    | Some r \<Rightarrow> record_stage r = st \<and> has_required_fields r) stage_order
   \<and> is_complete s = (current_stage s = Complete)
   \<and> ses_project_type s = None"

section \<open>Example data for the witnesses\<close>

text \<open>A complete outcome record and an oracle that replies and extracts it.\<close>

definition example_outcome :: outcome_data where
  "example_outcome =
     \<lparr>od_project_name = ''Launch App'', od_project_type = ''general'',
      od_success_definition = ''1000 active users'', od_measurable_result = ''1000 users by Q4'',
      od_key_stakeholders = []\<rparr>"

definition example_oracle :: llm_oracle where
  "example_oracle =
     \<lparr>reply_of = (\<lambda>_ _. Inr ''Great.''), tool_output = (\<lambda>_ _. Some (OutcomeRec example_outcome))\<rparr>"

text \<open>A session at the tasks stage whose committed constraints give a team of two.\<close>

definition example_tasks_session :: session where
  "example_tasks_session =
     (new_session ''s2'')\<lparr>current_stage := TasksAndSubtasks,
        stage_data := [StrategicConstraints \<mapsto> ConstraintsRec (default_constraints\<lparr>cd_team_size := Some 2\<rparr>)]\<rparr>"

section \<open>Lemmas\<close>

lemma add_message_simps [simp]:
  "current_stage (add_message role c s) = current_stage s"
  "stage_data (add_message role c s) = stage_data s"
  "is_complete (add_message role c s) = is_complete s"
  "session_id (add_message role c s) = session_id s"
  "ses_project_type (add_message role c s) = ses_project_type s"
  "messages (add_message role c s) = messages s @ [\<lparr>msg_role = role, msg_content = c\<rparr>]"
  by (simp_all add: add_message_def)

lemma session_inv_iff:
  "session_inv s \<longleftrightarrow>
     (\<forall>st. (stage_data s st \<noteq> None) = (st < current_stage s))
   \<and> (\<forall>st r. stage_data s st = Some r \<longrightarrow> record_stage r = st \<and> has_required_fields r)
   \<and> is_complete s = (current_stage s = Complete)
   \<and> ses_project_type s = None"
  by (auto simp: session_inv_def list_all_stage_order split: option.splits)

lemma session_inv_add_message [simp]: "session_inv (add_message role c s) = session_inv s"
  by (simp add: session_inv_def)

lemma store_and_advance_stage:
  "current_stage s \<noteq> Complete \<Longrightarrow>
   stage_index (current_stage (store_and_advance s r)) = Suc (stage_index (current_stage s))"
  by (simp add: store_and_advance_def advance_stage_index)

lemma store_and_advance_data:
  "stage_data (store_and_advance s r) = (stage_data s)(current_stage s \<mapsto> r)"
  by (simp add: store_and_advance_def)

lemma store_and_advance_fields [simp]:
  "is_complete (store_and_advance s r) = is_complete s"
  "messages (store_and_advance s r) = messages s"
  "session_id (store_and_advance s r) = session_id s"
  "ses_project_type (store_and_advance s r) = ses_project_type s"
  by (simp_all add: store_and_advance_def)

lemma below_next_stage:
  "stage_index t = Suc (stage_index c) \<Longrightarrow> st < t \<longleftrightarrow> st < c \<or> st = c"
  using stage_index_inj [of st c] by (auto simp: less_stage_index less_Suc_eq)

lemma session_inv_store_and_advance:
  assumes inv: "session_inv s" and cur: "current_stage s \<noteq> Complete"
    and rec: "record_stage r = current_stage s" "has_required_fields r"
  shows "session_inv ((store_and_advance s r)\<lparr>is_complete := current_stage (store_and_advance s r) = Complete\<rparr>)"
proof -
  let ?t = "store_and_advance s r"
  have idx: "stage_index (current_stage ?t) = Suc (stage_index (current_stage s))"
    using cur by (rule store_and_advance_stage)
  have dom: "(stage_data ?t st \<noteq> None) = (st < current_stage ?t)" for st
    using inv below_next_stage [OF idx, of st]
    by (auto simp: session_inv_iff store_and_advance_data)
  have recs: "stage_data ?t st = Some r' \<Longrightarrow> record_stage r' = st \<and> has_required_fields r'" for st r'
    using inv rec by (auto simp: session_inv_iff store_and_advance_data split: if_splits)
  show ?thesis
    using dom recs inv by (simp add: session_inv_iff)
qed

lemma process_message_complete:
  "current_stage s = Complete \<Longrightarrow>
   process_message orc s u =
     (Inr already_complete_reply,
      add_message ''assistant'' already_complete_reply (add_message ''user'' u s))"
  by (simp add: process_message_def)

lemma process_message_inv:
  assumes inv: "session_inv s"
  shows "session_inv (snd (process_message orc s u))"
proof (cases "current_stage s = Complete")
  case True
  with inv show ?thesis by (simp add: process_message_complete)
next
  case False
  let ?s1 = "add_message ''user'' u s"
  have commit: "session_inv (add_message ''assistant'' m
                  (if current_stage (store_and_advance ?s1 r) = Complete
                   then (store_and_advance ?s1 r)\<lparr>is_complete := True\<rparr>
                   else store_and_advance ?s1 r))"
    if "attempt_extraction orc (current_stage s) ?s1 = Some r" for r m
  proof -
    from that have "record_stage r = current_stage ?s1" "has_required_fields r"
      by (auto dest: attempt_extraction_Some)
    from session_inv_store_and_advance [OF _ _ this] inv False
    have "session_inv ((store_and_advance ?s1 r)
            \<lparr>is_complete := current_stage (store_and_advance ?s1 r) = Complete\<rparr>)"
      by simp
    moreover have "is_complete (store_and_advance ?s1 r) = False"
      using inv False by (simp add: session_inv_iff)
    then have "(store_and_advance ?s1 r)\<lparr>is_complete := False\<rparr> = store_and_advance ?s1 r"
      by (simp add: session.equality)
    ultimately show ?thesis
      by (cases "current_stage (store_and_advance ?s1 r) = Complete") simp_all
  qed
  show ?thesis
    using False inv commit
    by (auto simp: process_message_def Let_def split: sum.splits option.splits)
qed

lemma process_message_noncomplete:
  "current_stage s \<noteq> Complete \<Longrightarrow>
   process_message orc s u =
     (let s1 = add_message ''user'' u s in
      case generate_reply orc (current_stage s) s1 of
        Inl e \<Rightarrow> (Inl e, s1)
      | Inr reply \<Rightarrow>
          (case attempt_extraction orc (current_stage s) s1 of
             None \<Rightarrow> (Inr reply, add_message ''assistant'' reply s1)
           | Some r \<Rightarrow>
               (case check (current_stage s) r (stage_data s) of
                  Some c \<Rightarrow> (Inr (conflict_reply c), add_message ''assistant'' (conflict_reply c) s1)
                | None \<Rightarrow>
                    (let s2 = store_and_advance s1 r
                     in if current_stage s2 = Complete
                        then (let reply' = reply @ nl @ nl @ ''---'' @ nl
                                           @ get_stage_transition_message Complete
                              in (Inr reply', add_message ''assistant'' reply'
                                                (s2\<lparr>is_complete := True\<rparr>)))
                        else (let reply' = reply @ nl @ nl @ ''---'' @ nl
                                           @ get_stage_transition_message (current_stage s2)
                              in (Inr reply', add_message ''assistant'' reply' s2))))))"
  by (simp add: process_message_def Let_def split: sum.split option.split)

lemma process_message_commit_session:
  assumes "current_stage s \<noteq> Complete"
    and "generate_reply orc (current_stage s) (add_message ''user'' u s) = Inr reply"
    and "attempt_extraction orc (current_stage s) (add_message ''user'' u s) = Some r"
    and "check (current_stage s) r (stage_data s) = None"
  shows "current_stage (snd (process_message orc s u)) =
           current_stage (store_and_advance (add_message ''user'' u s) r)
         \<and> stage_data (snd (process_message orc s u)) = (stage_data s)(current_stage s \<mapsto> r)
         \<and> is_complete (snd (process_message orc s u)) =
           (current_stage (store_and_advance (add_message ''user'' u s) r) = Complete \<or> is_complete s)"
  using assms by (simp add: process_message_noncomplete Let_def store_and_advance_data)

lemma reachable_session_invariant: "reachable_session s \<Longrightarrow> session_inv s"
proof (induction rule: reachable_session.induct)
  case (created sid)
  show ?case by (simp add: session_inv_def new_session_def stage_order_def less_stage_def)
next
  case (turn s orc u)
  from turn.IH show ?case by (rule process_message_inv)
qed

lemma process_message_session_id [simp]:
  "session_id (snd (process_message orc s u)) = session_id s"
  by (auto simp: process_message_def Let_def split: sum.splits option.splits)

lemma turn_commits_stage:
  assumes "turn_commits orc s u"
  shows "stage_index (current_stage (snd (process_message orc s u))) = Suc (stage_index (current_stage s))"
proof -
  from assms obtain reply r where c: "current_stage s \<noteq> Complete"
    and g: "generate_reply orc (current_stage s) (add_message ''user'' u s) = Inr reply"
    and a: "attempt_extraction orc (current_stage s) (add_message ''user'' u s) = Some r"
    and k: "check (current_stage s) r (stage_data s) = None"
    by (auto simp: turn_commits_def split: sum.splits option.splits)
  have "current_stage (add_message ''user'' u s) \<noteq> Complete" using c by simp
  from process_message_commit_session [OF c g a k] store_and_advance_stage [OF this, of r]
  show ?thesis by simp
qed

lemma run_turns_reachable:
  "reachable_session s \<Longrightarrow> reachable_session (run_turns orc s us)"
  by (induction orc s us rule: run_turns.induct) (auto intro: reachable_session.turn)

lemma run_turns_stage:
  "all_commit orc s us \<Longrightarrow> stage_index (current_stage (run_turns orc s us)) = stage_index (current_stage s) + length us"
  by (induction orc s us rule: run_turns.induct) (simp_all add: turn_commits_stage)

lemma commit_turn_index:
  "commit_turn s s' \<Longrightarrow> stage_index (current_stage s') = Suc (stage_index (current_stage s))
     \<and> stage_index (current_stage s) < 5"
  using stage_index_le_5 [of "current_stage s"] stage_index_5_iff [of "current_stage s"]
  by (auto simp: commit_turn_def turn_commits_stage turn_commits_def)

lemma commit_turn_relpow_index:
  "(commit_turn ^^ n) s s' \<Longrightarrow> stage_index (current_stage s') = stage_index (current_stage s) + n"
  by (induction n arbitrary: s') (auto dest: commit_turn_index)

lemma all_commit_relpow:
  "all_commit orc s us \<Longrightarrow> (commit_turn ^^ length us) s (run_turns orc s us)"
proof (induction orc s us rule: run_turns.induct)
  case (1 orc s)
  then show ?case by simp
next
  case (2 orc s u us)
  then have c: "commit_turn s (snd (process_message orc s u))" by (auto simp: commit_turn_def)
  from 2 have "(commit_turn ^^ length us) (snd (process_message orc s u)) (run_turns orc s (u # us))"
    by simp
  with c show ?case by (simp only: length_Cons relpowp_Suc_I2)
qed

subsection \<open>Properties of the controller\<close>

text \<open>
  C1. Every session reachable from \<open>Session()\<close> by turns, whatever the model answers,
  satisfies the invariant: a stage has committed data exactly when it precedes the current
  stage, each committed record is a complete record of that stage's model, and the
  session is flagged complete exactly at the terminal stage.
\<close>

theorem reachable_session_inv: "reachable_session s \<Longrightarrow> session_inv s"
  by (rule reachable_session_invariant)

theorem reachable_session_inv_witness:
  "reachable_session (snd (process_message
     \<lparr>reply_of = (\<lambda>_ _. Inr ''Noted.''), tool_output = (\<lambda>_ _. None)\<rparr> (new_session ''s1'') ''hello''))
   \<and> session_inv (snd (process_message
     \<lparr>reply_of = (\<lambda>_ _. Inr ''Noted.''), tool_output = (\<lambda>_ _. None)\<rparr> (new_session ''s1'') ''hello''))"
proof -
  have r: "reachable_session (snd (process_message
     \<lparr>reply_of = (\<lambda>_ _. Inr ''Noted.''), tool_output = (\<lambda>_ _. None)\<rparr> (new_session ''s1'') ''hello''))"
    by (rule reachable_session.turn [OF reachable_session.created])
  then show ?thesis using reachable_session_inv [OF r] by simp
qed

text \<open>
  C2. A turn never moves the stage backwards and advances it by at most one stage.
\<close>

theorem process_message_stage_monotone:
  "stage_index (current_stage s) \<le> stage_index (current_stage (snd (process_message orc s u)))
   \<and> stage_index (current_stage (snd (process_message orc s u))) \<le> Suc (stage_index (current_stage s))"
proof (cases "current_stage s = Complete")
  case True
  then show ?thesis by (simp add: process_message_complete)
next
  case False
  have idx: "stage_index (current_stage (store_and_advance (add_message ''user'' u s) r)) =
          Suc (stage_index (current_stage s))" for r
    using False by (simp add: store_and_advance_stage)
  have "current_stage (store_and_advance (add_message ''user'' u s) r) = Complete \<Longrightarrow>
          stage_index (current_stage s) = 4" for r
    using idx [of r] by simp
  with False idx stage_index_le_5 [of "current_stage s"] show ?thesis
    by (auto simp: process_message_noncomplete Let_def split: sum.splits option.splits)
qed

text \<open>
  C3. When the reply succeeds, the extraction yields a usable record and the checker finds
  no conflict, the record is committed under the current stage, the stage advances by
  one, the completion flag is set on reaching the terminal stage, and the reply is the
  model's reply followed by the transition text of the new stage.
\<close>

theorem process_message_commit:
  assumes "current_stage s \<noteq> Complete"
    and "generate_reply orc (current_stage s) (add_message ''user'' u s) = Inr reply"
    and "attempt_extraction orc (current_stage s) (add_message ''user'' u s) = Some r"
    and "check (current_stage s) r (stage_data s) = None"
  shows "stage_data (snd (process_message orc s u)) = (stage_data s)(current_stage s \<mapsto> r)
    \<and> stage_index (current_stage (snd (process_message orc s u))) = Suc (stage_index (current_stage s))
    \<and> is_complete (snd (process_message orc s u)) =
        (current_stage (snd (process_message orc s u)) = Complete \<or> is_complete s)
    \<and> fst (process_message orc s u) =
        Inr (reply @ nl @ nl @ ''---'' @ nl
             @ get_stage_transition_message (current_stage (snd (process_message orc s u))))"
proof -
  have idx: "stage_index (current_stage (store_and_advance (add_message ''user'' u s) r)) =
               Suc (stage_index (current_stage s))"
    using assms(1) by (simp add: store_and_advance_stage)
  have "current_stage (store_and_advance (add_message ''user'' u s) r) = Complete \<Longrightarrow>
          stage_index (current_stage s) = 4"
    using idx by simp
  then show ?thesis
    using assms idx by (simp add: process_message_noncomplete Let_def store_and_advance_data)
qed

theorem process_message_commit_witness:
  "current_stage (new_session ''s1'') \<noteq> Complete
   \<and> generate_reply example_oracle DefineOutcome (add_message ''user'' ''hi'' (new_session ''s1'')) = Inr ''Great.''
   \<and> attempt_extraction example_oracle DefineOutcome (add_message ''user'' ''hi'' (new_session ''s1''))
       = Some (OutcomeRec example_outcome)
   \<and> check DefineOutcome (OutcomeRec example_outcome) (stage_data (new_session ''s1'')) = None
   \<and> stage_data (snd (process_message example_oracle (new_session ''s1'') ''hi''))
       = [DefineOutcome \<mapsto> OutcomeRec example_outcome]
   \<and> stage_index (current_stage (snd (process_message example_oracle (new_session ''s1'') ''hi''))) = 1"
proof -
  have h: "current_stage (new_session ''s1'') = DefineOutcome" "current_stage (new_session ''s1'') \<noteq> Complete"
    "generate_reply example_oracle DefineOutcome (add_message ''user'' ''hi'' (new_session ''s1'')) = Inr ''Great.''"
    "attempt_extraction example_oracle DefineOutcome (add_message ''user'' ''hi'' (new_session ''s1''))
       = Some (OutcomeRec example_outcome)"
    "check DefineOutcome (OutcomeRec example_outcome) (stage_data (new_session ''s1'')) = None"
    by (simp_all add: new_session_def example_oracle_def example_outcome_def generate_reply_def
        attempt_extraction_def validate_extraction_def outcome_required_def)
  from process_message_commit [of "new_session ''s1''" example_oracle "''hi''", OF h(2) h(3)[folded h(1)]
      h(4)[folded h(1)] h(5)[folded h(1)]] h
  show ?thesis by (simp add: new_session_def)
qed

text \<open>
  C4. When the checker reports a conflict, the extracted record is discarded: the reply is
  the fixed conflict template, the stage and the committed data are unchanged, and only
  the user's message and this reply are appended to the log.
\<close>

theorem process_message_conflict:
  assumes "current_stage s \<noteq> Complete"
    and "generate_reply orc (current_stage s) (add_message ''user'' u s) = Inr reply"
    and "attempt_extraction orc (current_stage s) (add_message ''user'' u s) = Some r"
    and "check (current_stage s) r (stage_data s) = Some c"
  shows "process_message orc s u =
           (Inr (conflict_reply c), add_message ''assistant'' (conflict_reply c) (add_message ''user'' u s))"
  using assms by (simp add: process_message_noncomplete)

theorem process_message_conflict_witness:
  "process_message
     \<lparr>reply_of = (\<lambda>_ _. Inr ''Ok.''),
      tool_output = (\<lambda>_ _. Some (TasksRec \<lparr>ts_tasks =
         [example_task ''Alice'' None, example_task ''Bob'' None,
          example_task ''Carol'' None, example_task ''Dave'' None]\<rparr>))\<rparr>
     example_tasks_session ''tasks''
   = (Inr (conflict_reply (owner_contradiction 2 {''alice'', ''bob'', ''carol'', ''dave''})),
      add_message ''assistant'' (conflict_reply (owner_contradiction 2 {''alice'', ''bob'', ''carol'', ''dave''}))
        (add_message ''user'' ''tasks'' example_tasks_session))"
proof -
  let ?ts = "[example_task ''Alice'' None, example_task ''Bob'' None,
              example_task ''Carol'' None, example_task ''Dave'' None]"
  let ?orc = "\<lparr>reply_of = (\<lambda>_ _. Inr ''Ok.''),
      tool_output = (\<lambda>_ _. Some (TasksRec \<lparr>ts_tasks = ?ts\<rparr>))\<rparr> :: llm_oracle"
  have owners: "unique_owners ?ts = {''alice'', ''bob'', ''carol'', ''dave''}"
    by (simp add: unique_owners_def example_task_def owner_key_def) code_simp
  have cur: "current_stage example_tasks_session = TasksAndSubtasks"
    by (simp add: example_tasks_session_def)
  have h2: "generate_reply ?orc (current_stage example_tasks_session)
              (add_message ''user'' ''tasks'' example_tasks_session) = Inr ''Ok.''"
    by (simp add: generate_reply_def)
  have h3: "attempt_extraction ?orc (current_stage example_tasks_session)
              (add_message ''user'' ''tasks'' example_tasks_session) = Some (TasksRec \<lparr>ts_tasks = ?ts\<rparr>)"
    by (simp add: cur attempt_extraction_def validate_extraction_def tasks_required_def example_task_def)
  have h4: "check (current_stage example_tasks_session) (TasksRec \<lparr>ts_tasks = ?ts\<rparr>)
              (stage_data example_tasks_session)
            = Some (owner_contradiction 2 {''alice'', ''bob'', ''carol'', ''dave''})"
    by (simp add: cur check_def check_tasks_vs_constraints_def example_tasks_session_def
        owner_count_rule_def owners)
  show ?thesis
    using process_message_conflict [OF _ h2 h3 h4] cur by simp
qed

text \<open>
  C5. When the extraction yields no usable record (the model declined, the output failed
  validation, or the record fails the stage's completeness predicate), the turn ends with
  the model's reply alone and the stage and committed data are unchanged.
\<close>

theorem process_message_no_record:
  assumes "current_stage s \<noteq> Complete"
    and "generate_reply orc (current_stage s) (add_message ''user'' u s) = Inr reply"
    and "attempt_extraction orc (current_stage s) (add_message ''user'' u s) = None"
  shows "process_message orc s u =
           (Inr reply, add_message ''assistant'' reply (add_message ''user'' u s))"
  using assms by (simp add: process_message_noncomplete)

theorem process_message_no_record_witness:
  "process_message
     \<lparr>reply_of = (\<lambda>_ _. Inr ''Tell me more.''),
      tool_output = (\<lambda>_ _. Some (OutcomeRec (example_outcome\<lparr>od_project_name := ''MISSING''\<rparr>)))\<rparr>
     (new_session ''s3'') ''hi''
   = (Inr ''Tell me more.'', add_message ''assistant'' ''Tell me more.'' (add_message ''user'' ''hi'' (new_session ''s3'')))"
proof -
  let ?orc = "\<lparr>reply_of = (\<lambda>_ _. Inr ''Tell me more.''),
      tool_output = (\<lambda>_ _. Some (OutcomeRec (example_outcome\<lparr>od_project_name := ''MISSING''\<rparr>)))\<rparr>
      :: llm_oracle"
  have cur: "current_stage (new_session ''s3'') = DefineOutcome"
    by (simp add: new_session_def)
  have h2: "generate_reply ?orc (current_stage (new_session ''s3''))
              (add_message ''user'' ''hi'' (new_session ''s3'')) = Inr ''Tell me more.''"
    by (simp add: generate_reply_def)
  have h3: "attempt_extraction ?orc (current_stage (new_session ''s3''))
              (add_message ''user'' ''hi'' (new_session ''s3'')) = None"
    by (simp add: cur attempt_extraction_def validate_extraction_def outcome_required_def)
  show ?thesis
    using process_message_no_record [OF _ h2 h3] cur by simp
qed

text \<open>
  C6. A turn on a completed session never consults the model: its result does not depend
  on the oracle, the reply is the fixed already-complete notice, the stage stays terminal
  and the committed data and completion flag are unchanged.
\<close>

theorem process_message_terminal:
  assumes "current_stage s = Complete"
  shows "process_message orc s u = process_message orc' s u
    \<and> fst (process_message orc s u) = Inr already_complete_reply
    \<and> current_stage (snd (process_message orc s u)) = Complete
    \<and> stage_data (snd (process_message orc s u)) = stage_data s
    \<and> is_complete (snd (process_message orc s u)) = is_complete s"
  using assms by (simp add: process_message_complete)

theorem process_message_terminal_witness:
  "process_message example_oracle ((new_session ''s4'')\<lparr>current_stage := Complete\<rparr>) ''again''
     = process_message \<lparr>reply_of = (\<lambda>_ _. Inl APIConnectionError), tool_output = (\<lambda>_ _. None)\<rparr>
         ((new_session ''s4'')\<lparr>current_stage := Complete\<rparr>) ''again''
   \<and> fst (process_message example_oracle ((new_session ''s4'')\<lparr>current_stage := Complete\<rparr>) ''again'')
       = Inr already_complete_reply"
proof -
  have h: "current_stage ((new_session ''s4'')\<lparr>current_stage := Complete\<rparr>) = Complete"
    by simp
  from process_message_terminal [OF h, of example_oracle "''again''"
      "\<lparr>reply_of = (\<lambda>_ _. Inl APIConnectionError), tool_output = (\<lambda>_ _. None)\<rparr>"]
  show ?thesis by blast
qed

text \<open>
  C7. When the reply call raises, the error is returned to the caller, and the session
  keeps its stage and data with the user's message appended (no assistant reply).
\<close>

theorem process_message_oracle_error:
  assumes "current_stage s \<noteq> Complete"
    and "generate_reply orc (current_stage s) (add_message ''user'' u s) = Inl e"
  shows "process_message orc s u = (Inl e, add_message ''user'' u s)"
  using assms by (simp add: process_message_noncomplete)

theorem process_message_oracle_error_witness:
  "process_message \<lparr>reply_of = (\<lambda>_ _. Inl APIConnectionError), tool_output = (\<lambda>_ _. None)\<rparr>
     (new_session ''s5'') ''hi''
   = (Inl APIConnectionError, add_message ''user'' ''hi'' (new_session ''s5''))"
proof -
  have "current_stage (new_session ''s5'') \<noteq> Complete" by (simp add: new_session_def)
  then show ?thesis
    by (rule process_message_oracle_error) (simp add: generate_reply_def)
qed

text \<open>
  C8. Committed records are never revised: on a session satisfying the invariant, every
  record present before a turn is present, unchanged, after it.
\<close>

theorem process_message_data_monotone:
  assumes "session_inv s"
  shows "stage_data s \<subseteq>\<^sub>m stage_data (snd (process_message orc s u))"
proof (cases "current_stage s = Complete")
  case True
  then show ?thesis by (simp add: process_message_complete)
next
  case False
  from assms have "(stage_data s (current_stage s) \<noteq> None) = (current_stage s < current_stage s)"
    unfolding session_inv_iff by blast
  then have "stage_data s (current_stage s) = None" by simp
  then have "stage_data s \<subseteq>\<^sub>m (stage_data s)(current_stage s \<mapsto> r)" for r
    by (auto simp: map_le_def)
  with False show ?thesis
    by (auto simp: process_message_noncomplete Let_def store_and_advance_data
        split: sum.splits option.splits)
qed

theorem process_message_data_monotone_witness:
  "session_inv (new_session ''s6'')
   \<and> stage_data (new_session ''s6'') \<subseteq>\<^sub>m stage_data (snd (process_message example_oracle (new_session ''s6'') ''hi''))"
proof -
  have inv: "session_inv (new_session ''s6'')"
    by (simp add: session_inv_def new_session_def stage_order_def less_stage_def)
  show ?thesis using inv process_message_data_monotone [OF inv] by simp
qed

end
