(* ===== verification/PlanCompiler.thy ===== *)
theory PlanCompiler
  imports Contradiction
begin

text \<open>
  \<open>PlanCompiler.compile\<close> (\<^verbatim>\<open>src/app/agent/plan_compiler.py\<close>): the five committed
  records are re-parsed (a missing key is Python's \<open>KeyError\<close>, an ill-typed record a
  \<open>ValidationError\<close>; both are the error value \<open>compile_error\<close>), tasks are grouped
  by their phase string in a dictionary, and the plan is assembled either as a flat list
  of milestones or as pillars keyed by the text before the first \<open>" - "\<close> of each
  milestone name. Python dictionaries, whose iteration order is insertion order, are
  association lists; \<open>datetime.now()\<close> is the parameter \<open>now\<close>.
\<close>

section \<open>Parsing the committed records\<close>

datatype compile_error = MissingStage stage | InvalidRecord stage

fun parse_outcome :: "stage_record \<Rightarrow> outcome_data option" where
  "parse_outcome (OutcomeRec d) = Some d"
| "parse_outcome _ = None"

fun parse_phases :: "stage_record \<Rightarrow> phases_data option" where
  "parse_phases (PhasesRec d) = Some d"
| "parse_phases _ = None"

fun parse_tasks :: "stage_record \<Rightarrow> tasks_data option" where
  "parse_tasks (TasksRec d) = Some d"
| "parse_tasks _ = None"

fun parse_risk :: "stage_record \<Rightarrow> risk_governance_data option" where
  "parse_risk (RiskRec d) = Some d"
| "parse_risk _ = None"

text \<open>\<open>Model(**sd[stage.value])\<close>.\<close>

definition load_record ::
  "(stage \<rightharpoonup> stage_record) \<Rightarrow> stage \<Rightarrow> (stage_record \<Rightarrow> 'a option) \<Rightarrow> compile_error + 'a" where
  "load_record sd st parse =
     (case sd st of
        None \<Rightarrow> Inl (MissingStage st)
      | Some r \<Rightarrow> (case parse r of None \<Rightarrow> Inl (InvalidRecord st) | Some x \<Rightarrow> Inr x))"

section \<open>Grouping tasks by phase\<close>

type_synonym task_groups = "(string \<times> task_definition list) list"

text \<open>\<open>tasks_by_phase.setdefault(k, []).append(t)\<close>: a new key goes to the end.\<close>

fun setdefault_append :: "task_groups \<Rightarrow> string \<Rightarrow> task_definition \<Rightarrow> task_groups" where
  "setdefault_append [] k t = [(k, [t])]"
| "setdefault_append ((k', ts) # rest) k t =
     (if k' = k then (k', ts @ [t]) # rest else (k', ts) # setdefault_append rest k t)"

fun group_tasks :: "task_groups \<Rightarrow> task_definition list \<Rightarrow> task_groups" where
  "group_tasks acc [] = acc"
| "group_tasks acc (t # ts) = group_tasks (setdefault_append acc (td_phase t) t) ts"

text \<open>\<open>tasks_by_phase.get(name, [])\<close>.\<close>

definition get_tasks :: "task_groups \<Rightarrow> string \<Rightarrow> task_definition list" where
  "get_tasks g k = (case map_of g k of None \<Rightarrow> [] | Some ts \<Rightarrow> ts)"

section \<open>Building the plan\<close>

definition build_subtask :: "subtask_definition \<Rightarrow> subtask" where
  "build_subtask st =
     \<lparr>st_name = sd_name st, st_owner = sd_owner st,
      st_timeline = (case sd_duration_days st of
                       None \<Rightarrow> None
                     | Some d \<Rightarrow> (if d \<noteq> 0 then Some (string_of_int d @ ''d'') else None)),
      st_deliverable = sd_deliverable st, st_dependencies = sd_dependencies st\<rparr>"

definition build_task :: "task_definition \<Rightarrow> task" where
  "build_task t =
     \<lparr>t_name = td_name t, t_owner = td_owner t, t_timeline = None,
      t_duration_days = td_duration_days t, t_dependencies = td_dependencies t,
      t_subtasks = map build_subtask (td_subtasks t)\<rparr>"

definition build_tasks :: "task_definition list \<Rightarrow> task list" where
  "build_tasks ts = map build_task ts"

text \<open>A milestone with the given label; its tasks are looked up by the full milestone name.\<close>

definition build_milestone :: "string \<Rightarrow> milestone_definition \<Rightarrow> task_groups \<Rightarrow> milestone" where
  "build_milestone label md g =
     \<lparr>m_name = label, m_deliverable = Some (md_deliverable md), m_timeline = md_timeline md,
      m_owner = md_owner md, m_tasks = build_tasks (get_tasks g (md_name md))\<rparr>"

definition build_general_structure :: "project_plan \<Rightarrow> phases_data \<Rightarrow> task_groups \<Rightarrow> project_plan" where
  "build_general_structure plan pd g =
     plan\<lparr>plan_milestones := plan_milestones plan @ map (\<lambda>md. build_milestone (md_name md) md g) (pd_milestones pd)\<rparr>"

definition pillar_sep :: string where
  "pillar_sep = '' - ''"

text \<open>The pillar name and milestone label of one milestone definition.\<close>

definition pillar_split :: "phases_data \<Rightarrow> milestone_definition \<Rightarrow> string \<times> string" where
  "pillar_split pd md =
     (case split_once pillar_sep (md_name md) of
        Some (p, l) \<Rightarrow> (p, l)
      | None \<Rightarrow> ((case pd_phases pd of [] \<Rightarrow> ''Program'' | ph # _ \<Rightarrow> ph), md_name md))"

text \<open>\<open>pillars[name].milestones.append(m)\<close>, creating the pillar on first sight.\<close>

fun add_to_pillar :: "pillar list \<Rightarrow> string \<Rightarrow> milestone \<Rightarrow> pillar list" where
  "add_to_pillar [] n m = [\<lparr>p_name = n, p_milestones = [m]\<rparr>]"
| "add_to_pillar (p # ps) n m =
     (if p_name p = n then p\<lparr>p_milestones := p_milestones p @ [m]\<rparr> # ps
      else p # add_to_pillar ps n m)"

fun build_pillars ::
  "phases_data \<Rightarrow> task_groups \<Rightarrow> pillar list \<Rightarrow> milestone_definition list \<Rightarrow> pillar list" where
  "build_pillars pd g acc [] = acc"
| "build_pillars pd g acc (md # mds) =
     (let (pn, label) = pillar_split pd md
      in build_pillars pd g (add_to_pillar acc pn (build_milestone label md g)) mds)"

definition build_program_structure :: "project_plan \<Rightarrow> phases_data \<Rightarrow> task_groups \<Rightarrow> project_plan" where
  "build_program_structure plan pd g = plan\<lparr>plan_pillars := build_pillars pd g [] (pd_milestones pd)\<rparr>"

definition build_governance :: "risk_governance_data \<Rightarrow> governance_info" where
  "build_governance rg =
     \<lparr>g_stakeholders = rg_stakeholders rg,
      g_kpis = map (\<lambda>k. \<lparr>k_metric = kd_metric k, k_target = kd_target k, k_measurement_method = None\<rparr>)
                   (rg_kpis rg),
      g_risks = map (\<lambda>r. \<lparr>r_description = rd_description r, r_severity = rd_severity r,
                          r_mitigation = rd_mitigation r\<rparr>) (rg_risks rg),
      g_external_vendors = rg_external_vendors rg,
      g_review_cadence = rg_review_cadence rg\<rparr>"

definition assemble_plan ::
  "outcome_data \<Rightarrow> constraints_data \<Rightarrow> phases_data \<Rightarrow> tasks_data \<Rightarrow> risk_governance_data
   \<Rightarrow> string \<Rightarrow> project_plan" where
  "assemble_plan od c pd td rg now =
     (let plan = \<lparr>plan_project_name = od_project_name od, plan_project_type = od_project_type od,
                  plan_success_definition = od_success_definition od,
                  plan_deadline = cd_deadline c, plan_budget = cd_budget c,
                  plan_team_size = cd_team_size c, plan_methodology = cd_methodology c,
                  plan_milestones = [], plan_pillars = [], plan_governance = None,
                  plan_generated_at = Some now\<rparr>;
          g = group_tasks [] (ts_tasks td);
          plan' = (if od_project_type od = ''program'' then build_program_structure plan pd g
                   else build_general_structure plan pd g)
      in plan'\<lparr>plan_governance := Some (build_governance rg)\<rparr>)"

definition compile_plan :: "(stage \<rightharpoonup> stage_record) \<Rightarrow> string \<Rightarrow> compile_error + project_plan" where
  "compile_plan sd now =
     (case load_record sd DefineOutcome parse_outcome of
        Inl e \<Rightarrow> Inl e
      | Inr od \<Rightarrow>
     (case load_record sd StrategicConstraints parse_constraints of
        Inl e \<Rightarrow> Inl e
      | Inr c \<Rightarrow>
     (case load_record sd PhasesAndMilestones parse_phases of
        Inl e \<Rightarrow> Inl e
      | Inr pd \<Rightarrow>
     (case load_record sd TasksAndSubtasks parse_tasks of
        Inl e \<Rightarrow> Inl e
      | Inr td \<Rightarrow>
     (case load_record sd RiskAndGovernance parse_risk of
        Inl e \<Rightarrow> Inl e
      | Inr rg \<Rightarrow> Inr (assemble_plan od c pd td rg now))))))"

section \<open>Well-formed plans\<close>

text \<open>
  The shape the specification gives a compiled plan (section 3): governance and a
  generation time are present, and exactly one of the two structures is used, the
  pillars for a program and the flat milestone list otherwise.
\<close>

definition plan_wf :: "project_plan \<Rightarrow> bool" where
  "plan_wf plan \<longleftrightarrow>
     plan_governance plan \<noteq> None \<and> plan_generated_at plan \<noteq> None
     \<and> (if plan_project_type plan = ''program'' then plan_milestones plan = [] else plan_pillars plan = [])"

definition plan_milestone_count :: "project_plan \<Rightarrow> nat" where
  "plan_milestone_count plan =
     length (plan_milestones plan) + sum_list (map (\<lambda>p. length (p_milestones p)) (plan_pillars plan))"

section \<open>Example data for the witnesses\<close>

definition example_milestone_def :: "string \<Rightarrow> milestone_definition" where
  "example_milestone_def n = \<lparr>md_name = n, md_deliverable = ''Deployed product'', md_timeline = Some ''Q3'',
                              md_owner = None\<rparr>"

definition example_plan_outcome :: "string \<Rightarrow> outcome_data" where
  "example_plan_outcome ty =
     \<lparr>od_project_name = ''Test Project'', od_project_type = ty,
      od_success_definition = ''Launch a working product'', od_measurable_result = ''1000 users by Q4'',
      od_key_stakeholders = []\<rparr>"

definition example_governance :: risk_governance_data where
  "example_governance =
     \<lparr>rg_risks = [\<lparr>rd_description = ''Key engineer leaves'', rd_severity = ''high'',
                   rd_mitigation = Some ''Cross-train team members''\<rparr>],
      rg_stakeholders = [''CEO''], rg_kpis = [], rg_external_vendors = [], rg_review_cadence = None\<rparr>"

section \<open>Lemmas\<close>

lemma get_tasks_setdefault_append:
  "get_tasks (setdefault_append g k' t) k = get_tasks g k @ (if k' = k then [t] else [])"
  by (induction g k' t rule: setdefault_append.induct) (auto simp: get_tasks_def split: option.splits)

lemma get_tasks_group_tasks:
  "get_tasks (group_tasks acc ts) k = get_tasks acc k @ filter (\<lambda>t. td_phase t = k) ts"
  by (induction acc ts rule: group_tasks.induct) (simp_all add: get_tasks_setdefault_append)

lemma get_tasks_Nil [simp]: "get_tasks [] k = []"
  by (simp add: get_tasks_def)

lemma p_name_add_to_pillar:
  "map p_name (add_to_pillar ps n m) = (if n \<in> set (map p_name ps) then map p_name ps else map p_name ps @ [n])"
  by (induction ps n m rule: add_to_pillar.induct) auto

lemma milestone_count_add_to_pillar:
  "sum_list (map (\<lambda>p. length (p_milestones p)) (add_to_pillar ps n m)) =
     Suc (sum_list (map (\<lambda>p. length (p_milestones p)) ps))"
  by (induction ps n m rule: add_to_pillar.induct) auto

lemma load_record_Inr:
  "load_record sd st parse = Inr x \<longleftrightarrow> (\<exists>r. sd st = Some r \<and> parse r = Some x)"
  by (auto simp: load_record_def split: option.splits)

lemma build_pillars_shape:
  assumes "distinct (map p_name acc)"
  shows "distinct (map p_name (build_pillars pd g acc mds))
    \<and> set (map p_name (build_pillars pd g acc mds)) = set (map p_name acc) \<union> fst ` pillar_split pd ` set mds
    \<and> sum_list (map (\<lambda>p. length (p_milestones p)) (build_pillars pd g acc mds))
        = sum_list (map (\<lambda>p. length (p_milestones p)) acc) + length mds"
  using assms
proof (induction pd g acc mds rule: build_pillars.induct)
  case (1 pd g acc)
  then show ?case by simp
next
  case (2 pd g acc md mds)
  obtain pn label where sp: "pillar_split pd md = (pn, label)" by fastforce
  let ?acc = "add_to_pillar acc pn (build_milestone label md g)"
  have "distinct (map p_name ?acc)"
    using "2.prems" by (simp add: p_name_add_to_pillar)
  with "2.IH" [OF sp [symmetric] refl] have IH:
    "distinct (map p_name (build_pillars pd g ?acc mds))
     \<and> set (map p_name (build_pillars pd g ?acc mds)) = set (map p_name ?acc) \<union> fst ` pillar_split pd ` set mds
     \<and> sum_list (map (\<lambda>p. length (p_milestones p)) (build_pillars pd g ?acc mds))
        = sum_list (map (\<lambda>p. length (p_milestones p)) ?acc) + length mds"
    by blast
  have "set (map p_name ?acc) = insert pn (set (map p_name acc))"
    by (simp only: p_name_add_to_pillar) auto
  with IH sp show ?case
    by (auto simp: milestone_count_add_to_pillar)
qed


lemma compile_plan_Inr:
  "compile_plan sd now = Inr plan \<longleftrightarrow>
     (\<exists>od c pd td rg. load_record sd DefineOutcome parse_outcome = Inr od
        \<and> load_record sd StrategicConstraints parse_constraints = Inr c
        \<and> load_record sd PhasesAndMilestones parse_phases = Inr pd
        \<and> load_record sd TasksAndSubtasks parse_tasks = Inr td
        \<and> load_record sd RiskAndGovernance parse_risk = Inr rg
        \<and> plan = assemble_plan od c pd td rg now)"
  by (auto simp: compile_plan_def split: sum.splits)

text \<open>Which records each loader accepts, and what a failing load reports.\<close>

lemma parse_record_None:
  "parse_outcome r = None \<longleftrightarrow> record_stage r \<noteq> DefineOutcome"
  "parse_constraints r \<noteq> None"
  "parse_phases r = None \<longleftrightarrow> record_stage r \<noteq> PhasesAndMilestones"
  "parse_tasks r = None \<longleftrightarrow> record_stage r \<noteq> TasksAndSubtasks"
  "parse_risk r = None \<longleftrightarrow> record_stage r \<noteq> RiskAndGovernance"
  by (cases r; simp)+

lemma load_record_ok: "(\<exists>x. load_record sd st parse = Inr x) \<longleftrightarrow> (\<exists>r. sd st = Some r \<and> parse r \<noteq> None)"
  by (auto simp: load_record_Inr)

lemma load_record_Inl:
  "load_record sd st parse = Inl e \<longleftrightarrow>
     (sd st = None \<and> e = MissingStage st) \<or> (\<exists>r. sd st = Some r \<and> parse r = None \<and> e = InvalidRecord st)"
  by (auto simp: load_record_def split: option.splits)

lemma compile_plan_ok:
  "(\<exists>plan. compile_plan sd now = Inr plan) \<longleftrightarrow>
     (\<exists>r. sd DefineOutcome = Some r \<and> record_stage r = DefineOutcome)
     \<and> (\<exists>r. sd StrategicConstraints = Some r)
     \<and> (\<exists>r. sd PhasesAndMilestones = Some r \<and> record_stage r = PhasesAndMilestones)
     \<and> (\<exists>r. sd TasksAndSubtasks = Some r \<and> record_stage r = TasksAndSubtasks)
     \<and> (\<exists>r. sd RiskAndGovernance = Some r \<and> record_stage r = RiskAndGovernance)"
proof -
  have "(\<exists>plan. compile_plan sd now = Inr plan) \<longleftrightarrow>
          (\<exists>x. load_record sd DefineOutcome parse_outcome = Inr x)
          \<and> (\<exists>x. load_record sd StrategicConstraints parse_constraints = Inr x)
          \<and> (\<exists>x. load_record sd PhasesAndMilestones parse_phases = Inr x)
          \<and> (\<exists>x. load_record sd TasksAndSubtasks parse_tasks = Inr x)
          \<and> (\<exists>x. load_record sd RiskAndGovernance parse_risk = Inr x)"
    by (auto simp: compile_plan_Inr)
  then show ?thesis by (simp only: load_record_ok parse_record_None not_not simp_thms)
qed

lemma compile_plan_Inl:
  "compile_plan sd now = Inl e \<Longrightarrow>
     load_record sd DefineOutcome parse_outcome = Inl e
     \<or> load_record sd StrategicConstraints parse_constraints = Inl e
     \<or> load_record sd PhasesAndMilestones parse_phases = Inl e
     \<or> load_record sd TasksAndSubtasks parse_tasks = Inl e
     \<or> load_record sd RiskAndGovernance parse_risk = Inl e"
  by (auto simp: compile_plan_def split: sum.splits)

lemma assemble_plan_shape:
  "plan_wf (assemble_plan od c pd td rg now)
   \<and> plan_project_type (assemble_plan od c pd td rg now) = od_project_type od
   \<and> plan_milestone_count (assemble_plan od c pd td rg now) = length (pd_milestones pd)"
  using build_pillars_shape [of "[]" pd "group_tasks [] (ts_tasks td)" "pd_milestones pd"]
  by (simp add: assemble_plan_def Let_def plan_wf_def plan_milestone_count_def
                build_program_structure_def build_general_structure_def)

lemma add_to_pillar_new:
  "\<exists>pl\<in>set (add_to_pillar ps n m). p_name pl = n \<and> m \<in> set (p_milestones pl)"
  by (induction ps n m rule: add_to_pillar.induct) auto

lemma add_to_pillar_keep:
  "pl \<in> set ps \<Longrightarrow> x \<in> set (p_milestones pl) \<Longrightarrow>
   \<exists>pl'\<in>set (add_to_pillar ps n m). p_name pl' = p_name pl \<and> x \<in> set (p_milestones pl')"
  by (induction ps n m rule: add_to_pillar.induct) force+

lemma build_pillars_keep:
  "pl \<in> set acc \<Longrightarrow> x \<in> set (p_milestones pl) \<Longrightarrow>
   \<exists>pl'\<in>set (build_pillars pd g acc mds). p_name pl' = p_name pl \<and> x \<in> set (p_milestones pl')"
proof (induction pd g acc mds arbitrary: pl rule: build_pillars.induct)
  case (1 pd g acc)
  then show ?case by auto
next
  case (2 pd g acc md mds)
  obtain pn label where sp: "pillar_split pd md = (pn, label)" by fastforce
  from add_to_pillar_keep [OF "2.prems", of pn "build_milestone label md g"] obtain pl' where
    "pl' \<in> set (add_to_pillar acc pn (build_milestone label md g))"
    "p_name pl' = p_name pl" "x \<in> set (p_milestones pl')"
    by blast
  with "2.IH" [OF sp [symmetric] refl] sp show ?case by fastforce
qed

lemma build_pillars_mem:
  "md \<in> set mds \<Longrightarrow>
   \<exists>pl\<in>set (build_pillars pd g acc mds).
      p_name pl = fst (pillar_split pd md)
      \<and> build_milestone (snd (pillar_split pd md)) md g \<in> set (p_milestones pl)"
proof (induction pd g acc mds rule: build_pillars.induct)
  case (1 pd g acc)
  then show ?case by simp
next
  case (2 pd g acc md' mds)
  obtain pn label where sp: "pillar_split pd md' = (pn, label)" by fastforce
  show ?case
  proof (cases "md \<in> set mds")
    case True
    with "2.IH" [OF sp [symmetric] refl] sp show ?thesis by simp
  next
    case False
    with "2.prems" have "md = md'" by simp
    moreover from add_to_pillar_new [of acc pn "build_milestone label md' g"] obtain pl where
      "pl \<in> set (add_to_pillar acc pn (build_milestone label md' g))"
      "p_name pl = pn" "build_milestone label md' g \<in> set (p_milestones pl)"
      by blast
    ultimately show ?thesis
      using build_pillars_keep [of pl _ "build_milestone label md' g" pd g mds] sp by fastforce
  qed
qed

subsection \<open>Properties of the compiler\<close>

text \<open>
  C14. Grouping tasks by phase: after the grouping loop, looking a phase name up gives
  exactly the tasks that declared that phase string, in their original order (and the
  empty list for a name no task declared).
\<close>

theorem group_tasks_lookup:
  "get_tasks (group_tasks [] ts) k = filter (\<lambda>t. td_phase t = k) ts"
  by (simp add: get_tasks_group_tasks)

text \<open>
  C15. Program structure: pillar names are distinct, they are exactly the pillar names
  of the milestone definitions, and every milestone definition contributes exactly one
  milestone.
\<close>

theorem build_pillars_structure:
  "distinct (map p_name (build_pillars pd g [] mds))
   \<and> set (map p_name (build_pillars pd g [] mds)) = fst ` pillar_split pd ` set mds
   \<and> sum_list (map (\<lambda>p. length (p_milestones p)) (build_pillars pd g [] mds)) = length mds"
  using build_pillars_shape [of "[]" pd g mds] by simp

text \<open>
  C16. Program placement: every milestone definition ends up, as a milestone labelled
  with the text after its pillar prefix, in the pillar named by that prefix.
\<close>

theorem build_pillars_placement:
  assumes "md \<in> set mds"
  shows "\<exists>pl\<in>set (build_pillars pd g [] mds).
           p_name pl = fst (pillar_split pd md)
         \<and> build_milestone (snd (pillar_split pd md)) md g \<in> set (p_milestones pl)"
  using assms by (rule build_pillars_mem)

theorem build_pillars_placement_witness:
  "example_milestone_def ''Technology - MVP'' \<in> set [example_milestone_def ''Technology - MVP'']
   \<and> (\<exists>pl\<in>set (build_pillars \<lparr>pd_phases = [], pd_milestones = []\<rparr> [] []
                    [example_milestone_def ''Technology - MVP'']).
        p_name pl = fst (pillar_split \<lparr>pd_phases = [], pd_milestones = []\<rparr>
                          (example_milestone_def ''Technology - MVP''))
      \<and> build_milestone (snd (pillar_split \<lparr>pd_phases = [], pd_milestones = []\<rparr>
                          (example_milestone_def ''Technology - MVP'')))
           (example_milestone_def ''Technology - MVP'') [] \<in> set (p_milestones pl))"
  using build_pillars_placement [of "example_milestone_def ''Technology - MVP''"
      "[example_milestone_def ''Technology - MVP'']" "\<lparr>pd_phases = [], pd_milestones = []\<rparr>" "[]"]
  by simp

text \<open>
  C17. Pillar split round trip: when the separator \<open>" - "\<close> occurs in a milestone
  name, the pillar name, the separator and the label give back the name, and the split is
  at the first occurrence of the separator.
\<close>

theorem pillar_split_roundtrip:
  assumes "sublist pillar_sep (md_name md)" and "pillar_split pd md = (p, l)"
  shows "md_name md = p @ pillar_sep @ l
    \<and> (\<forall>a b. md_name md = a @ pillar_sep @ b \<longrightarrow> length p \<le> length a)"
proof -
  from assms(1) obtain a b where sp: "split_once pillar_sep (md_name md) = Some (a, b)"
    by (cases "split_once pillar_sep (md_name md)") (auto simp: split_once_None)
  with assms(2) have "a = p" "b = l" by (simp_all add: pillar_split_def)
  with sp show ?thesis
    using split_once_Some split_once_first by metis
qed

theorem pillar_split_roundtrip_witness:
  "sublist pillar_sep ''Technology - MVP - v2''
   \<and> pillar_split \<lparr>pd_phases = [], pd_milestones = []\<rparr> (example_milestone_def ''Technology - MVP - v2'')
       = (''Technology'', ''MVP - v2'')
   \<and> ''Technology - MVP - v2'' = ''Technology'' @ pillar_sep @ ''MVP - v2''"
proof -
  have h1: "sublist pillar_sep (md_name (example_milestone_def ''Technology - MVP - v2''))"
    by (simp add: pillar_sep_def example_milestone_def_def sublist_def)
      (rule exI [of _ "''Technology''"], simp)
  have h2: "pillar_split \<lparr>pd_phases = [], pd_milestones = []\<rparr> (example_milestone_def ''Technology - MVP - v2'')
       = (''Technology'', ''MVP - v2'')"
    by (simp add: pillar_split_def pillar_sep_def example_milestone_def_def)
  from pillar_split_roundtrip [OF h1 h2] h1 h2 show ?thesis
    by (simp add: example_milestone_def_def)
qed

text \<open>
  C18. Pillar fallback: a milestone name without the separator keeps its full name as the
  label and goes to the first declared phase, or to the pillar \<open>Program\<close> when no
  phase was declared.
\<close>

theorem pillar_split_fallback:
  assumes "\<not> sublist pillar_sep (md_name md)"
  shows "pillar_split pd md = ((case pd_phases pd of [] \<Rightarrow> ''Program'' | ph # _ \<Rightarrow> ph), md_name md)"
  using assms by (simp add: pillar_split_def split_once_None [symmetric])

theorem pillar_split_fallback_witness:
  "\<not> sublist pillar_sep ''Launch''
   \<and> pillar_split \<lparr>pd_phases = [''Discovery'', ''Build''], pd_milestones = []\<rparr> (example_milestone_def ''Launch'')
       = (''Discovery'', ''Launch'')"
proof -
  have h: "\<not> sublist pillar_sep (md_name (example_milestone_def ''Launch''))"
    by (simp add: pillar_sep_def example_milestone_def_def split_once_None [symmetric])
  from pillar_split_fallback [OF h, of "\<lparr>pd_phases = [''Discovery'', ''Build''], pd_milestones = []\<rparr>"] h
  show ?thesis by (simp add: example_milestone_def_def)
qed

text \<open>
  General versus program assembly (the specification's example): the milestone
  \<open>Technology - MVP\<close> with no declared phases becomes the milestone \<open>MVP\<close> of the
  pillar \<open>Technology\<close> in a program plan, and stays one flat milestone
  \<open>Technology - MVP\<close> (with no pillars) in a general plan.
\<close>

theorem assemble_general_vs_program:
  "map p_name (plan_pillars (assemble_plan (example_plan_outcome ''program'') default_constraints
      \<lparr>pd_phases = [], pd_milestones = [example_milestone_def ''Technology - MVP'']\<rparr>
      \<lparr>ts_tasks = []\<rparr> example_governance now)) = [''Technology'']
   \<and> map (map m_name \<circ> p_milestones) (plan_pillars (assemble_plan (example_plan_outcome ''program'')
      default_constraints \<lparr>pd_phases = [], pd_milestones = [example_milestone_def ''Technology - MVP'']\<rparr>
      \<lparr>ts_tasks = []\<rparr> example_governance now)) = [[''MVP'']]
   \<and> map m_name (plan_milestones (assemble_plan (example_plan_outcome ''general'') default_constraints
      \<lparr>pd_phases = [], pd_milestones = [example_milestone_def ''Technology - MVP'']\<rparr>
      \<lparr>ts_tasks = []\<rparr> example_governance now)) = [''Technology - MVP'']
   \<and> plan_pillars (assemble_plan (example_plan_outcome ''general'') default_constraints
      \<lparr>pd_phases = [], pd_milestones = [example_milestone_def ''Technology - MVP'']\<rparr>
      \<lparr>ts_tasks = []\<rparr> example_governance now) = []"
  by (simp add: assemble_plan_def Let_def example_plan_outcome_def build_program_structure_def
      build_general_structure_def pillar_split_def pillar_sep_def example_milestone_def_def
      build_milestone_def)

text \<open>
  C20. Error behaviour of \<open>PlanCompiler.compile\<close>: it produces a plan exactly when each of
  the five conversational stages has a committed record and every record other than the
  constraints one is a record of its own stage's model (\<open>ConstraintsData(**raw)\<close> accepts
  any dump, since every field is optional and extra keys are ignored); a
  \<open>KeyError\<close> names a stage with no record, and a validation error a stage whose record
  is of another model.
\<close>

theorem compile_plan_errors:
  "((\<exists>plan. compile_plan sd now = Inr plan) \<longleftrightarrow>
      (\<forall>st\<in>{DefineOutcome, StrategicConstraints, PhasesAndMilestones, TasksAndSubtasks, RiskAndGovernance}.
         \<exists>r. sd st = Some r \<and> (st \<noteq> StrategicConstraints \<longrightarrow> record_stage r = st)))
   \<and> (compile_plan sd now = Inl (MissingStage st) \<longrightarrow> sd st = None)
   \<and> (compile_plan sd now = Inl (InvalidRecord st) \<longrightarrow>
        (\<exists>r. sd st = Some r \<and> record_stage r \<noteq> st \<and> st \<noteq> StrategicConstraints))"
proof (intro conjI)
  show "(\<exists>plan. compile_plan sd now = Inr plan) \<longleftrightarrow>
      (\<forall>st\<in>{DefineOutcome, StrategicConstraints, PhasesAndMilestones, TasksAndSubtasks, RiskAndGovernance}.
         \<exists>r. sd st = Some r \<and> (st \<noteq> StrategicConstraints \<longrightarrow> record_stage r = st))"
    by (simp add: compile_plan_ok)
  show "compile_plan sd now = Inl (MissingStage st) \<longrightarrow> sd st = None"
    by (auto dest!: compile_plan_Inl simp: load_record_Inl)
  show "compile_plan sd now = Inl (InvalidRecord st) \<longrightarrow>
        (\<exists>r. sd st = Some r \<and> record_stage r \<noteq> st \<and> st \<noteq> StrategicConstraints)"
    by (auto dest!: compile_plan_Inl simp: load_record_Inl parse_record_None)
qed

theorem compile_plan_errors_witness:
  "compile_plan [DefineOutcome \<mapsto> PhasesRec \<lparr>pd_phases = [], pd_milestones = []\<rparr>] ''now''
     = Inl (InvalidRecord DefineOutcome)
   \<and> (\<exists>r. [DefineOutcome \<mapsto> PhasesRec \<lparr>pd_phases = [], pd_milestones = []\<rparr>] DefineOutcome = Some r
          \<and> record_stage r \<noteq> DefineOutcome \<and> DefineOutcome \<noteq> StrategicConstraints)"
proof -
  have e: "compile_plan [DefineOutcome \<mapsto> PhasesRec \<lparr>pd_phases = [], pd_milestones = []\<rparr>] ''now''
     = Inl (InvalidRecord DefineOutcome)"
    by (simp add: compile_plan_def load_record_def)
  from compile_plan_errors [of "[DefineOutcome \<mapsto> PhasesRec \<lparr>pd_phases = [], pd_milestones = []\<rparr>]"
         "''now''" DefineOutcome] e
  show ?thesis by blast
qed

end
