(* ===== verification/Renderer.thy ===== *)
theory Renderer
  imports PlanCompiler
begin

text \<open>
  \<open>MarkdownRenderer\<close> (\<^verbatim>\<open>src/app/utils/markdown_renderer.py\<close>). The code appends
  lines to a list and joins them with newlines; the model builds the same list of lines
  (\<open>render_lines\<close>) and joins it (\<open>render\<close>), so that properties about which lines
  are present are stated on the list. A Python guard \<open>if x:\<close> on an optional string is
  \<open>py_truthy\<close>; the em dash of the KPI target is its UTF-8 encoding.
\<close>

section \<open>Line builders\<close>

text \<open>\<open>if v: lines.append(f"{pre}{v}{post}")\<close>.\<close>

definition opt_line :: "string \<Rightarrow> string \<Rightarrow> string option \<Rightarrow> string list" where
  "opt_line pre post v = (case v of Some x \<Rightarrow> (if x \<noteq> [] then [pre @ x @ post] else []) | None \<Rightarrow> [])"

definition opt_int_part :: "string \<Rightarrow> string \<Rightarrow> int option \<Rightarrow> string list" where
  "opt_int_part pre post v =
     (case v of Some n \<Rightarrow> (if n \<noteq> 0 then [pre @ string_of_int n @ post] else []) | None \<Rightarrow> [])"

definition render_subtask :: "subtask \<Rightarrow> string list" where
  "render_subtask st =
     [''  - '' @ py_join '' | '' ([st_name st] @ opt_line ''Owner: '' [] (st_owner st)
                                 @ opt_line ''Timeline: '' [] (st_timeline st))]
     @ opt_line ''    - _Deliverable: '' ''_'' (st_deliverable st)"

definition render_task :: "task \<Rightarrow> string list" where
  "render_task t =
     [nl @ ''- '' @ py_join '' | '' ([''**'' @ t_name t @ ''**''] @ opt_line ''Owner: '' [] (t_owner t)
                                    @ opt_int_part ''Duration: '' ''d'' (t_duration_days t))]
     @ (if t_dependencies t \<noteq> [] then [''  - _Dependencies: '' @ py_join '', '' (t_dependencies t) @ ''_'']
        else [])
     @ concat (map render_subtask (t_subtasks t))"

definition render_milestone :: "milestone \<Rightarrow> nat \<Rightarrow> string list" where
  "render_milestone m level =
     [nl @ replicate level (CHR ''#'') @ '' '' @ m_name m]
     @ opt_line ''_Deliverable: '' ''_'' (m_deliverable m)
     @ opt_line ''_Timeline: '' ''_'' (m_timeline m)
     @ opt_line ''_Owner: '' ''_'' (m_owner m)
     @ concat (map render_task (m_tasks m))"

definition render_header :: "project_plan \<Rightarrow> string list" where
  "render_header plan =
     [''# '' @ plan_project_name plan,
      ''**Type:** '' @ py_capitalize (plan_project_type plan),
      ''**Success Definition:** '' @ plan_success_definition plan]
     @ opt_line ''**Deadline:** '' [] (plan_deadline plan)
     @ opt_line ''**Budget:** '' [] (plan_budget plan)
     @ opt_int_part ''**Team Size:** '' [] (plan_team_size plan)
     @ opt_line ''**Methodology:** '' [] (plan_methodology plan)
     @ ['''', ''---'']"

definition render_structure :: "project_plan \<Rightarrow> string list" where
  "render_structure plan =
     (if plan_project_type plan = ''program'' \<and> plan_pillars plan \<noteq> []
      then [''## Program Structure'']
           @ concat (map (\<lambda>p. [nl @ ''## Pillar: '' @ p_name p]
                               @ concat (map (\<lambda>m. render_milestone m 3) (p_milestones p)))
                         (plan_pillars plan))
      else [''## Project Plan''] @ concat (map (\<lambda>m. render_milestone m 2) (plan_milestones plan)))"

definition stakeholders_header :: string where "stakeholders_header = nl @ ''### Stakeholders''"
definition kpis_header :: string where "kpis_header = nl @ ''### KPIs''"
definition risks_header :: string where "risks_header = nl @ ''### Risks''"
definition vendors_header :: string where "vendors_header = nl @ ''### External Vendors / Dependencies''"

definition render_kpi :: "kpi \<Rightarrow> string" where
  "render_kpi k =
     ''- **'' @ k_metric k @ ''**''
     @ (case k_target k of
          Some x \<Rightarrow> (if x \<noteq> [] then '' '' @ em_dash @ '' Target: '' @ x else [])
        | None \<Rightarrow> [])"

definition render_risk :: "risk \<Rightarrow> string list" where
  "render_risk r =
     [''- '' @ ''['' @ py_upper (r_severity r) @ '']'' @ '' '' @ r_description r]
     @ opt_line ''  - _Mitigation: '' ''_'' (r_mitigation r)"

definition render_governance :: "governance_info \<Rightarrow> string list" where
  "render_governance gov =
     [nl @ ''---'', ''## Governance & Risk'']
     @ (if g_stakeholders gov \<noteq> [] then stakeholders_header # map (\<lambda>s. ''- '' @ s) (g_stakeholders gov) else [])
     @ (if g_kpis gov \<noteq> [] then kpis_header # map render_kpi (g_kpis gov) else [])
     @ (if g_risks gov \<noteq> [] then risks_header # concat (map render_risk (g_risks gov)) else [])
     @ (if g_external_vendors gov \<noteq> [] then vendors_header # map (\<lambda>v. ''- '' @ v) (g_external_vendors gov)
        else [])
     @ opt_line (nl @ ''### Review Cadence'' @ nl) [] (g_review_cadence gov)"

definition render_lines :: "project_plan \<Rightarrow> string list" where
  "render_lines plan =
     render_header plan @ render_structure plan
     @ (case plan_governance plan of None \<Rightarrow> [] | Some gov \<Rightarrow> render_governance gov)"

definition render :: "project_plan \<Rightarrow> string" where
  "render plan = py_join nl (render_lines plan)"

section \<open>Example data for the witnesses\<close>


section \<open>Lemmas\<close>

lemma opt_line_mem: "x \<in> set (opt_line pre post v) \<longleftrightarrow> (\<exists>y. v = Some y \<and> y \<noteq> [] \<and> x = pre @ y @ post)"
  by (auto simp: opt_line_def split: option.splits)

lemma render_risk_hd: "x \<in> set (render_risk r) \<Longrightarrow> x \<noteq> [] \<and> hd x \<in> {CHR ''-'', CHR '' ''}"
  by (auto simp: render_risk_def opt_line_mem)

lemma render_kpi_hd: "hd (render_kpi k) = CHR ''-''"
  by (simp add: render_kpi_def)

lemmas header_defs = stakeholders_header_def kpis_header_def risks_header_def vendors_header_def nl_def

lemma newline_not_item:
  assumes "h \<noteq> []" and "hd h = CHR 0x0A"
  shows "h \<notin> set (map (\<lambda>s. ''- '' @ s) xs)" "h \<notin> set (map render_kpi ks)"
    "h \<notin> set (concat (map render_risk rs))"
proof -
  show "h \<notin> set (map (\<lambda>s. ''- '' @ s) xs)" using assms by auto
  show "h \<notin> set (map render_kpi ks)" using assms render_kpi_hd by auto
  show "h \<notin> set (concat (map render_risk rs))" using assms render_risk_hd by fastforce
qed

lemma header_hd:
  "h \<in> {stakeholders_header, kpis_header, risks_header, vendors_header} \<Longrightarrow> h \<noteq> [] \<and> hd h = CHR 0x0A"
  by (auto simp: header_defs)

lemma header_not_cadence:
  "h \<in> {stakeholders_header, kpis_header, risks_header, vendors_header} \<Longrightarrow>
   h \<notin> set (opt_line (nl @ ''### Review Cadence'' @ nl) [] c)"
  by (auto simp: opt_line_mem header_defs)

lemma cadence_not_header:
  "nl @ ''### Review Cadence'' @ nl @ c \<notin> {stakeholders_header, kpis_header, risks_header, vendors_header}"
  by (simp add: header_defs)


lemma governance_header_not_item:
  assumes "h \<in> {stakeholders_header, kpis_header, risks_header, vendors_header}"
  shows "h \<notin> set (map (\<lambda>s. ''- '' @ s) xs) \<and> h \<notin> set (map render_kpi ks)
         \<and> h \<notin> set (concat (map render_risk rs))
         \<and> h \<notin> set (opt_line (nl @ ''### Review Cadence'' @ nl) [] c)
         \<and> h \<noteq> nl @ ''---'' \<and> h \<noteq> ''## Governance & Risk''"
  using newline_not_item [OF conjunct1 [OF header_hd [OF assms]] conjunct2 [OF header_hd [OF assms]]]
    header_not_cadence [OF assms] assms by (auto simp: header_defs)

lemma headers_distinct:
  "stakeholders_header \<noteq> kpis_header" "stakeholders_header \<noteq> risks_header"
  "stakeholders_header \<noteq> vendors_header" "kpis_header \<noteq> risks_header"
  "kpis_header \<noteq> vendors_header" "risks_header \<noteq> vendors_header"
  by (simp_all add: header_defs)

lemma stakeholders_header_governance:
  "stakeholders_header \<in> set (render_governance gov) \<longleftrightarrow> g_stakeholders gov \<noteq> []"
  using governance_header_not_item [of stakeholders_header] headers_distinct
  by (simp add: render_governance_def)





subsection \<open>Properties of the renderer\<close>

text \<open>
  C21. Governance completeness: in the governance block, the section header of each of
  stakeholders, KPIs, risks and vendors is present exactly when its list is non-empty,
  and the review-cadence section exactly when a non-empty cadence was recorded.
\<close>

theorem render_governance_sections:
  "(stakeholders_header \<in> set (render_governance gov) \<longleftrightarrow> g_stakeholders gov \<noteq> [])
   \<and> (kpis_header \<in> set (render_governance gov) \<longleftrightarrow> g_kpis gov \<noteq> [])
   \<and> (risks_header \<in> set (render_governance gov) \<longleftrightarrow> g_risks gov \<noteq> [])
   \<and> (vendors_header \<in> set (render_governance gov) \<longleftrightarrow> g_external_vendors gov \<noteq> [])
   \<and> ((\<exists>c. nl @ ''### Review Cadence'' @ nl @ c \<in> set (render_governance gov))
        \<longleftrightarrow> py_truthy (g_review_cadence gov))"
proof -
  note nh = governance_header_not_item and d = headers_distinct
  have s1: "stakeholders_header \<in> set (render_governance gov) \<longleftrightarrow> g_stakeholders gov \<noteq> []"
    by (rule stakeholders_header_governance)
  have s2: "kpis_header \<in> set (render_governance gov) \<longleftrightarrow> g_kpis gov \<noteq> []"
    using nh [of kpis_header] d by (simp add: render_governance_def)
  have s3: "risks_header \<in> set (render_governance gov) \<longleftrightarrow> g_risks gov \<noteq> []"
    using nh [of risks_header] d by (simp add: render_governance_def)
  have s4: "vendors_header \<in> set (render_governance gov) \<longleftrightarrow> g_external_vendors gov \<noteq> []"
    using nh [of vendors_header] d by (simp add: render_governance_def)
  have cl: "nl @ ''### Review Cadence'' @ nl @ c \<notin> set (map (\<lambda>s. ''- '' @ s) xs)
            \<and> nl @ ''### Review Cadence'' @ nl @ c \<notin> set (map render_kpi ks)
            \<and> nl @ ''### Review Cadence'' @ nl @ c \<notin> set (concat (map render_risk rs))" for c xs ks rs
    using newline_not_item [of "nl @ ''### Review Cadence'' @ nl @ c"] by (simp add: nl_def)
  have s5: "(\<exists>c. nl @ ''### Review Cadence'' @ nl @ c \<in> set (render_governance gov))
              \<longleftrightarrow> py_truthy (g_review_cadence gov)"
  proof
    assume "\<exists>c. nl @ ''### Review Cadence'' @ nl @ c \<in> set (render_governance gov)"
    then obtain c where "nl @ ''### Review Cadence'' @ nl @ c \<in> set (render_governance gov)" by blast
    with cl [of c] cadence_not_header [of c] show "py_truthy (g_review_cadence gov)"
      by (cases "g_review_cadence gov") (auto simp: render_governance_def opt_line_mem nl_def split: if_splits)
  next
    assume "py_truthy (g_review_cadence gov)"
    then obtain c where "g_review_cadence gov = Some c" "c \<noteq> []"
      by (cases "g_review_cadence gov") auto
    then have "nl @ ''### Review Cadence'' @ nl @ c \<in> set (render_governance gov)"
      by (simp add: render_governance_def opt_line_def)
    then show "\<exists>c. nl @ ''### Review Cadence'' @ nl @ c \<in> set (render_governance gov)" by blast
  qed
  from s1 s2 s3 s4 s5 show ?thesis by blast
qed





end
