(* ===== verification/Store.thy ===== *)
theory Store
  imports Models
begin

text \<open>
  The storage layer: the abstract \<open>SessionStore\<close> of \<^verbatim>\<open>src/app/storage/base.py\<close> as
  a record of its three operations over a state type, and \<open>InMemorySessionStore\<close> of
  \<^verbatim>\<open>src/app/storage/memory_store.py\<close> on its real representation, a dictionary from
  session identifiers to \<open>session.model_dump(mode="json")\<close>. The JSON dump, its
  truthiness and \<open>Session(**data)\<close> are an interface of pydantic, \<open>session_codec\<close>; its
  law \<open>codec_ok\<close> is pydantic's round trip. The map store, on which the \<open>Api\<close> routes are verified, is the
  other instance of the interface and serves as the abstraction: \<open>mem_alpha\<close> reads the
  dictionary back, \<open>mem_invar\<close> says that every stored value is truthy and parses, and
  the lemmas \<open>mem_*_correct\<close> show that each operation of the in-memory store is the map
  store's operation under the abstraction and keeps the invariant. Sequences of store
  calls, as the routes issue them, are lists of \<open>store_op\<close> run by \<open>store_run\<close>; an
  exception escaping \<open>get\<close> ends the sequence.
\<close>

section \<open>The map store\<close>

type_synonym store = "string \<rightharpoonup> session"

definition store_get :: "store \<Rightarrow> string \<Rightarrow> session option" where
  "store_get st sid = st sid"

definition store_save :: "store \<Rightarrow> session \<Rightarrow> store" where
  "store_save st s = st(session_id s \<mapsto> s)"

definition store_delete :: "store \<Rightarrow> string \<Rightarrow> store" where
  "store_delete st sid = st(sid := None)"

section \<open>The interface\<close>

text \<open>\<open>Session(**data)\<close> raising pydantic's \<open>ValidationError\<close>.\<close>

datatype store_error = ValidationError

record 's session_store =
  ss_get :: "'s \<Rightarrow> string \<Rightarrow> store_error + session option"
  ss_save :: "'s \<Rightarrow> session \<Rightarrow> 's"
  ss_delete :: "'s \<Rightarrow> string \<Rightarrow> 's"

datatype store_op = Get string | Save session | Delete string

text \<open>A sequence of awaited store calls; the results are those of the \<open>get\<close> calls.\<close>

fun store_run ::
  "'s session_store \<Rightarrow> 's \<Rightarrow> store_op list \<Rightarrow> (store_error + session option list) \<times> 's" where
  "store_run S st [] = (Inr [], st)"
| "store_run S st (Get sid # ops) =
     (case ss_get S st sid of
        Inl e \<Rightarrow> (Inl e, st)
      | Inr r \<Rightarrow>
          (case store_run S st ops of
             (Inl e, st') \<Rightarrow> (Inl e, st')
           | (Inr rs, st') \<Rightarrow> (Inr (r # rs), st')))"
| "store_run S st (Save s # ops) = store_run S (ss_save S st s) ops"
| "store_run S st (Delete sid # ops) = store_run S (ss_delete S st sid) ops"

text \<open>The map store of the routes as an instance: it never raises.\<close>

definition map_session_store :: "store session_store" where
  "map_session_store = \<lparr>ss_get = (\<lambda>st sid. Inr (store_get st sid)), ss_save = store_save,
                        ss_delete = store_delete\<rparr>"

section \<open>The in-memory store on its representation\<close>

record 'j session_codec =
  model_dump :: "session \<Rightarrow> 'j"
  json_truthy :: "'j \<Rightarrow> bool"
  session_parse :: "'j \<Rightarrow> store_error + session"

text \<open>Pydantic's round trip: a dump is a non-empty dictionary that parses back to the session.\<close>

definition codec_ok :: "'j session_codec \<Rightarrow> bool" where
  "codec_ok c \<longleftrightarrow> (\<forall>s. json_truthy c (model_dump c s) \<and> session_parse c (model_dump c s) = Inr s)"

type_synonym 'j mem_store = "string \<rightharpoonup> 'j"

text \<open>\<open>__init__\<close>: the empty dictionary.\<close>

definition mem_new :: "'j mem_store" where
  "mem_new = Map.empty"

text \<open>\<open>data = self._store.get(session_id); return Session(**data) if data else None\<close>.\<close>

definition mem_get :: "'j session_codec \<Rightarrow> 'j mem_store \<Rightarrow> string \<Rightarrow> store_error + session option" where
  "mem_get c m sid =
     (case m sid of
        None \<Rightarrow> Inr None
      | Some d \<Rightarrow>
          (if json_truthy c d
           then (case session_parse c d of Inl e \<Rightarrow> Inl e | Inr s \<Rightarrow> Inr (Some s))
           else Inr None))"

text \<open>\<open>self._store[session.session_id] = session.model_dump(mode="json")\<close>.\<close>

definition mem_save :: "'j session_codec \<Rightarrow> 'j mem_store \<Rightarrow> session \<Rightarrow> 'j mem_store" where
  "mem_save c m s = m(session_id s \<mapsto> model_dump c s)"

text \<open>\<open>self._store.pop(session_id, None)\<close>.\<close>

definition mem_delete :: "'j mem_store \<Rightarrow> string \<Rightarrow> 'j mem_store" where
  "mem_delete m sid = m(sid := None)"

definition in_memory_session_store :: "'j session_codec \<Rightarrow> 'j mem_store session_store" where
  "in_memory_session_store c = \<lparr>ss_get = mem_get c, ss_save = mem_save c, ss_delete = mem_delete\<rparr>"

section \<open>Abstraction and invariant\<close>

definition mem_alpha :: "'j session_codec \<Rightarrow> 'j mem_store \<Rightarrow> store" where
  "mem_alpha c m sid =
     (case m sid of
        None \<Rightarrow> None
      | Some d \<Rightarrow> (case session_parse c d of Inl _ \<Rightarrow> None | Inr s \<Rightarrow> Some s))"

definition mem_invar :: "'j session_codec \<Rightarrow> 'j mem_store \<Rightarrow> bool" where
  "mem_invar c m \<longleftrightarrow> (\<forall>d \<in> ran m. json_truthy c d \<and> \<not> isl (session_parse c d))"

text \<open>A codec for the examples: \<open>None\<close> plays the empty dictionary.\<close>

definition option_codec :: "session option session_codec" where
  "option_codec =
     \<lparr>model_dump = Some, json_truthy = (\<lambda>d. d \<noteq> None),
      session_parse = (\<lambda>d. case d of None \<Rightarrow> Inl ValidationError | Some s \<Rightarrow> Inr s)\<rparr>"

section \<open>Correctness of the in-memory store\<close>

lemma map_session_store_ops [simp]:
  "ss_get map_session_store st sid = Inr (store_get st sid)"
  "ss_save map_session_store st s = store_save st s"
  "ss_delete map_session_store st sid = store_delete st sid"
  by (simp_all add: map_session_store_def)

lemma mem_new_correct: "mem_alpha c mem_new = Map.empty" "mem_invar c mem_new"
  by (simp_all add: mem_alpha_def mem_invar_def mem_new_def fun_eq_iff)

lemma mem_invarD:
  assumes "mem_invar c m" and "m sid = Some d"
  shows "json_truthy c d \<and> (\<exists>s. session_parse c d = Inr s)"
proof -
  from assms have "json_truthy c d \<and> \<not> isl (session_parse c d)"
    by (auto simp: mem_invar_def intro: ranI)
  then show ?thesis by (cases "session_parse c d") auto
qed

lemma mem_get_correct: "mem_invar c m \<Longrightarrow> mem_get c m sid = Inr (store_get (mem_alpha c m) sid)"
  by (cases "m sid") (auto simp: mem_get_def mem_alpha_def store_get_def dest: mem_invarD)

lemma mem_save_correct:
  assumes "codec_ok c"
  shows "mem_alpha c (mem_save c m s) = store_save (mem_alpha c m) s"
    and "mem_invar c m \<Longrightarrow> mem_invar c (mem_save c m s)"
  using assms
  by (auto simp: mem_alpha_def mem_save_def store_save_def codec_ok_def mem_invar_def fun_eq_iff ran_def)

lemma mem_delete_correct:
  "mem_alpha c (mem_delete m sid) = store_delete (mem_alpha c m) sid"
  "mem_invar c m \<Longrightarrow> mem_invar c (mem_delete m sid)"
  by (auto simp: mem_alpha_def mem_delete_def store_delete_def mem_invar_def fun_eq_iff ran_def)

lemma map_store_run_never_raises: "\<not> isl (fst (store_run map_session_store st ops))"
  by (induction map_session_store st ops rule: store_run.induct)
     (auto simp: map_session_store_def split: prod.splits sum.splits)

text \<open>The simulation: from an abstracted state satisfying the invariant, the in-memory store
  and the map store give the same results, and the final states correspond.\<close>

lemma store_run_mem_refines:
  assumes "codec_ok c" and "mem_invar c m"
  shows "fst (store_run (in_memory_session_store c) m ops) = fst (store_run map_session_store (mem_alpha c m) ops)
         \<and> mem_alpha c (snd (store_run (in_memory_session_store c) m ops))
             = snd (store_run map_session_store (mem_alpha c m) ops)
         \<and> mem_invar c (snd (store_run (in_memory_session_store c) m ops))"
  using assms(2)
proof (induction ops arbitrary: m)
  case Nil
  then show ?case by simp
next
  case (Cons op ops)
  show ?case
  proof (cases op)
    case (Get sid)
    obtain r1 t1 where i: "store_run (in_memory_session_store c) m ops = (r1, t1)" by fastforce
    obtain r2 t2 where a: "store_run map_session_store (mem_alpha c m) ops = (r2, t2)" by fastforce
    from Cons.IH [OF Cons.prems] i a have "r1 = r2" "mem_alpha c t1 = t2" "mem_invar c t1" by simp_all
    with Get i a mem_get_correct [OF Cons.prems, of sid] show ?thesis
      by (cases r2) (simp_all add: in_memory_session_store_def map_session_store_def)
  next
    case (Save s)
    with Cons show ?thesis
      by (simp add: in_memory_session_store_def map_session_store_def mem_save_correct [OF assms(1)])
  next
    case (Delete sid)
    with Cons show ?thesis
      by (simp add: in_memory_session_store_def map_session_store_def mem_delete_correct)
  qed
qed

lemma codec_ok_option_codec: "codec_ok option_codec"
  by (simp add: codec_ok_def option_codec_def)

text \<open>
  Data refinement of the session store: for any codec satisfying pydantic's round
  trip, every sequence of \<open>get\<close>, \<open>save\<close> and \<open>delete\<close> calls on a fresh
  \<open>InMemorySessionStore()\<close> never raises in \<open>get\<close>, returns exactly what the map store
  of the routes returns from the empty store, and leaves a dictionary that reads back
  as the map store's final state.
\<close>

theorem in_memory_store_refines:
  assumes "codec_ok c"
  shows "\<not> isl (fst (store_run (in_memory_session_store c) mem_new ops))
         \<and> fst (store_run (in_memory_session_store c) mem_new ops) = fst (store_run map_session_store Map.empty ops)
         \<and> mem_alpha c (snd (store_run (in_memory_session_store c) mem_new ops))
             = snd (store_run map_session_store Map.empty ops)"
  using store_run_mem_refines [OF assms mem_new_correct(2), of ops]
        map_store_run_never_raises [of Map.empty ops]
  by (simp add: mem_new_correct(1))

theorem in_memory_store_refines_witness:
  "codec_ok option_codec
   \<and> fst (store_run (in_memory_session_store option_codec) mem_new
          [Save (new_session ''a''), Get ''a'', Delete ''a'', Get ''a''])
     = Inr [Some (new_session ''a''), None]"
proof -
  have c: "codec_ok option_codec" by (rule codec_ok_option_codec)
  have "fst (store_run map_session_store Map.empty
               [Save (new_session ''a''), Get ''a'', Delete ''a'', Get ''a''])
        = Inr [Some (new_session ''a''), None]"
    by (simp add: map_session_store_def store_save_def store_get_def store_delete_def new_session_def)
  with in_memory_store_refines [OF c, of "[Save (new_session ''a''), Get ''a'', Delete ''a'', Get ''a'']"] c
  show ?thesis by simp
qed

end
