(* ===== verification/Api.thy ===== *)
theory Api
  imports StateMachine Renderer Store
begin

text \<open>
  The HTTP routes (\<^verbatim>\<open>src/app/api/routes/chat.py\<close>, \<^verbatim>\<open>plans.py\<close>,
  \<^verbatim>\<open>sessions.py\<close>). Each route takes the store through the \<open>SessionStore\<close>
  interface of the \<open>Store\<close> theory, as its dependency \<open>store: SessionStore\<close> does, and
  returns either an HTTP error (status and detail) or its response, together with the new
  store state. The properties of this theory are proved on the map store
  \<open>map_session_store\<close>; the \<open>Deployment\<close> theory carries them to
  \<open>InMemorySessionStore\<close>. A request handled by a route runs alone: the store's lock
  serialises each call, and the model is the sequential one.
\<close>

section \<open>Responses and errors\<close>

datatype http_error = HTTPError int string

record chat_response =
  cr_session_id :: string
  cr_reply :: string
  cr_current_stage :: stage
  cr_stage_label :: string
  cr_is_complete :: bool
  cr_progress_percent :: int

record session_summary =
  sum_session_id :: string
  sum_current_stage :: stage
  sum_is_complete :: bool

fun stage_label :: "string \<Rightarrow> string" where
  "stage_label v =
     (if v = ''define_outcome'' then ''Stage 1: Define Outcome''
      else if v = ''strategic_constraints'' then ''Stage 2: Strategic Constraints''
      else if v = ''phases_and_milestones'' then ''Stage 3: Phases & Milestones''
      else if v = ''tasks_and_subtasks'' then ''Stage 4: Tasks & Subtasks''
      else if v = ''risk_and_governance'' then ''Stage 5: Risk & Governance''
      else if v = ''complete'' then ''Complete''
      else '''')"

text \<open>
  \<open>_progress\<close>: \<open>int((idx / (len(stages) - 1)) * 100)\<close>. The float expression was
  checked to truncate to \<open>idx * 100 div 5\<close> for each of the six indices (0, 20, 40,
  60, 80, 100), so it is modelled with integer division.
\<close>

definition progress :: "string \<Rightarrow> int" where
  "progress v =
     (let stages = map stage_value stage_order;
          idx = (case py_index stages v of Some i \<Rightarrow> i | None \<Rightarrow> length stages - 1)
      in int (idx * 100 div (length stages - 1)))"

text \<open>The HTTP error a failed reply call becomes (an uncaught exception is a 500).\<close>

fun chat_error :: "oracle_error \<Rightarrow> http_error" where
  "chat_error (APIStatusError code msg) =
     (if code = 400 \<and> sublist ''credit'' (py_lower msg)
      then HTTPError 503 (''The AI service is unavailable: insufficient API credits. ''
                          @ ''Please add credits at console.anthropic.com.'')
      else HTTPError 502 (''AI service error: '' @ msg))"
| "chat_error APIConnectionError = HTTPError 503 ''Could not reach the AI service. Please retry.''"
| "chat_error OtherError = HTTPError 500 ''Internal Server Error''"

section \<open>Routes\<close>

text \<open>
  The routes take the store through the \<open>SessionStore\<close> interface, as the dependency
  \<open>store: SessionStore\<close> of the sources does. An exception escaping \<open>store.get\<close> is
  not caught by any route: FastAPI answers 500.
\<close>

definition chat_turn ::
  "'s session_store \<Rightarrow> llm_oracle \<Rightarrow> 's \<Rightarrow> session \<Rightarrow> string \<Rightarrow> (http_error + chat_response) \<times> 's" where
  "chat_turn S orc st s msg =
     (case process_message orc s msg of
        (Inl e, _) \<Rightarrow> (Inl (chat_error e), st)
      | (Inr reply, s') \<Rightarrow>
          (Inr \<lparr>cr_session_id = session_id s', cr_reply = reply, cr_current_stage = current_stage s',
                cr_stage_label = stage_label (stage_value (current_stage s')),
                cr_is_complete = is_complete s',
                cr_progress_percent = progress (stage_value (current_stage s'))\<rparr>,
           ss_save S st s'))"

text \<open>\<open>POST /chat\<close>; \<open>fresh\<close> is the identifier \<open>uuid4()\<close> would give a new session.\<close>

definition chat ::
  "'s session_store \<Rightarrow> llm_oracle \<Rightarrow> 's \<Rightarrow> string option \<Rightarrow> string \<Rightarrow> string
   \<Rightarrow> (http_error + chat_response) \<times> 's" where
  "chat S orc st req_sid fresh msg =
     (if py_truthy req_sid
      then (case ss_get S st (the req_sid) of
              Inl _ \<Rightarrow> (Inl (HTTPError 500 ''Internal Server Error''), st)
            | Inr None \<Rightarrow> (Inl (HTTPError 404 ''Session not found''), st)
            | Inr (Some s) \<Rightarrow> chat_turn S orc st s msg)
      else (let s = new_session fresh in chat_turn S orc (ss_save S st s) s msg))"

definition not_ready_detail :: "stage \<Rightarrow> string" where
  "not_ready_detail st =
     ''Plan not yet complete. Currently at stage: '' @ stage_value st @ ''. ''
     @ ''Continue the conversation to finish all 5 stages.''"

text \<open>\<open>GET /session/{id}/plan\<close>; a compilation error would be an uncaught exception.\<close>

definition get_plan ::
  "'s session_store \<Rightarrow> 's \<Rightarrow> string \<Rightarrow> string \<Rightarrow> http_error + (project_plan \<times> string)" where
  "get_plan S st sid now =
     (case ss_get S st sid of
        Inl _ \<Rightarrow> Inl (HTTPError 500 ''Internal Server Error'')
      | Inr None \<Rightarrow> Inl (HTTPError 404 ''Session not found'')
      | Inr (Some s) \<Rightarrow>
          (if \<not> is_complete s then Inl (HTTPError 422 (not_ready_detail (current_stage s)))
           else (case compile_plan (stage_data s) now of
                   Inl _ \<Rightarrow> Inl (HTTPError 500 ''Internal Server Error'')
                 | Inr plan \<Rightarrow> Inr (plan, render plan))))"

definition get_session :: "'s session_store \<Rightarrow> 's \<Rightarrow> string \<Rightarrow> http_error + session_summary" where
  "get_session S st sid =
     (case ss_get S st sid of
        Inl _ \<Rightarrow> Inl (HTTPError 500 ''Internal Server Error'')
      | Inr None \<Rightarrow> Inl (HTTPError 404 ''Session not found'')
      | Inr (Some s) \<Rightarrow> Inr \<lparr>sum_session_id = session_id s, sum_current_stage = current_stage s,
                      sum_is_complete = is_complete s\<rparr>)"

text \<open>
  The store invariant: every stored session is filed under its own identifier and was
  produced from \<open>Session()\<close> by turns.
\<close>

definition store_inv :: "store \<Rightarrow> bool" where
  "store_inv st \<longleftrightarrow> (\<forall>sid s. st sid = Some s \<longrightarrow> session_id s = sid \<and> reachable_session s)"

text \<open>
  The shape the Messages API expects of a conversation: turns alternate between the user
  and the assistant, starting with the user (a log of complete exchanges).
\<close>

fun log_alternates :: "message list \<Rightarrow> bool" where
  "log_alternates [] = True"
| "log_alternates [m] = False"
| "log_alternates (m1 # m2 # ms) =
     (msg_role m1 = ''user'' \<and> msg_role m2 = ''assistant'' \<and> log_alternates ms)"

definition store_logs_alternate :: "store \<Rightarrow> bool" where
  "store_logs_alternate st \<longleftrightarrow> (\<forall>sid s. st sid = Some s \<longrightarrow> log_alternates (messages s))"

definition delete_session :: "'s session_store \<Rightarrow> 's \<Rightarrow> string \<Rightarrow> (http_error + unit) \<times> 's" where
  "delete_session S st sid =
     (case ss_get S st sid of
        Inl _ \<Rightarrow> (Inl (HTTPError 500 ''Internal Server Error''), st)
      | Inr None \<Rightarrow> (Inl (HTTPError 404 ''Session not found''), st)
      | Inr (Some _) \<Rightarrow> (Inr (), ss_delete S st sid))"

section \<open>Example data for the witnesses\<close>

text \<open>
  An oracle that answers every stage with a complete record of that stage; the tasks it
  proposes have one owner and a five-day duration, so no contradiction fires.
\<close>

definition demo_extraction :: "stage \<Rightarrow> stage_record option" where
  "demo_extraction st = (case st of
      DefineOutcome \<Rightarrow> Some (OutcomeRec example_outcome)
    | StrategicConstraints \<Rightarrow> Some (ConstraintsRec example_constraints)
    | PhasesAndMilestones \<Rightarrow>
        Some (PhasesRec \<lparr>pd_phases = [''Discovery'', ''Build''],
                         pd_milestones = [example_milestone_def ''MVP'']\<rparr>)
    | TasksAndSubtasks \<Rightarrow> Some (TasksRec \<lparr>ts_tasks = [example_task ''Alice'' (Some 5)]\<rparr>)
    | RiskAndGovernance \<Rightarrow> Some (RiskRec example_governance)
    | Complete \<Rightarrow> None)"

definition demo_oracle :: llm_oracle where
  "demo_oracle = \<lparr>reply_of = (\<lambda>_ _. Inr ''Noted.''), tool_output = (\<lambda>st _. demo_extraction st)\<rparr>"

section \<open>Lemmas\<close>

lemma parse_complete_records:
  "record_stage r = DefineOutcome \<Longrightarrow> \<exists>x. parse_outcome r = Some x"
  "\<exists>x. parse_constraints r = Some x"
  "record_stage r = PhasesAndMilestones \<Longrightarrow> \<exists>x. parse_phases r = Some x"
  "record_stage r = TasksAndSubtasks \<Longrightarrow> \<exists>x. parse_tasks r = Some x"
  "record_stage r = RiskAndGovernance \<Longrightarrow> \<exists>x. parse_risk r = Some x"
  by (cases r; simp)+

lemma load_record_committed:
  assumes "session_inv s" and "current_stage s = Complete" and "st \<noteq> Complete"
    and "\<And>r. record_stage r = st \<Longrightarrow> \<exists>x. parse r = Some x"
  shows "\<exists>x. load_record (stage_data s) st parse = Inr x"
proof -
  from assms(3) have "st < Complete" by (cases st) (simp_all add: less_stage_def)
  with assms(1,2) obtain r where r: "stage_data s st = Some r" "record_stage r = st"
    unfolding session_inv_iff by (metis option.exhaust)
  from assms(4) [OF r(2)] obtain x where "parse r = Some x" by blast
  with r(1) show ?thesis by (simp add: load_record_def)
qed

lemma compile_plan_complete:
  assumes "session_inv s" and "current_stage s = Complete"
  shows "\<exists>plan. compile_plan (stage_data s) now = Inr plan"
proof -
  note l = load_record_committed [OF assms]
  obtain od where "load_record (stage_data s) DefineOutcome parse_outcome = Inr od"
    using l [of DefineOutcome parse_outcome] parse_complete_records(1) by auto
  moreover obtain c where "load_record (stage_data s) StrategicConstraints parse_constraints = Inr c"
    using l [of StrategicConstraints parse_constraints] parse_complete_records(2) by auto
  moreover obtain pd where "load_record (stage_data s) PhasesAndMilestones parse_phases = Inr pd"
    using l [of PhasesAndMilestones parse_phases] parse_complete_records(3) by auto
  moreover obtain td where "load_record (stage_data s) TasksAndSubtasks parse_tasks = Inr td"
    using l [of TasksAndSubtasks parse_tasks] parse_complete_records(4) by auto
  moreover obtain rg where "load_record (stage_data s) RiskAndGovernance parse_risk = Inr rg"
    using l [of RiskAndGovernance parse_risk] parse_complete_records(5) by auto
  ultimately show ?thesis by (simp add: compile_plan_def)
qed

lemma store_inv_save:
  "store_inv st \<Longrightarrow> reachable_session s \<Longrightarrow> store_inv (store_save st s)"
  by (simp add: store_inv_def store_save_def)

lemma chat_turn_store_inv:
  "store_inv st \<Longrightarrow> reachable_session s \<Longrightarrow> store_inv (snd (chat_turn map_session_store orc st s msg))"
  using reachable_session.turn [of s orc msg]
  by (auto simp: chat_turn_def store_inv_save split: prod.splits sum.splits)

lemma log_alternates_snoc2:
  "log_alternates (ms @ [a, b]) \<longleftrightarrow>
     log_alternates ms \<and> msg_role a = ''user'' \<and> msg_role b = ''assistant''"
  by (induction ms rule: log_alternates.induct) auto

lemma process_message_log:
  assumes "fst (process_message orc s u) = Inr reply"
  shows "messages (snd (process_message orc s u))
           = messages s @ [\<lparr>msg_role = ''user'', msg_content = u\<rparr>,
                           \<lparr>msg_role = ''assistant'', msg_content = reply\<rparr>]"
  using assms
  by (auto simp: process_message_def Let_def store_and_advance_def add_message_def
           split: if_splits sum.splits option.splits)

lemma chat_turn_logs:
  assumes "store_logs_alternate st" and "log_alternates (messages s)"
  shows "store_logs_alternate (snd (chat_turn map_session_store orc st s msg))"
proof (cases "process_message orc s msg")
  case (Pair res s')
  show ?thesis
  proof (cases res)
    case (Inl e)
    with Pair assms(1) show ?thesis by (simp add: chat_turn_def)
  next
    case (Inr reply)
    with Pair process_message_log [of orc s msg reply] assms(2)
    have "log_alternates (messages s')" by (simp add: log_alternates_snoc2)
    with Pair Inr assms(1) show ?thesis
      by (simp add: chat_turn_def store_logs_alternate_def store_save_def)
  qed
qed

subsection \<open>Properties of the routes\<close>

text \<open>
  C24. Plan retrieval on a store built by the chat route: for a stored session, the plan
  route returns the compiled plan and its rendering when the session is complete, and the
  not-ready error naming the current stage otherwise; compilation never fails.
\<close>

theorem get_plan_stored:
  assumes "store_inv st" and "st sid = Some s"
  shows "(is_complete s \<longrightarrow> (\<exists>plan. get_plan map_session_store st sid now = Inr (plan, render plan)))
    \<and> (\<not> is_complete s \<longrightarrow> get_plan map_session_store st sid now = Inl (HTTPError 422 (not_ready_detail (current_stage s))))"
proof -
  from assms have inv: "session_inv s"
    by (auto simp: store_inv_def intro: reachable_session_invariant)
  have "\<exists>plan. get_plan map_session_store st sid now = Inr (plan, render plan)" if "is_complete s"
  proof -
    from inv that have "current_stage s = Complete" by (simp add: session_inv_iff)
    with inv obtain plan where "compile_plan (stage_data s) now = Inr plan"
      using compile_plan_complete by blast
    with assms(2) that show ?thesis by (simp add: get_plan_def store_get_def)
  qed
  then show ?thesis using assms(2) by (simp add: get_plan_def store_get_def)
qed

theorem get_plan_stored_witness:
  "store_inv [''s1'' \<mapsto> new_session ''s1'']
   \<and> get_plan map_session_store [''s1'' \<mapsto> new_session ''s1''] ''s1'' ''now''
       = Inl (HTTPError 422 (not_ready_detail DefineOutcome))"
proof -
  have h: "store_inv [''s1'' \<mapsto> new_session ''s1'']"
    using reachable_session.created [of "''s1''"] by (simp add: store_inv_def new_session_def)
  have s: "[''s1'' \<mapsto> new_session ''s1''] ''s1'' = Some (new_session ''s1'')" by simp
  have c: "\<not> is_complete (new_session ''s1'')" "current_stage (new_session ''s1'') = DefineOutcome"
    by (simp_all add: new_session_def)
  from get_plan_stored [OF h s, of "''now''"] c h show ?thesis by (simp add: fun_upd_def)
qed

text \<open>
  The chat route keeps the store invariant: after any request, every stored session is
  filed under its own identifier and is reachable by turns.
\<close>

lemma chat_store_inv:
  assumes "store_inv st"
  shows "store_inv (snd (chat map_session_store orc st req fresh msg))"
proof -
  have "reachable_session (new_session fresh)" by (rule reachable_session.created)
  moreover have "store_inv (store_save st (new_session fresh))"
    using assms calculation by (rule store_inv_save)
  moreover have "reachable_session s" if "st sid = Some s" for sid s
    using assms that by (simp add: store_inv_def)
  ultimately show ?thesis
    using assms by (auto simp: chat_def store_get_def Let_def intro: chat_turn_store_inv split: option.splits)
qed

text \<open>
  C26. A failed model call on an existing session leaves the store unchanged: the chat
  route answers with the mapped HTTP error and saves nothing, so the user's message that
  \<open>process_message\<close> appended is not persisted.
\<close>

theorem chat_error_keeps_store:
  assumes "sid \<noteq> []" and "st sid = Some s"
    and "fst (process_message orc s msg) = Inl e"
  shows "chat map_session_store orc st (Some sid) fresh msg = (Inl (chat_error e), st)"
  using assms by (auto simp: chat_def chat_turn_def store_get_def split: prod.splits sum.splits)

theorem chat_error_keeps_store_witness:
  "chat map_session_store \<lparr>reply_of = (\<lambda>_ _. Inl APIConnectionError), tool_output = (\<lambda>_ _. None)\<rparr>
     [''s8'' \<mapsto> new_session ''s8''] (Some ''s8'') ''fresh'' ''hi''
   = (Inl (HTTPError 503 ''Could not reach the AI service. Please retry.''), [''s8'' \<mapsto> new_session ''s8''])"
proof -
  have e: "fst (process_message \<lparr>reply_of = (\<lambda>_ _. Inl APIConnectionError), tool_output = (\<lambda>_ _. None)\<rparr>
              (new_session ''s8'') ''hi'') = Inl APIConnectionError"
    by (simp add: process_message_def new_session_def generate_reply_def)
  from chat_error_keeps_store [of "''s8''" "[''s8'' \<mapsto> new_session ''s8'']", OF _ _ e] show ?thesis
    by simp
qed

text \<open>
  C27. Progress is \<open>20\<close> per completed stage: for every stage the percentage reported
  is twenty times its index in \<open>STAGE_ORDER\<close>, hence between 0 and 100, and 100
  exactly at the terminal stage.
\<close>

theorem progress_stage:
  "progress (stage_value st) = 20 * int (stage_index st)
   \<and> 0 \<le> progress (stage_value st) \<and> progress (stage_value st) \<le> 100
   \<and> (progress (stage_value st) = 100 \<longleftrightarrow> st = Complete)"
  by (cases st) (simp_all add: progress_def stage_order_def)

text \<open>
  The chat response agrees with the store: after a successful request, looking the
  returned session identifier up gives the stage and completion flag that were returned.
\<close>

lemma chat_response_stored:
  assumes "chat map_session_store orc st req fresh msg = (Inr r, st')"
  shows "get_session map_session_store st' (cr_session_id r) =
           Inr \<lparr>sum_session_id = cr_session_id r, sum_current_stage = cr_current_stage r,
                sum_is_complete = cr_is_complete r\<rparr>"
  using assms
  by (auto simp: chat_def chat_turn_def get_session_def store_get_def store_save_def Let_def
      split: if_splits option.splits prod.splits sum.splits)

text \<open>
  C38. Type of the compiled plan: the plan compiled from a completed reachable session is
  well formed (governance and generation time present, only the structure of its type
  used), its type is one of the two recognised values, and it holds one milestone per
  committed milestone definition.
\<close>

theorem compiled_plan_typed:
  assumes "reachable_session s" and "is_complete s" and "compile_plan (stage_data s) now = Inr plan"
  shows "plan_wf plan \<and> plan_project_type plan \<in> {''general'', ''program''}
    \<and> (\<exists>pd. stage_data s PhasesAndMilestones = Some (PhasesRec pd)
             \<and> plan_milestone_count plan = length (pd_milestones pd))"
proof -
  have inv: "session_inv s" using assms(1) by (rule reachable_session_invariant)
  from assms(3) obtain od c pd td rg where
    lo: "load_record (stage_data s) DefineOutcome parse_outcome = Inr od"
    and lp: "load_record (stage_data s) PhasesAndMilestones parse_phases = Inr pd"
    and pl: "plan = assemble_plan od c pd td rg now"
    unfolding compile_plan_Inr by blast
  from lo obtain r where r: "stage_data s DefineOutcome = Some r" "parse_outcome r = Some od"
    by (auto simp: load_record_Inr)
  with inv have "has_required_fields r" "record_stage r = DefineOutcome"
    by (auto simp: session_inv_iff)
  with r have "outcome_required od" by (cases r) simp_all
  then have ty: "od_project_type od \<in> {''general'', ''program''}" by (auto simp: outcome_required_def)
  from lp obtain r' where r': "stage_data s PhasesAndMilestones = Some r'" "parse_phases r' = Some pd"
    by (auto simp: load_record_Inr)
  then have "stage_data s PhasesAndMilestones = Some (PhasesRec pd)" by (cases r') simp_all
  with assemble_plan_shape [of od c pd td rg now] ty pl show ?thesis by auto
qed

theorem compiled_plan_typed_witness:
  "\<exists>plan. compile_plan (stage_data (run_turns demo_oracle (new_session ''w'') [''a'', ''b'', ''c'', ''d'', ''e'']))
           ''now'' = Inr plan
     \<and> plan_wf plan \<and> plan_project_type plan \<in> {''general'', ''program''}
     \<and> (\<exists>pd. stage_data (run_turns demo_oracle (new_session ''w'') [''a'', ''b'', ''c'', ''d'', ''e''])
              PhasesAndMilestones = Some (PhasesRec pd)
            \<and> plan_milestone_count plan = length (pd_milestones pd))"
proof -
  let ?s = "run_turns demo_oracle (new_session ''w'') [''a'', ''b'', ''c'', ''d'', ''e'']"
  have r: "reachable_session ?s" by (rule run_turns_reachable [OF reachable_session.created])
  have c: "is_complete ?s" "current_stage ?s = Complete" by code_simp+
  obtain plan where p: "compile_plan (stage_data ?s) ''now'' = Inr plan"
    using compile_plan_complete [OF reachable_session_invariant [OF r] c(2)] by blast
  from compiled_plan_typed [OF r c(1) p] p show ?thesis by blast
qed

text \<open>
  Every session the chat route stores has a log of complete exchanges, alternating
  user and assistant turns and starting with the user, so the message list of the next
  reply request (the log and the new user turn) is in the form the Messages API expects.
  A turn whose model call failed leaves no unanswered user turn in the store.
\<close>

lemma chat_logs_alternate:
  assumes "store_logs_alternate st"
  shows "store_logs_alternate (snd (chat map_session_store orc st req fresh msg))"
proof -
  have n: "log_alternates (messages (new_session fresh))" by (simp add: new_session_def)
  have "store_logs_alternate (store_save st (new_session fresh))"
    using assms n by (simp add: store_logs_alternate_def store_save_def)
  moreover have "log_alternates (messages s)" if "st sid = Some s" for sid s
    using assms that by (simp add: store_logs_alternate_def)
  ultimately show ?thesis
    using assms n
    by (auto simp: chat_def store_get_def Let_def intro: chat_turn_logs split: option.splits)
qed

end
