(* ===== verification/App.thy ===== *)
theory App
  imports Api
begin

text \<open>
  The application of \<^verbatim>\<open>src/app/main.py\<close>: the route table it builds (the routes
  FastAPI adds for its documentation, \<^verbatim>\<open>/health\<close>, \<^verbatim>\<open>/\<close>, the static mount and
  the three routers included under \<^verbatim>\<open>/api/v1\<close>), the router's dispatch, and one
  request-to-response function that runs the route handlers of the \<open>Api\<close> theory on the
  single store of \<^verbatim>\<open>dependencies.py\<close>. Dispatch follows Starlette's router: the
  routes are tried in order; the first route whose path and method match handles the
  request; otherwise the first route whose path matches answers 405; otherwise, if the
  path with its trailing slash toggled would match, the answer is a redirect (307); else
  404. A path parameter \<open>{name}\<close> matches one non-empty segment without \<open>/\<close>; a mount
  at \<open>p\<close> matches the paths that start with \<open>p/\<close>. The request body of
  \<^verbatim>\<open>POST /chat\<close> is given already parsed into \<open>ChatRequest\<close> (or as invalid).
\<close>

section \<open>Routes\<close>

datatype endpoint =
    OpenAPISchema | SwaggerUI | SwaggerRedirect | ReDoc
  | HealthCheck | ServeUI | StaticFiles
  | ChatRoute | GetSessionRoute | DeleteSessionRoute | GetPlanRoute

text \<open>A route: its methods, its path template and its endpoint, or a mount at a path.\<close>

datatype route = APIRoute "string list" string endpoint | MountRoute string

text \<open>The routers of \<^verbatim>\<open>chat.py\<close>, \<^verbatim>\<open>sessions.py\<close> and \<^verbatim>\<open>plans.py\<close>.\<close>

definition chat_router :: "route list" where
  "chat_router = [APIRoute [''POST''] ''/chat'' ChatRoute]"

definition sessions_router :: "route list" where
  "sessions_router =
     [APIRoute [''GET''] ''/session/{session_id}'' GetSessionRoute,
      APIRoute [''DELETE''] ''/session/{session_id}'' DeleteSessionRoute]"

definition plans_router :: "route list" where
  "plans_router = [APIRoute [''GET''] ''/session/{session_id}/plan'' GetPlanRoute]"

text \<open>\<open>app.include_router(router, prefix=p)\<close>.\<close>

fun with_prefix :: "string \<Rightarrow> route \<Rightarrow> route" where
  "with_prefix p (APIRoute ms path ep) = APIRoute ms (p @ path) ep"
| "with_prefix p (MountRoute path) = MountRoute (p @ path)"

text \<open>
  \<open>app.router.routes\<close> in registration order. \<open>FastAPI(...)\<close> registers its
  documentation routes first (plain Starlette routes, so \<open>HEAD\<close> is allowed with
  \<open>GET\<close>); the decorated endpoints allow only the method they name.
\<close>

definition app_routes :: "route list" where
  "app_routes =
     [APIRoute [''GET'', ''HEAD''] ''/openapi.json'' OpenAPISchema,
      APIRoute [''GET'', ''HEAD''] ''/docs'' SwaggerUI,
      APIRoute [''GET'', ''HEAD''] ''/docs/oauth2-redirect'' SwaggerRedirect,
      APIRoute [''GET'', ''HEAD''] ''/redoc'' ReDoc,
      APIRoute [''GET''] ''/health'' HealthCheck,
      APIRoute [''GET''] ''/'' ServeUI,
      MountRoute ''/static'']
     @ map (with_prefix ''/api/v1'') chat_router
     @ map (with_prefix ''/api/v1'') sessions_router
     @ map (with_prefix ''/api/v1'') plans_router"

section \<open>Matching\<close>

definition is_param_seg :: "string \<Rightarrow> bool" where
  "is_param_seg t \<longleftrightarrow> t \<noteq> [] \<and> hd t = CHR ''{'' \<and> last t = CHR ''}''"

definition param_name :: "string \<Rightarrow> string" where
  "param_name t = butlast (tl t)"

text \<open>Template segments against path segments, collecting the path parameters.\<close>

fun match_segs :: "string list \<Rightarrow> string list \<Rightarrow> (string \<times> string) list option" where
  "match_segs [] [] = Some []"
| "match_segs (t # ts) (x # xs) =
     (if is_param_seg t then (if x \<noteq> [] then map_option (\<lambda>ps. (param_name t, x) # ps) (match_segs ts xs) else None)
      else if t = x then match_segs ts xs else None)"
| "match_segs _ _ = None"

datatype route_match = NoMatch | Partial endpoint | Full endpoint "(string \<times> string) list"

fun route_matches :: "string \<Rightarrow> string \<Rightarrow> route \<Rightarrow> route_match" where
  "route_matches m path (APIRoute ms tmpl ep) =
     (case match_segs (py_split_on CHR ''/'' tmpl) (py_split_on CHR ''/'' path) of
        None \<Rightarrow> NoMatch
      | Some ps \<Rightarrow> (if m \<in> set ms then Full ep ps else Partial ep))"
| "route_matches m path (MountRoute p) =
     (if prefix (p @ ''/'') path then Full StaticFiles [(''path'', drop (length p + 1) path)] else NoMatch)"

fun first_full :: "string \<Rightarrow> string \<Rightarrow> route list \<Rightarrow> (endpoint \<times> (string \<times> string) list) option" where
  "first_full m path [] = None"
| "first_full m path (r # rs) =
     (case route_matches m path r of Full ep ps \<Rightarrow> Some (ep, ps) | _ \<Rightarrow> first_full m path rs)"

definition any_match :: "string \<Rightarrow> string \<Rightarrow> route list \<Rightarrow> bool" where
  "any_match m path rs \<longleftrightarrow> list_ex (\<lambda>r. route_matches m path r \<noteq> NoMatch) rs"

text \<open>\<open>redirect_slashes\<close>: the path with its trailing slashes stripped, or with one added.\<close>

definition toggled_slash :: "string \<Rightarrow> string" where
  "toggled_slash path =
     (if path \<noteq> [] \<and> last path = CHR ''/''
      then rev (dropWhile (\<lambda>ch. ch = CHR ''/'') (rev path)) else path @ ''/'')"

datatype dispatch_result =
    Handled endpoint "(string \<times> string) list" | MethodNotAllowed | RedirectTo string | NotFound

definition dispatch :: "string \<Rightarrow> string \<Rightarrow> dispatch_result" where
  "dispatch m path =
     (case first_full m path app_routes of
        Some (ep, ps) \<Rightarrow> Handled ep ps
      | None \<Rightarrow>
          (if any_match m path app_routes then MethodNotAllowed
           else if path \<noteq> ''/'' \<and> any_match m (toggled_slash path) app_routes
           then RedirectTo (toggled_slash path) else NotFound))"

section \<open>Requests and responses\<close>

record chat_request =
  req_session_id :: "string option"
  req_message :: string

record http_request =
  hr_method :: string
  hr_path :: string
  hr_body :: "chat_request option"

datatype http_response =
    ChatOK chat_response
  | PlanOK string project_plan string
  | SessionOK session_summary
  | NoContent
  | HealthOK
  | FileResponse string
  | FrameworkPage endpoint
  | ValidationFailed
  | ErrorResponse http_error
  | Redirect string

definition param :: "(string \<times> string) list \<Rightarrow> string \<Rightarrow> string" where
  "param ps k = (case map_of ps k of Some v \<Rightarrow> v | None \<Rightarrow> [])"

definition respond :: "(http_error + 'a) \<Rightarrow> ('a \<Rightarrow> http_response) \<Rightarrow> http_response" where
  "respond r f = (case r of Inl e \<Rightarrow> ErrorResponse e | Inr x \<Rightarrow> f x)"

text \<open>
  One request against the application: \<open>orc\<close> is the model behind the chat route,
  \<open>fresh\<close> the identifier \<open>uuid4()\<close> would give a new session and \<open>now\<close> the time.
\<close>

definition handle_request ::
  "'s session_store \<Rightarrow> llm_oracle \<Rightarrow> 's \<Rightarrow> string \<Rightarrow> string \<Rightarrow> http_request \<Rightarrow> http_response \<times> 's" where
  "handle_request S orc st fresh now rq =
     (case dispatch (hr_method rq) (hr_path rq) of
        Handled ChatRoute _ \<Rightarrow>
          (case hr_body rq of
             None \<Rightarrow> (ValidationFailed, st)
           | Some b \<Rightarrow>
               (let (r, st') = chat S orc st (req_session_id b) fresh (req_message b)
                in (respond r ChatOK, st')))
      | Handled GetSessionRoute ps \<Rightarrow> (respond (get_session S st (param ps ''session_id'')) SessionOK, st)
      | Handled DeleteSessionRoute ps \<Rightarrow>
          (let (r, st') = delete_session S st (param ps ''session_id'')
           in (respond r (\<lambda>_. NoContent), st'))
      | Handled GetPlanRoute ps \<Rightarrow>
          (respond (get_plan S st (param ps ''session_id'') now)
                   (\<lambda>(plan, md). PlanOK (param ps ''session_id'') plan md), st)
      | Handled HealthCheck _ \<Rightarrow> (HealthOK, st)
      | Handled ServeUI _ \<Rightarrow> (FileResponse ''static/index.html'', st)
      | Handled StaticFiles ps \<Rightarrow> (FileResponse (''static/'' @ param ps ''path''), st)
      | Handled ep _ \<Rightarrow> (FrameworkPage ep, st)
      | MethodNotAllowed \<Rightarrow> (ErrorResponse (HTTPError 405 ''Method Not Allowed''), st)
      | RedirectTo p \<Rightarrow> (Redirect p, st)
      | NotFound \<Rightarrow> (ErrorResponse (HTTPError 404 ''Not Found''), st))"

text \<open>A client's sequence of requests against the single store.\<close>

fun run_requests ::
  "'s session_store \<Rightarrow> llm_oracle \<Rightarrow> 's \<Rightarrow> (string \<times> string \<times> http_request) list
   \<Rightarrow> http_response list \<times> 's" where
  "run_requests S orc st [] = ([], st)"
| "run_requests S orc st ((fresh, now, rq) # rqs) =
     (let (r, st') = handle_request S orc st fresh now rq;
          (rs, st'') = run_requests S orc st' rqs
      in (r # rs, st''))"

text \<open>The store invariants of \<open>Api\<close> together: sessions reachable, logs alternating.\<close>

definition store_ok :: "store \<Rightarrow> bool" where
  "store_ok st \<longleftrightarrow> store_inv st \<and> store_logs_alternate st"

section \<open>Lemmas on routing\<close>

lemma first_full_SomeD:
  "first_full m path rs = Some (ep, ps) \<Longrightarrow> \<exists>r\<in>set rs. route_matches m path r = Full ep ps"
  by (induction m path rs rule: first_full.induct) (auto split: route_match.splits)

lemma match_segs_Nil [simp]: "match_segs [] xs = Some ps \<longleftrightarrow> xs = [] \<and> ps = []"
  by (cases xs) auto

lemma match_segs_lit [simp]:
  "\<not> is_param_seg t \<Longrightarrow>
   match_segs (t # ts) xs = Some ps \<longleftrightarrow> (\<exists>xs'. xs = t # xs' \<and> match_segs ts xs' = Some ps)"
  by (cases xs) auto

lemma match_segs_param [simp]:
  "is_param_seg t \<Longrightarrow>
   match_segs (t # ts) xs = Some ps \<longleftrightarrow>
     (\<exists>x xs' ps'. xs = x # xs' \<and> x \<noteq> [] \<and> match_segs ts xs' = Some ps' \<and> ps = (param_name t, x) # ps')"
  by (cases xs) auto

lemma route_matches_Full:
  "route_matches m path (APIRoute ms tmpl ep') = Full ep ps \<longleftrightarrow>
     ep' = ep \<and> m \<in> set ms \<and> match_segs (py_split_on CHR ''/'' tmpl) (py_split_on CHR ''/'' path) = Some ps"
  "route_matches m path (MountRoute q) = Full ep ps \<longleftrightarrow>
     ep = StaticFiles \<and> prefix (q @ ''/'') path \<and> ps = [(''path'', drop (length q + 1) path)]"
  by (auto split: option.splits)

lemma dispatch_Handled:
  "dispatch m path = Handled ep ps \<longleftrightarrow> first_full m path app_routes = Some (ep, ps)"
  by (auto simp: dispatch_def split: option.splits)

text \<open>A path is the join of its segments; segments without \<open>/\<close> give back the path.\<close>

lemma split_path_eq:
  "py_split_on CHR ''/'' path = segs \<Longrightarrow> path = py_join ''/'' segs"
  using py_join_split_on [of "CHR ''/''" path] by simp

lemma session_seg [simp]:
  "is_param_seg ''{session_id}''" "param_name ''{session_id}'' = ''session_id''"
  by (simp_all add: is_param_seg_def param_name_def)

lemmas app_route_defs =
  app_routes_def chat_router_def sessions_router_def plans_router_def is_param_seg_def param_name_def

lemma session_path_split:
  "CHR ''/'' \<notin> set x \<Longrightarrow> py_split_on CHR ''/'' (''/api/v1/session/'' @ x) = [[], ''api'', ''v1'', ''session'', x]"
  "CHR ''/'' \<notin> set x \<Longrightarrow>
   py_split_on CHR ''/'' (''/api/v1/session/'' @ x @ ''/plan'') = [[], ''api'', ''v1'', ''session'', x, ''plan'']"
  by (simp_all add: py_split_on_append_sep py_split_on_no_sep)

lemma route_template_segments:
  "py_split_on CHR ''/'' ''/openapi.json'' = [[], ''openapi.json'']"
  "py_split_on CHR ''/'' ''/docs'' = [[], ''docs'']"
  "py_split_on CHR ''/'' ''/docs/oauth2-redirect'' = [[], ''docs'', ''oauth2-redirect'']"
  "py_split_on CHR ''/'' ''/redoc'' = [[], ''redoc'']"
  "py_split_on CHR ''/'' ''/health'' = [[], ''health'']"
  "py_split_on CHR ''/'' ''/'' = [[], []]"
  "py_split_on CHR ''/'' ''/api/v1/chat'' = [[], ''api'', ''v1'', ''chat'']"
  "py_split_on CHR ''/'' ''/api/v1/session/{session_id}'' = [[], ''api'', ''v1'', ''session'', ''{session_id}'']"
  "py_split_on CHR ''/'' ''/api/v1/session/{session_id}/plan''
     = [[], ''api'', ''v1'', ''session'', ''{session_id}'', ''plan'']"
  by simp_all

text \<open>What a request routed to an endpoint of the API looks like.\<close>

lemma dispatch_api_cases:
  assumes "dispatch m path = Handled ep ps"
  shows "(ep = ChatRoute \<longrightarrow> m = ''POST'' \<and> py_split_on CHR ''/'' path = [[], ''api'', ''v1'', ''chat''] \<and> ps = [])
    \<and> (ep = GetSessionRoute \<longrightarrow> m = ''GET'' \<and> (\<exists>x. x \<noteq> [] \<and> ps = [(''session_id'', x)]
          \<and> py_split_on CHR ''/'' path = [[], ''api'', ''v1'', ''session'', x]))
    \<and> (ep = DeleteSessionRoute \<longrightarrow> m = ''DELETE'' \<and> (\<exists>x. x \<noteq> [] \<and> ps = [(''session_id'', x)]
          \<and> py_split_on CHR ''/'' path = [[], ''api'', ''v1'', ''session'', x]))
    \<and> (ep = GetPlanRoute \<longrightarrow> m = ''GET'' \<and> (\<exists>x. x \<noteq> [] \<and> ps = [(''session_id'', x)]
          \<and> py_split_on CHR ''/'' path = [[], ''api'', ''v1'', ''session'', x, ''plan'']))"
proof -
  from assms obtain r where "r \<in> set app_routes" "route_matches m path r = Full ep ps"
    by (auto simp: dispatch_Handled dest: first_full_SomeD)
  then show ?thesis
    by (auto simp: app_route_defs route_matches_Full simp del: route_matches.simps)
qed

lemma path_of_segments:
  "py_split_on CHR ''/'' path = [[], ''api'', ''v1'', ''chat''] \<Longrightarrow> path = ''/api/v1/chat''"
  "py_split_on CHR ''/'' path = [[], ''api'', ''v1'', ''session'', x] \<Longrightarrow>
     CHR ''/'' \<notin> set x \<and> path = ''/api/v1/session/'' @ x"
  "py_split_on CHR ''/'' path = [[], ''api'', ''v1'', ''session'', x, ''plan''] \<Longrightarrow>
     CHR ''/'' \<notin> set x \<and> path = ''/api/v1/session/'' @ x @ ''/plan''"
  using split_path_eq [of path] py_split_on_pieces [of x "CHR ''/''" path] by simp_all

text \<open>The converse: the API paths reach their endpoints.\<close>

lemma dispatch_session_paths:
  assumes "x \<noteq> []" and "CHR ''/'' \<notin> set x"
  shows "dispatch ''GET'' (''/api/v1/session/'' @ x) = Handled GetSessionRoute [(''session_id'', x)]"
    and "dispatch ''DELETE'' (''/api/v1/session/'' @ x) = Handled DeleteSessionRoute [(''session_id'', x)]"
    and "dispatch ''GET'' (''/api/v1/session/'' @ x @ ''/plan'') = Handled GetPlanRoute [(''session_id'', x)]"
proof -
  let ?p = "''/api/v1/session/'' @ x" and ?q = "''/api/v1/session/'' @ x @ ''/plan''"
  have sp: "py_split_on CHR ''/'' ?p = [[], ''api'', ''v1'', ''session'', x]"
    "py_split_on CHR ''/'' ?q = [[], ''api'', ''v1'', ''session'', x, ''plan'']"
    using session_path_split [OF assms(2)] by simp_all
  have np: "\<not> prefix ''/static/'' ?p" "\<not> prefix ''/static/'' ?q" by simp_all
  show "dispatch ''GET'' ?p = Handled GetSessionRoute [(''session_id'', x)]"
    "dispatch ''DELETE'' ?p = Handled DeleteSessionRoute [(''session_id'', x)]"
    "dispatch ''GET'' ?q = Handled GetPlanRoute [(''session_id'', x)]"
    unfolding dispatch_Handled using sp np assms(1)
    by (simp_all del: py_split_on.simps add: app_route_defs route_template_segments)
qed

section \<open>Lemmas on the store\<close>

lemma store_ok_delete: "store_ok st \<Longrightarrow> store_ok (snd (delete_session map_session_store st sid))"
  by (auto simp: store_ok_def store_inv_def store_logs_alternate_def delete_session_def
                 store_get_def store_delete_def split: option.splits)

lemma store_ok_chat: "store_ok st \<Longrightarrow> store_ok (snd (chat map_session_store orc st req fresh msg))"
  by (simp add: store_ok_def chat_store_inv chat_logs_alternate)

lemma handle_request_store_ok:
  "store_ok st \<Longrightarrow> store_ok (snd (handle_request map_session_store orc st fresh now rq))"
  by (auto simp: handle_request_def Let_def case_prod_unfold store_ok_chat store_ok_delete
           split: dispatch_result.splits endpoint.splits option.splits)

lemma run_requests_store_ok:
  "store_ok st \<Longrightarrow> store_ok (snd (run_requests map_session_store orc st rqs))"
proof (induction rqs arbitrary: st)
  case Nil
  then show ?case by simp
next
  case (Cons x rqs)
  obtain fresh now rq where x: "x = (fresh, now, rq)" by (cases x) auto
  obtain r st' where h: "handle_request map_session_store orc st fresh now rq = (r, st')" by fastforce
  from handle_request_store_ok [OF Cons.prems, of orc fresh now rq] h have "store_ok st'" by simp
  from Cons.IH [OF this] x h show ?case by (simp add: case_prod_unfold Let_def)
qed

lemma handle_request_ChatOK:
  assumes "handle_request map_session_store orc st fresh now rq = (ChatOK r, st')"
  shows "\<exists>b. hr_body rq = Some b \<and> chat map_session_store orc st (req_session_id b) fresh (req_message b) = (Inr r, st')"
  using assms
  by (auto simp: handle_request_def respond_def Let_def case_prod_unfold prod_eq_iff
           split: dispatch_result.splits endpoint.splits option.splits sum.splits)

section \<open>Properties of the application\<close>

text \<open>
  C25. Store invariants over the whole HTTP interface: whatever sequence of requests the
  application serves from its empty store, and whatever the model answers, every stored
  session is filed under its own identifier, is reachable from \<open>Session()\<close> by turns
  (so it satisfies the controller's invariant), and has a log of complete user/assistant
  exchanges.
\<close>

theorem requests_keep_store_invariants:
  "store_inv (snd (run_requests map_session_store orc Map.empty rqs))
   \<and> store_logs_alternate (snd (run_requests map_session_store orc Map.empty rqs))"
proof -
  have "store_ok Map.empty" by (simp add: store_ok_def store_inv_def store_logs_alternate_def)
  from run_requests_store_ok [OF this] show ?thesis by (simp add: store_ok_def)
qed

theorem requests_keep_store_invariants_witness:
  "store_inv (snd (run_requests map_session_store example_oracle Map.empty
      [(''s1'', ''now'', \<lparr>hr_method = ''POST'', hr_path = ''/api/v1/chat'',
                          hr_body = Some \<lparr>req_session_id = None, req_message = ''hi''\<rparr>\<rparr>)]))
   \<and> store_logs_alternate (snd (run_requests map_session_store example_oracle Map.empty
      [(''s1'', ''now'', \<lparr>hr_method = ''POST'', hr_path = ''/api/v1/chat'',
                          hr_body = Some \<lparr>req_session_id = None, req_message = ''hi''\<rparr>\<rparr>)]))"
  by (rule requests_keep_store_invariants)

text \<open>
  C34. Routing of the API: a request reaches the chat endpoint exactly when it is
  \<^verbatim>\<open>POST /api/v1/chat\<close>, the session endpoints exactly when it is \<^verbatim>\<open>GET\<close> or
  \<^verbatim>\<open>DELETE /api/v1/session/{id}\<close>, and the plan endpoint exactly when it is
  \<^verbatim>\<open>GET /api/v1/session/{id}/plan\<close>, with \<open>id\<close> a non-empty segment without
  \<open>/\<close> passed as \<open>session_id\<close>; no route registered before them shadows them.
\<close>

theorem api_routing:
  "(dispatch m path = Handled ChatRoute ps \<longleftrightarrow> m = ''POST'' \<and> path = ''/api/v1/chat'' \<and> ps = [])
   \<and> (dispatch m path = Handled GetSessionRoute ps \<longleftrightarrow>
        m = ''GET'' \<and> (\<exists>x. x \<noteq> [] \<and> CHR ''/'' \<notin> set x \<and> path = ''/api/v1/session/'' @ x
                         \<and> ps = [(''session_id'', x)]))
   \<and> (dispatch m path = Handled DeleteSessionRoute ps \<longleftrightarrow>
        m = ''DELETE'' \<and> (\<exists>x. x \<noteq> [] \<and> CHR ''/'' \<notin> set x \<and> path = ''/api/v1/session/'' @ x
                            \<and> ps = [(''session_id'', x)]))
   \<and> (dispatch m path = Handled GetPlanRoute ps \<longleftrightarrow>
        m = ''GET'' \<and> (\<exists>x. x \<noteq> [] \<and> CHR ''/'' \<notin> set x \<and> path = ''/api/v1/session/'' @ x @ ''/plan''
                         \<and> ps = [(''session_id'', x)]))"
proof -
  have post_chat: "dispatch ''POST'' ''/api/v1/chat'' = Handled ChatRoute []"
    by (simp add: dispatch_def app_route_defs)
  note fwd = dispatch_api_cases [of m path _ ps] and bwd = dispatch_session_paths
  have c: "dispatch m path = Handled ChatRoute ps \<longleftrightarrow> m = ''POST'' \<and> path = ''/api/v1/chat'' \<and> ps = []"
    using fwd post_chat by (auto dest: path_of_segments)
  have g: "dispatch m path = Handled GetSessionRoute ps \<longleftrightarrow>
        m = ''GET'' \<and> (\<exists>x. x \<noteq> [] \<and> CHR ''/'' \<notin> set x \<and> path = ''/api/v1/session/'' @ x
                         \<and> ps = [(''session_id'', x)])"
  proof
    assume "dispatch m path = Handled GetSessionRoute ps"
    with fwd obtain x where "m = ''GET''" "x \<noteq> []" "ps = [(''session_id'', x)]"
      and "py_split_on CHR ''/'' path = [[], ''api'', ''v1'', ''session'', x]" by auto
    with path_of_segments(2) show "m = ''GET'' \<and> (\<exists>x. x \<noteq> [] \<and> CHR ''/'' \<notin> set x
      \<and> path = ''/api/v1/session/'' @ x \<and> ps = [(''session_id'', x)])" by blast
  qed (use bwd(1) in auto)
  have d: "dispatch m path = Handled DeleteSessionRoute ps \<longleftrightarrow>
        m = ''DELETE'' \<and> (\<exists>x. x \<noteq> [] \<and> CHR ''/'' \<notin> set x \<and> path = ''/api/v1/session/'' @ x
                            \<and> ps = [(''session_id'', x)])"
  proof
    assume "dispatch m path = Handled DeleteSessionRoute ps"
    with fwd obtain x where "m = ''DELETE''" "x \<noteq> []" "ps = [(''session_id'', x)]"
      and "py_split_on CHR ''/'' path = [[], ''api'', ''v1'', ''session'', x]" by auto
    with path_of_segments(2) show "m = ''DELETE'' \<and> (\<exists>x. x \<noteq> [] \<and> CHR ''/'' \<notin> set x
      \<and> path = ''/api/v1/session/'' @ x \<and> ps = [(''session_id'', x)])" by blast
  qed (use bwd(2) in auto)
  have p: "dispatch m path = Handled GetPlanRoute ps \<longleftrightarrow>
        m = ''GET'' \<and> (\<exists>x. x \<noteq> [] \<and> CHR ''/'' \<notin> set x \<and> path = ''/api/v1/session/'' @ x @ ''/plan''
                         \<and> ps = [(''session_id'', x)])"
  proof
    assume "dispatch m path = Handled GetPlanRoute ps"
    with fwd obtain x where "m = ''GET''" "x \<noteq> []" "ps = [(''session_id'', x)]"
      and "py_split_on CHR ''/'' path = [[], ''api'', ''v1'', ''session'', x, ''plan'']" by auto
    with path_of_segments(3) show "m = ''GET'' \<and> (\<exists>x. x \<noteq> [] \<and> CHR ''/'' \<notin> set x
      \<and> path = ''/api/v1/session/'' @ x @ ''/plan'' \<and> ps = [(''session_id'', x)])" by blast
  qed (use bwd(3) in auto)
  from c g d p show ?thesis by blast
qed



text \<open>
  C28. The session routes agree with the chat route at the HTTP level: after a
  successful \<^verbatim>\<open>POST /api/v1/chat\<close>, \<^verbatim>\<open>GET /api/v1/session/{id}\<close> on the
  returned identifier reports the stage and completion flag of the response, and after
  \<^verbatim>\<open>DELETE\<close> on it (204) the same \<^verbatim>\<open>GET\<close> answers 404.
\<close>

theorem chat_then_session_roundtrip:
  assumes "handle_request map_session_store orc st fresh now rq = (ChatOK r, st')"
    and "cr_session_id r \<noteq> []" and "CHR ''/'' \<notin> set (cr_session_id r)"
  shows "handle_request map_session_store orc' st' fresh' now'
           \<lparr>hr_method = ''GET'', hr_path = ''/api/v1/session/'' @ cr_session_id r, hr_body = None\<rparr>
         = (SessionOK \<lparr>sum_session_id = cr_session_id r, sum_current_stage = cr_current_stage r,
                      sum_is_complete = cr_is_complete r\<rparr>, st')
    \<and> (\<exists>st''. handle_request map_session_store orc' st' fresh' now'
           \<lparr>hr_method = ''DELETE'', hr_path = ''/api/v1/session/'' @ cr_session_id r, hr_body = None\<rparr>
           = (NoContent, st'')
         \<and> fst (handle_request map_session_store orc' st'' fresh' now'
           \<lparr>hr_method = ''GET'', hr_path = ''/api/v1/session/'' @ cr_session_id r, hr_body = None\<rparr>)
           = ErrorResponse (HTTPError 404 ''Session not found''))"
proof -
  let ?sid = "cr_session_id r"
  from handle_request_ChatOK [OF assms(1)] obtain b :: chat_request
    where "chat map_session_store orc st (req_session_id b) fresh (req_message b) = (Inr r, st')" by auto
  from chat_response_stored [OF this] have g: "get_session map_session_store st' ?sid =
      Inr \<lparr>sum_session_id = ?sid, sum_current_stage = cr_current_stage r, sum_is_complete = cr_is_complete r\<rparr>" .
  then obtain s where s: "st' ?sid = Some s"
    by (auto simp: get_session_def store_get_def split: option.splits)
  note d = dispatch_session_paths [OF assms(2,3)]
  have get: "handle_request map_session_store orc' st' fresh' now'
           \<lparr>hr_method = ''GET'', hr_path = ''/api/v1/session/'' @ ?sid, hr_body = None\<rparr>
         = (SessionOK \<lparr>sum_session_id = ?sid, sum_current_stage = cr_current_stage r,
                      sum_is_complete = cr_is_complete r\<rparr>, st')"
    using d(1) g by (simp add: handle_request_def respond_def param_def)
  have del: "handle_request map_session_store orc' st' fresh' now'
           \<lparr>hr_method = ''DELETE'', hr_path = ''/api/v1/session/'' @ ?sid, hr_body = None\<rparr>
           = (NoContent, st'(?sid := None))"
    using d(2) s by (simp add: handle_request_def respond_def param_def delete_session_def
                               store_get_def store_delete_def)
  have "fst (handle_request map_session_store orc' (st'(?sid := None)) fresh' now'
           \<lparr>hr_method = ''GET'', hr_path = ''/api/v1/session/'' @ ?sid, hr_body = None\<rparr>)
           = ErrorResponse (HTTPError 404 ''Session not found'')"
    using d(1) by (simp add: handle_request_def respond_def param_def get_session_def store_get_def)
  with get del show ?thesis by blast
qed

theorem chat_then_session_roundtrip_witness:
  "\<exists>r st'. handle_request map_session_store \<lparr>reply_of = (\<lambda>_ _. Inr ''Hi''), tool_output = (\<lambda>_ _. None)\<rparr> Map.empty ''s9'' ''now''
      \<lparr>hr_method = ''POST'', hr_path = ''/api/v1/chat'',
       hr_body = Some \<lparr>req_session_id = None, req_message = ''hello''\<rparr>\<rparr> = (ChatOK r, st')
    \<and> cr_session_id r = ''s9''
    \<and> handle_request map_session_store example_oracle st' ''t'' ''now''
          \<lparr>hr_method = ''GET'', hr_path = ''/api/v1/session/s9'', hr_body = None\<rparr>
        = (SessionOK \<lparr>sum_session_id = ''s9'', sum_current_stage = cr_current_stage r,
                     sum_is_complete = cr_is_complete r\<rparr>, st')"
proof -
  have d: "dispatch ''POST'' ''/api/v1/chat'' = Handled ChatRoute []"
    by (simp add: dispatch_def app_route_defs)
  let ?orc = "\<lparr>reply_of = (\<lambda>_ _. Inr ''Hi''), tool_output = (\<lambda>_ _. None)\<rparr> :: llm_oracle"
  obtain r st' where h: "handle_request map_session_store ?orc Map.empty ''s9'' ''now''
      \<lparr>hr_method = ''POST'', hr_path = ''/api/v1/chat'',
       hr_body = Some \<lparr>req_session_id = None, req_message = ''hello''\<rparr>\<rparr> = (ChatOK r, st')"
    and r: "cr_session_id r = ''s9''"
    using d by (simp add: handle_request_def respond_def chat_def chat_turn_def process_message_def
                          new_session_def generate_reply_def attempt_extraction_def validate_extraction_def
                          store_save_def Let_def)
  from chat_then_session_roundtrip [OF h, where orc' = example_oracle and fresh' = "''t''" and now' = "''now''"] r h
  show ?thesis by auto
qed

end
