(* ===== verification/Deployment.thy ===== *)
theory Deployment
  imports App Store
begin

text \<open>
  The application as deployed: the routes of \<^verbatim>\<open>main.py\<close> on the single
  \<open>InMemorySessionStore()\<close> of \<^verbatim>\<open>dependencies.py\<close>. Since the routes use the store
  only through the \<open>SessionStore\<close> interface, any relation between two store instances
  that the interface's operations respect (\<open>store_sim\<close>: equal \<open>get\<close> results,
  \<open>save\<close> and \<open>delete\<close> keep the relation) is kept by every route and by every
  sequence of requests, which then get equal responses. The in-memory store and the map
  store are so related by the abstraction of the \<open>Store\<close> theory, so every property of
  the application proved on the map store holds of the deployed one.
\<close>

definition store_sim :: "'a session_store \<Rightarrow> 'b session_store \<Rightarrow> ('a \<Rightarrow> 'b \<Rightarrow> bool) \<Rightarrow> bool" where
  "store_sim S1 S2 R \<longleftrightarrow>
     (\<forall>a b. R a b \<longrightarrow>
        (\<forall>sid. ss_get S1 a sid = ss_get S2 b sid)
        \<and> (\<forall>s. R (ss_save S1 a s) (ss_save S2 b s))
        \<and> (\<forall>sid. R (ss_delete S1 a sid) (ss_delete S2 b sid)))"

definition mem_rel :: "'j session_codec \<Rightarrow> 'j mem_store \<Rightarrow> store \<Rightarrow> bool" where
  "mem_rel c m st \<longleftrightarrow> mem_invar c m \<and> mem_alpha c m = st"

section \<open>The routes respect a store simulation\<close>

lemma store_simD:
  assumes "store_sim S1 S2 R" and "R a b"
  shows "ss_get S1 a sid = ss_get S2 b sid" "R (ss_save S1 a s) (ss_save S2 b s)"
    "R (ss_delete S1 a sid) (ss_delete S2 b sid)"
  using assms by (auto simp: store_sim_def)

text \<open>Two runs of a route agree: equal results and related stores.\<close>

definition sim_pair :: "('a \<Rightarrow> 'b \<Rightarrow> bool) \<Rightarrow> 'r \<times> 'a \<Rightarrow> 'r \<times> 'b \<Rightarrow> bool" where
  "sim_pair R p q \<longleftrightarrow> fst p = fst q \<and> R (snd p) (snd q)"

lemma chat_turn_sim:
  "store_sim S1 S2 R \<Longrightarrow> R a b \<Longrightarrow> sim_pair R (chat_turn S1 orc a s msg) (chat_turn S2 orc b s msg)"
  by (auto simp: chat_turn_def sim_pair_def store_simD split: prod.split sum.split)

lemma chat_sim:
  assumes "store_sim S1 S2 R" and "R a b"
  shows "sim_pair R (chat S1 orc a sid fresh msg) (chat S2 orc b sid fresh msg)"
  using assms chat_turn_sim [OF assms(1)] store_simD [OF assms]
  by (auto simp: chat_def sim_pair_def Let_def split: sum.split option.split)

lemma get_plan_sim: "store_sim S1 S2 R \<Longrightarrow> R a b \<Longrightarrow> get_plan S1 a sid now = get_plan S2 b sid now"
  by (simp add: get_plan_def store_simD)

lemma get_session_sim: "store_sim S1 S2 R \<Longrightarrow> R a b \<Longrightarrow> get_session S1 a sid = get_session S2 b sid"
  by (simp add: get_session_def store_simD)

lemma delete_session_sim:
  assumes "store_sim S1 S2 R" and "R a b"
  shows "sim_pair R (delete_session S1 a sid) (delete_session S2 b sid)"
  using assms store_simD [OF assms]
  by (auto simp: delete_session_def sim_pair_def split: sum.split option.split)

lemma handle_request_sim:
  assumes "store_sim S1 S2 R" and "R a b"
  shows "sim_pair R (handle_request S1 orc a fresh now rq) (handle_request S2 orc b fresh now rq)"
  using assms chat_sim [OF assms] delete_session_sim [OF assms] get_plan_sim [OF assms]
    get_session_sim [OF assms]
  by (auto simp: handle_request_def sim_pair_def Let_def case_prod_unfold
           split: dispatch_result.split endpoint.split option.split)

lemma run_requests_sim:
  assumes "store_sim S1 S2 R" and "R a b"
  shows "sim_pair R (run_requests S1 orc a rqs) (run_requests S2 orc b rqs)"
  using assms(2)
proof (induction rqs arbitrary: a b)
  case Nil
  then show ?case by (simp add: sim_pair_def)
next
  case (Cons x rqs)
  obtain fresh now rq where x: "x = (fresh, now, rq)" by (cases x) auto
  from handle_request_sim [OF assms(1) Cons.prems, of orc fresh now rq]
  have h: "sim_pair R (handle_request S1 orc a fresh now rq) (handle_request S2 orc b fresh now rq)" .
  then have "R (snd (handle_request S1 orc a fresh now rq)) (snd (handle_request S2 orc b fresh now rq))"
    by (simp add: sim_pair_def)
  from Cons.IH [OF this] h x show ?case
    by (simp add: sim_pair_def Let_def case_prod_unfold)
qed

section \<open>The in-memory store simulates the map store\<close>

lemma mem_store_sim:
  assumes "codec_ok c"
  shows "store_sim (in_memory_session_store c) map_session_store (mem_rel c)"
  unfolding store_sim_def mem_rel_def in_memory_session_store_def
  by (auto simp: mem_get_correct mem_save_correct [OF assms] mem_delete_correct)

lemma mem_rel_new: "mem_rel c mem_new Map.empty"
  by (simp add: mem_rel_def mem_new_correct)

text \<open>
  C19. The deployed application: for any codec satisfying pydantic's round trip, every
  sequence of HTTP requests served by the app on a fresh \<open>InMemorySessionStore()\<close>, a
  dictionary of JSON dumps, gets exactly the responses it gets on the empty map store the
  other properties are proved on, and leaves a dictionary that reads back as that map
  store's final state. In particular no store exception (a 500) ever reaches a client.
\<close>

theorem deployed_app_refines_map_store:
  assumes "codec_ok c"
  shows "fst (run_requests (in_memory_session_store c) orc mem_new rqs)
           = fst (run_requests map_session_store orc Map.empty rqs)
         \<and> mem_alpha c (snd (run_requests (in_memory_session_store c) orc mem_new rqs))
           = snd (run_requests map_session_store orc Map.empty rqs)"
proof -
  have "sim_pair (mem_rel c) (run_requests (in_memory_session_store c) orc mem_new rqs)
          (run_requests map_session_store orc Map.empty rqs)"
    using run_requests_sim [of "in_memory_session_store c" map_session_store "mem_rel c" mem_new Map.empty orc rqs]
      mem_store_sim [OF assms] mem_rel_new [of c] by blast
  then show ?thesis by (simp add: sim_pair_def mem_rel_def)
qed

theorem deployed_app_refines_map_store_witness:
  "codec_ok option_codec
   \<and> fst (run_requests (in_memory_session_store option_codec) example_oracle mem_new
          [(''s1'', ''now'', \<lparr>hr_method = ''GET'', hr_path = ''/health'', hr_body = None\<rparr>)])
     = fst (run_requests map_session_store example_oracle Map.empty
          [(''s1'', ''now'', \<lparr>hr_method = ''GET'', hr_path = ''/health'', hr_body = None\<rparr>)])"
proof -
  have c: "codec_ok option_codec" by (simp add: codec_ok_def option_codec_def)
  from deployed_app_refines_map_store [OF c, of example_oracle
         "[(''s1'', ''now'', \<lparr>hr_method = ''GET'', hr_path = ''/health'', hr_body = None\<rparr>)]"] c
  show ?thesis by simp
qed

end
