(* ===== verification/ControllerSpec.thy ===== *)
theory ControllerSpec
  imports StateMachine
begin

text \<open>
  An abstract specification of the conversation controller, after the per-turn contract
  of the specification (section 4.1): a state is the current stage, the committed records
  and the completion flag; a turn either leaves it unchanged (a reply alone, a re-prompt
  after a contradiction, an error, or a turn on a completed session) or commits a
  complete record of the current stage that the checker accepts, advancing to the next
  stage in the fixed order. The successor of a stage is given here by its position in the
  order, independently of the index arithmetic of \<open>Session.advance_stage\<close>.
  \<open>abs_of\<close> forgets the conversation log and the identifiers of a session. The
  theorems show that \<open>process_message\<close> implements exactly this machine: every turn is
  one of its steps, every one of its steps is taken by some turn, and the abstract states
  of the reachable sessions are exactly the states the machine reaches.
\<close>

section \<open>The abstract machine\<close>

record abs_session =
  a_stage :: stage
  a_data :: "stage \<rightharpoonup> stage_record"
  a_complete :: bool

fun next_stage :: "stage \<Rightarrow> stage" where
  "next_stage DefineOutcome = StrategicConstraints"
| "next_stage StrategicConstraints = PhasesAndMilestones"
| "next_stage PhasesAndMilestones = TasksAndSubtasks"
| "next_stage TasksAndSubtasks = RiskAndGovernance"
| "next_stage RiskAndGovernance = Complete"
| "next_stage Complete = Complete"

definition abs_init :: abs_session where
  "abs_init = \<lparr>a_stage = DefineOutcome, a_data = Map.empty, a_complete = False\<rparr>"

definition abs_commit :: "abs_session \<Rightarrow> stage_record \<Rightarrow> abs_session" where
  "abs_commit a r =
     a\<lparr>a_stage := next_stage (a_stage a), a_data := (a_data a)(a_stage a \<mapsto> r),
       a_complete := (a_complete a \<or> next_stage (a_stage a) = Complete)\<rparr>"

inductive spec_step :: "abs_session \<Rightarrow> abs_session \<Rightarrow> bool" where
  stay: "spec_step a a"
| commit: "\<lbrakk>a_stage a \<noteq> Complete; record_stage r = a_stage a; has_required_fields r;
            check (a_stage a) r (a_data a) = None\<rbrakk> \<Longrightarrow> spec_step a (abs_commit a r)"

inductive_cases spec_step_cases: "spec_step a b"

definition abs_of :: "session \<Rightarrow> abs_session" where
  "abs_of s = \<lparr>a_stage = current_stage s, a_data = stage_data s, a_complete = is_complete s\<rparr>"

section \<open>Lemmas\<close>

lemma next_stage_index:
  "stage_index (next_stage st) = (if st = Complete then 5 else Suc (stage_index st))"
  by (cases st) simp_all

lemma abs_of_add_message [simp]: "abs_of (add_message role c s) = abs_of s"
  by (simp add: abs_of_def)

lemma abs_of_new_session: "abs_of (new_session sid) = abs_init"
  by (simp add: abs_of_def abs_init_def new_session_def)

lemma advance_stage_current [simp]: "current_stage (advance_stage s) = next_stage (current_stage s)"
  by (rule stage_index_inj) (simp add: advance_stage_index next_stage_index)

text \<open>The effect of one turn on the abstract state, branch by branch.\<close>

lemma process_message_abs:
  "abs_of (snd (process_message orc s u)) =
     (if current_stage s = Complete then abs_of s
      else case generate_reply orc (current_stage s) (add_message ''user'' u s) of
             Inl _ \<Rightarrow> abs_of s
           | Inr _ \<Rightarrow>
               (case attempt_extraction orc (current_stage s) (add_message ''user'' u s) of
                  None \<Rightarrow> abs_of s
                | Some r \<Rightarrow>
                    (case check (current_stage s) r (stage_data s) of
                       Some _ \<Rightarrow> abs_of s
                     | None \<Rightarrow> abs_commit (abs_of s) r)))"
  by (simp add: process_message_def Let_def abs_of_def abs_commit_def store_and_advance_def
                advance_stage_current split: sum.split option.split)

lemma spec_step_commit_abs:
  assumes "current_stage s \<noteq> Complete" and "attempt_extraction orc (current_stage s) s' = Some r"
    and "check (current_stage s) r (stage_data s) = None"
  shows "spec_step (abs_of s) (abs_commit (abs_of s) r)"
proof -
  from assms(2) have "record_stage r = current_stage s" and "has_required_fields r"
    by (simp_all add: attempt_extraction_Some)
  with assms(1,3) show ?thesis by (intro spec_step.commit) (simp_all add: abs_of_def)
qed

lemma process_message_simulates:
  "spec_step (abs_of s) (abs_of (snd (process_message orc s u)))"
  unfolding process_message_abs
  by (auto intro: spec_step.stay spec_step_commit_abs split: sum.split option.split)

text \<open>The oracles that realise the two kinds of abstract step.\<close>

lemma process_message_stays:
  "abs_of (snd (process_message \<lparr>reply_of = (\<lambda>_ _. Inl OtherError), tool_output = (\<lambda>_ _. None)\<rparr> s u))
   = abs_of s"
  unfolding process_message_abs by (simp add: generate_reply_def)

lemma process_message_commits:
  assumes "current_stage s \<noteq> Complete" and "record_stage r = current_stage s"
    and "has_required_fields r" and "check (current_stage s) r (stage_data s) = None"
  shows "abs_of (snd (process_message \<lparr>reply_of = (\<lambda>_ _. Inr []), tool_output = (\<lambda>_ _. Some r)\<rparr> s u))
         = abs_commit (abs_of s) r"
  using assms unfolding process_message_abs
  by (simp add: generate_reply_def attempt_extraction_def validate_extraction_def)

lemma spec_step_realised:
  assumes "spec_step (abs_of s) a'"
  shows "\<exists>orc. abs_of (snd (process_message orc s u)) = a'"
  using assms
proof (cases rule: spec_step.cases)
  case stay
  then show ?thesis using process_message_stays by blast
next
  case (commit r)
  from commit(2-5) have "current_stage s \<noteq> Complete" "record_stage r = current_stage s"
    "check (current_stage s) r (stage_data s) = None"
    by (simp_all add: abs_of_def)
  from process_message_commits [OF this(1,2) commit(4) this(3), of u] commit(1)
  show ?thesis by blast
qed

text \<open>
  C35. \<open>Session.advance_stage\<close>, which looks the stage up in \<open>STAGE_ORDER\<close> and moves
  to the next index unless it is the last, is the successor function of the stage order:
  it changes nothing but the stage, and \<open>complete\<close> is its fixed point.
\<close>

theorem advance_stage_is_next_stage:
  "advance_stage s = s\<lparr>current_stage := next_stage (current_stage s)\<rparr>"
  by (cases "current_stage s") (simp_all add: advance_stage_def stage_order_def)

text \<open>
  C36. Refinement of the abstract controller: a turn of \<open>process_message\<close> on any
  session is a step of the abstract machine, and every step of the abstract machine from
  the session's abstract state is the effect of a turn for some answer of the model.
\<close>

theorem process_message_refines_spec:
  "spec_step (abs_of s) a' \<longleftrightarrow> (\<exists>orc. abs_of (snd (process_message orc s u)) = a')"
  using process_message_simulates spec_step_realised by blast

text \<open>
  C37. The abstract states of the sessions reachable from \<open>Session()\<close> by turns are
  exactly the states the abstract machine reaches from its initial state.
\<close>

theorem reachable_sessions_abs:
  "(\<exists>s. reachable_session s \<and> abs_of s = a) \<longleftrightarrow> spec_step\<^sup>*\<^sup>* abs_init a"
proof
  assume "\<exists>s. reachable_session s \<and> abs_of s = a"
  then obtain s where r: "reachable_session s" and a: "abs_of s = a" by blast
  from r have "spec_step\<^sup>*\<^sup>* abs_init (abs_of s)"
  proof (induction rule: reachable_session.induct)
    case (created sid)
    show ?case by (simp add: abs_of_new_session)
  next
    case (turn s orc u)
    from turn.IH process_message_simulates [of s orc u] show ?case
      by (rule rtranclp.rtrancl_into_rtrancl)
  qed
  with a show "spec_step\<^sup>*\<^sup>* abs_init a" by simp
next
  assume "spec_step\<^sup>*\<^sup>* abs_init a"
  then show "\<exists>s. reachable_session s \<and> abs_of s = a"
  proof (induction rule: rtranclp_induct)
    case base
    show ?case using reachable_session.created abs_of_new_session by blast
  next
    case (step b c)
    then obtain s where r: "reachable_session s" and b: "abs_of s = b" by blast
    with step.hyps(2) obtain orc where "abs_of (snd (process_message orc s []) ) = c"
      using spec_step_realised by blast
    with r show ?case by (blast intro: reachable_session.turn)
  qed
qed

end
