(* ===== verification/ClientAdapter.thy ===== *)
theory ClientAdapter
  imports StageHandlers Prompts
begin

text \<open>
  The two model calls of \<open>BaseStageHandler\<close> (\<^verbatim>\<open>src/app/agent/stage_handlers.py\<close>)
  at the level of the Anthropic Messages API, and the settings of
  \<^verbatim>\<open>src/app/config.py\<close> that parametrise them. The API and the pydantic library are
  interfaces over a type \<open>'j\<close> of JSON values: \<open>messages_create\<close> returns the content
  blocks of a response or raises; \<open>json_schema\<close> and the five typed validators stand for
  \<open>model_json_schema()\<close> and \<open>model_validate\<close>. The handlers' own code is modelled
  exactly: the requests they build, \<open>response.content[0].text\<close>, the search for the
  first tool-use block, the completeness check and the \<open>try\<close>/\<open>except\<close> that turns
  every failure of the extraction call into \<open>None\<close>. \<open>client_oracle\<close> packages the
  two calls as the \<open>llm_oracle\<close> the controller is stated over.
\<close>

section \<open>Settings\<close>

datatype app_env = Development | Production | Test

datatype store_kind = MemoryStore

record settings =
  app_env :: app_env
  log_level :: string
  anthropic_api_key :: string
  session_store :: store_kind
  claude_model :: string
  claude_max_tokens :: int

text \<open>\<open>Settings()\<close> with no environment overrides; the API key has no default.\<close>

definition default_settings :: "string \<Rightarrow> settings" where
  "default_settings key =
     \<lparr>app_env = Development, log_level = ''INFO'', anthropic_api_key = key,
      session_store = MemoryStore, claude_model = ''claude-opus-4-6'', claude_max_tokens = 2048\<rparr>"

definition is_production :: "settings \<Rightarrow> bool" where
  "is_production cfg \<longleftrightarrow> app_env cfg = Production"

section \<open>The Messages API and the schema library\<close>

datatype 'j content_block = TextBlock string | ToolUseBlock string 'j

record 'j api_tool =
  tool_name :: string
  tool_description :: string
  tool_input_schema :: 'j

record 'j api_request =
  rq_model :: string
  rq_max_tokens :: int
  rq_system :: string
  rq_messages :: "(string \<times> string) list"
  rq_tools :: "'j api_tool list"
  rq_tool_choice :: "string option"

type_synonym 'j messages_api = "'j api_request \<Rightarrow> oracle_error + 'j content_block list"

text \<open>The class attribute \<open>extraction_model\<close> of a handler.\<close>

datatype extraction_model = OutcomeModel | ConstraintsModel | PhasesModel | TasksModel | RiskGovernanceModel

record 'j pydantic_lib =
  json_schema :: "extraction_model \<Rightarrow> 'j"
  validate_outcome :: "'j \<Rightarrow> outcome_data option"
  validate_constraints :: "'j \<Rightarrow> constraints_data option"
  validate_phases :: "'j \<Rightarrow> phases_data option"
  validate_tasks :: "'j \<Rightarrow> tasks_data option"
  validate_risk :: "'j \<Rightarrow> risk_governance_data option"

text \<open>\<open>extraction_model.model_validate(input)\<close>; \<open>None\<close> is a \<open>ValidationError\<close>.\<close>

fun model_validate :: "'j pydantic_lib \<Rightarrow> extraction_model \<Rightarrow> 'j \<Rightarrow> stage_record option" where
  "model_validate lib OutcomeModel j = map_option OutcomeRec (validate_outcome lib j)"
| "model_validate lib ConstraintsModel j = map_option ConstraintsRec (validate_constraints lib j)"
| "model_validate lib PhasesModel j = map_option PhasesRec (validate_phases lib j)"
| "model_validate lib TasksModel j = map_option TasksRec (validate_tasks lib j)"
| "model_validate lib RiskGovernanceModel j = map_option RiskRec (validate_risk lib j)"

text \<open>
  A handler class by its class attributes \<open>stage\<close> and \<open>extraction_model\<close>; its
  \<open>_has_required_fields\<close> is \<open>has_required_fields\<close> on the records of its model.
\<close>

record handler_class =
  hc_stage :: stage
  hc_extraction_model :: extraction_model

definition define_outcome_handler :: handler_class where
  "define_outcome_handler = \<lparr>hc_stage = DefineOutcome, hc_extraction_model = OutcomeModel\<rparr>"

definition strategic_constraints_handler :: handler_class where
  "strategic_constraints_handler =
     \<lparr>hc_stage = StrategicConstraints, hc_extraction_model = ConstraintsModel\<rparr>"

definition phases_and_milestones_handler :: handler_class where
  "phases_and_milestones_handler = \<lparr>hc_stage = PhasesAndMilestones, hc_extraction_model = PhasesModel\<rparr>"

definition tasks_and_subtasks_handler :: handler_class where
  "tasks_and_subtasks_handler = \<lparr>hc_stage = TasksAndSubtasks, hc_extraction_model = TasksModel\<rparr>"

definition risk_and_governance_handler :: handler_class where
  "risk_and_governance_handler =
     \<lparr>hc_stage = RiskAndGovernance, hc_extraction_model = RiskGovernanceModel\<rparr>"

text \<open>\<open>STAGE_HANDLER_CLASSES\<close>; \<open>None\<close> is its \<open>KeyError\<close> on \<open>COMPLETE\<close>.\<close>

fun stage_handler_classes :: "stage \<Rightarrow> handler_class option" where
  "stage_handler_classes DefineOutcome = Some define_outcome_handler"
| "stage_handler_classes StrategicConstraints = Some strategic_constraints_handler"
| "stage_handler_classes PhasesAndMilestones = Some phases_and_milestones_handler"
| "stage_handler_classes TasksAndSubtasks = Some tasks_and_subtasks_handler"
| "stage_handler_classes RiskAndGovernance = Some risk_and_governance_handler"
| "stage_handler_classes Complete = None"

section \<open>The handler calls\<close>

text \<open>
  The \<open>model\<close> and \<open>max_tokens\<close> a \<open>PlanningStateMachine\<close> (and every handler it
  creates) is constructed with; the chat route takes them from the settings.
\<close>

record planner =
  pl_model :: string
  pl_max_tokens :: int

definition planner_of_settings :: "settings \<Rightarrow> planner" where
  "planner_of_settings cfg = \<lparr>pl_model = claude_model cfg, pl_max_tokens = claude_max_tokens cfg\<rparr>"

text \<open>Call 1: the request of \<open>generate_reply\<close>; \<open>None\<close> is the \<open>KeyError\<close> of the prompt table.\<close>

definition reply_request :: "planner \<Rightarrow> stage \<Rightarrow> (string \<times> string) list \<Rightarrow> 'j api_request option" where
  "reply_request p st msgs =
     map_option (\<lambda>sys. \<lparr>rq_model = pl_model p, rq_max_tokens = pl_max_tokens p, rq_system = sys,
                        rq_messages = msgs, rq_tools = [], rq_tool_choice = None\<rparr>)
                (stage_system_prompts st)"

text \<open>\<open>response.content[0].text\<close>: an empty content list is an \<open>IndexError\<close>, a first
  block without \<open>.text\<close> an \<open>AttributeError\<close>.\<close>

fun first_text :: "'j content_block list \<Rightarrow> oracle_error + string" where
  "first_text [] = Inl OtherError"
| "first_text (TextBlock t # _) = Inr t"
| "first_text (ToolUseBlock _ _ # _) = Inl OtherError"

definition reply_call :: "'j messages_api \<Rightarrow> planner \<Rightarrow> stage \<Rightarrow> (string \<times> string) list \<Rightarrow> oracle_error + string" where
  "reply_call api p st msgs =
     (case reply_request p st msgs of
        None \<Rightarrow> Inl OtherError
      | Some rq \<Rightarrow> (case api rq of Inl e \<Rightarrow> Inl e | Inr content \<Rightarrow> first_text content))"

text \<open>\<open>generate_reply\<close> of an instance of handler class \<open>h\<close>: the prompt of \<open>self.stage\<close>.\<close>

definition handler_generate_reply ::
  "'j messages_api \<Rightarrow> planner \<Rightarrow> handler_class \<Rightarrow> session \<Rightarrow> oracle_error + string" where
  "handler_generate_reply api p h s = reply_call api p (hc_stage h) (get_claude_messages s)"

text \<open>Call 2: the request of \<open>attempt_extraction\<close>.\<close>

definition extraction_system :: string where
  "extraction_system =
     ''You are a data extraction assistant. Extract structured data from ''
     @ ''the conversation and return ONLY a valid JSON object matching the ''
     @ ''provided schema. Do not include any explanation or markdown fencing. ''
     @ ''If a required string field has no value in the conversation, use ''
     @ ''the string 'MISSING'. For optional fields, use null.''"

definition extraction_tool :: "'j pydantic_lib \<Rightarrow> extraction_model \<Rightarrow> 'j api_tool" where
  "extraction_tool lib m =
     \<lparr>tool_name = ''extract_stage_data'',
      tool_description = ''Extract structured planning data from the conversation'',
      tool_input_schema = json_schema lib m\<rparr>"

definition extraction_request ::
  "'j pydantic_lib \<Rightarrow> planner \<Rightarrow> stage \<Rightarrow> extraction_model \<Rightarrow> (string \<times> string) list \<Rightarrow> 'j api_request option" where
  "extraction_request lib p st m msgs =
     map_option (\<lambda>q. \<lparr>rq_model = pl_model p, rq_max_tokens = 2048, rq_system = extraction_system,
                      rq_messages = msgs @ [(''user'', q)], rq_tools = [extraction_tool lib m],
                      rq_tool_choice = Some ''auto''\<rparr>)
                (stage_extraction_prompts st)"

text \<open>\<open>next((b for b in response.content if b.type == "tool_use"), None)\<close>.\<close>

fun find_tool_use :: "'j content_block list \<Rightarrow> 'j option" where
  "find_tool_use [] = None"
| "find_tool_use (ToolUseBlock _ j # _) = Some j"
| "find_tool_use (TextBlock _ # bs) = find_tool_use bs"

text \<open>
  The \<open>try\<close> block: any exception of the call, a missing tool-use block, a validation
  error and an incomplete record all give \<open>None\<close>.
\<close>

definition extraction_outcome ::
  "'j pydantic_lib \<Rightarrow> extraction_model \<Rightarrow> oracle_error + 'j content_block list \<Rightarrow> stage_record option" where
  "extraction_outcome lib m resp =
     (case resp of
        Inl _ \<Rightarrow> None
      | Inr content \<Rightarrow>
          (case find_tool_use content of
             None \<Rightarrow> None
           | Some j \<Rightarrow>
               (case model_validate lib m j of
                  None \<Rightarrow> None
                | Some r \<Rightarrow> (if has_required_fields r then Some r else None))))"

text \<open>
  \<open>attempt_extraction\<close> of an instance of handler class \<open>h\<close>; the prompt lookup
  precedes the \<open>try\<close>, so its \<open>KeyError\<close> is the only error that escapes.
\<close>

definition handler_attempt_extraction ::
  "'j messages_api \<Rightarrow> 'j pydantic_lib \<Rightarrow> planner \<Rightarrow> handler_class \<Rightarrow> session
   \<Rightarrow> oracle_error + stage_record option" where
  "handler_attempt_extraction api lib p h s =
     (case extraction_request lib p (hc_stage h) (hc_extraction_model h) (get_claude_messages s) of
        None \<Rightarrow> Inl OtherError
      | Some rq \<Rightarrow> Inr (extraction_outcome lib (hc_extraction_model h) (api rq)))"

section \<open>The client as the controller's oracle\<close>

text \<open>
  The oracle a \<open>PlanningStateMachine\<close> built from a client, the schema library and its
  model settings presents to \<open>process_message\<close>: the handler class is looked up in
  \<open>STAGE_HANDLER_CLASSES\<close> by the session's stage; the reply is its call 1, and the
  tool output its call 2 as validated by the class's model (\<open>None\<close> on any failure).
\<close>

definition client_oracle :: "'j messages_api \<Rightarrow> 'j pydantic_lib \<Rightarrow> planner \<Rightarrow> llm_oracle" where
  "client_oracle api lib p =
     \<lparr>reply_of = (\<lambda>st msgs.
        case stage_handler_classes st of
          None \<Rightarrow> Inl OtherError
        | Some h \<Rightarrow> reply_call api p (hc_stage h) msgs),
      tool_output = (\<lambda>st msgs.
        case stage_handler_classes st of
          None \<Rightarrow> None
        | Some h \<Rightarrow>
            (case extraction_request lib p (hc_stage h) (hc_extraction_model h) msgs of
               None \<Rightarrow> None
             | Some rq \<Rightarrow>
                 (case api rq of
                    Inl _ \<Rightarrow> None
                  | Inr content \<Rightarrow>
                      (case find_tool_use content of
                         None \<Rightarrow> None
                       | Some j \<Rightarrow> model_validate lib (hc_extraction_model h) j))))\<rparr>"

section \<open>Example data for the witnesses\<close>

text \<open>A schema library over strings whose validators accept one fixed outcome record.\<close>

definition example_lib :: "string pydantic_lib" where
  "example_lib =
     \<lparr>json_schema = (\<lambda>_. ''{}''),
      validate_outcome = (\<lambda>j. if j = ''outcome'' then Some
          \<lparr>od_project_name = ''Launch App'', od_project_type = ''general'',
           od_success_definition = ''1000 active users'', od_measurable_result = ''1000 users by Q4'',
           od_key_stakeholders = []\<rparr> else None),
      validate_constraints = (\<lambda>_. None), validate_phases = (\<lambda>_. None),
      validate_tasks = (\<lambda>_. None), validate_risk = (\<lambda>_. None)\<rparr>"

text \<open>A Messages API that answers replies with text and extractions with a tool call.\<close>

definition example_api :: "string messages_api" where
  "example_api rq =
     (if rq_tools rq = [] then Inr [TextBlock ''Thanks.'']
      else Inr [TextBlock ''Extracting.'', ToolUseBlock ''extract_stage_data'' ''outcome''])"

text \<open>The same API with the extraction call failing on a connection error.\<close>

definition example_flaky_api :: "string messages_api" where
  "example_flaky_api rq = (if rq_tools rq = [] then Inr [TextBlock ''Thanks.''] else Inl APIConnectionError)"

section \<open>Lemmas\<close>

lemmas handler_class_defs =
  define_outcome_handler_def strategic_constraints_handler_def phases_and_milestones_handler_def
  tasks_and_subtasks_handler_def risk_and_governance_handler_def

lemma stage_handler_classes_Some:
  "(stage_handler_classes st \<noteq> None) = (st \<noteq> Complete)"
  by (cases st) simp_all

text \<open>Every class in \<open>STAGE_HANDLER_CLASSES\<close> is filed under its own \<open>stage\<close> attribute.\<close>

lemma stage_handler_classes_stage: "stage_handler_classes st = Some h \<Longrightarrow> hc_stage h = st"
  by (cases st) (auto simp: handler_class_defs)

lemma model_validate_stage:
  assumes "stage_handler_classes st = Some h" and "model_validate lib (hc_extraction_model h) j = Some r"
  shows "record_stage r = st"
  using assms by (cases st) (auto simp: handler_class_defs)

lemma extraction_request_Some:
  "stage_handler_classes st = Some h
   \<Longrightarrow> \<exists>rq. extraction_request lib p (hc_stage h) (hc_extraction_model h) msgs = Some rq"
  by (cases st) (auto simp: extraction_request_def handler_class_defs)

lemma reply_request_Some:
  "st \<noteq> Complete \<Longrightarrow> \<exists>rq. reply_request p st msgs = Some rq"
  by (cases st) (simp_all add: reply_request_def)

lemma extraction_outcome_validated:
  assumes "stage_handler_classes st = Some h"
  shows "extraction_outcome lib (hc_extraction_model h) resp =
           validate_extraction st (case resp of Inl _ \<Rightarrow> None
                                   | Inr content \<Rightarrow> (case find_tool_use content of None \<Rightarrow> None
                                                   | Some j \<Rightarrow> model_validate lib (hc_extraction_model h) j))"
  using model_validate_stage [OF assms, of lib]
  by (auto simp: extraction_outcome_def validate_extraction_def split: sum.split option.split)

text \<open>
  C31. Refinement of the oracle interface: for every stage that has a handler, the class
  \<open>STAGE_HANDLER_CLASSES\<close> gives is that stage's handler (its \<open>stage\<close> attribute is the
  stage), and the two calls of an instance, as \<^verbatim>\<open>stage_handlers.py\<close> makes them against
  the Messages API, are the two oracle calls of \<open>client_oracle\<close>, so every property of
  \<open>process_message\<close> stated for an arbitrary oracle holds for the real client. The
  extraction call never raises for such a stage.
\<close>

theorem client_oracle_refines_handlers:
  assumes "stage_handler_classes st = Some h"
  shows "hc_stage h = st
    \<and> handler_generate_reply api p h s = generate_reply (client_oracle api lib p) st s
    \<and> handler_attempt_extraction api lib p h s = Inr (attempt_extraction (client_oracle api lib p) st s)"
proof -
  have hs: "hc_stage h = st" using assms by (rule stage_handler_classes_stage)
  obtain rq where rq: "extraction_request lib p (hc_stage h) (hc_extraction_model h) (get_claude_messages s) = Some rq"
    using extraction_request_Some [OF assms] by blast
  show ?thesis
    using assms hs rq extraction_outcome_validated [OF assms, of lib "api rq"]
    by (simp add: handler_generate_reply_def generate_reply_def client_oracle_def
                  handler_attempt_extraction_def attempt_extraction_def)
qed

theorem client_oracle_refines_handlers_witness:
  "hc_stage define_outcome_handler = DefineOutcome
   \<and> handler_generate_reply example_api \<lparr>pl_model = ''m'', pl_max_tokens = 100\<rparr> define_outcome_handler
       (new_session ''c1'')
     = generate_reply (client_oracle example_api example_lib \<lparr>pl_model = ''m'', pl_max_tokens = 100\<rparr>)
         DefineOutcome (new_session ''c1'')
   \<and> handler_attempt_extraction example_api example_lib \<lparr>pl_model = ''m'', pl_max_tokens = 100\<rparr>
       define_outcome_handler (new_session ''c1'')
     = Inr (attempt_extraction (client_oracle example_api example_lib \<lparr>pl_model = ''m'', pl_max_tokens = 100\<rparr>)
         DefineOutcome (new_session ''c1''))"
  by (rule client_oracle_refines_handlers) simp

text \<open>
  C32. Type of an extraction result: whatever the API returns, a record that
  \<open>attempt_extraction\<close> of a stage's handler hands back is a record of that stage's own
  model that satisfies the stage's completeness predicate.
\<close>

theorem handler_extraction_typed:
  assumes "stage_handler_classes st = Some h"
    and "handler_attempt_extraction api lib p h s = Inr (Some r)"
  shows "record_stage r = st \<and> has_required_fields r"
  using assms
  by (auto simp: handler_attempt_extraction_def extraction_outcome_def model_validate_stage
           split: option.splits sum.splits if_splits)

theorem handler_extraction_typed_witness:
  "handler_attempt_extraction example_api example_lib \<lparr>pl_model = ''m'', pl_max_tokens = 100\<rparr>
     define_outcome_handler (new_session ''c2'') = Inr (Some (OutcomeRec
       \<lparr>od_project_name = ''Launch App'', od_project_type = ''general'',
        od_success_definition = ''1000 active users'', od_measurable_result = ''1000 users by Q4'',
        od_key_stakeholders = []\<rparr>))
   \<and> record_stage (OutcomeRec
       \<lparr>od_project_name = ''Launch App'', od_project_type = ''general'',
        od_success_definition = ''1000 active users'', od_measurable_result = ''1000 users by Q4'',
        od_key_stakeholders = []\<rparr>) = DefineOutcome"
proof -
  have h: "handler_attempt_extraction example_api example_lib \<lparr>pl_model = ''m'', pl_max_tokens = 100\<rparr>
     define_outcome_handler (new_session ''c2'') = Inr (Some (OutcomeRec
       \<lparr>od_project_name = ''Launch App'', od_project_type = ''general'',
        od_success_definition = ''1000 active users'', od_measurable_result = ''1000 users by Q4'',
        od_key_stakeholders = []\<rparr>))"
    by (simp add: handler_attempt_extraction_def extraction_request_def example_api_def
                  extraction_outcome_def example_lib_def outcome_required_def define_outcome_handler_def)
  from handler_extraction_typed [OF _ h] h show ?thesis by simp
qed

end
