(* ===== verification/Tests.thy ===== *)
theory Tests
  imports PlanCompiler Renderer
begin

text \<open>
  The unit tests of \<^verbatim>\<open>src/tests/unit/\<close>, run against the model. Each fixture is a
  definition that builds the same values as the Python helper, and each test function is
  a boolean definition that evaluates its \<open>assert\<close> statements in order, with
  \<open>x in s\<close> on strings as \<open>sublist x s\<close> (a contiguous infix) and \<open>x is not None\<close>
  as a \<open>case\<close> whose \<open>None\<close> branch is \<open>False\<close>. A \<open>KeyError\<close> of
  \<open>PlanCompiler.compile\<close> is its \<open>Inl\<close> result, on which the test fails. The lemmas
  show that every test passes on the model; the compiler tests pass for every session
  identifier and every generation time, the two values the Python run draws at random
  or from the clock.
\<close>

section \<open>\<^verbatim>\<open>test_contradiction_detector.py\<close>\<close>

definition make_tasks_data :: "string list \<Rightarrow> int option list option \<Rightarrow> tasks_data" where
  "make_tasks_data owners durations =
     (let ds = (case durations of None \<Rightarrow> replicate (length owners) None | Some ds \<Rightarrow> ds)
      in \<lparr>ts_tasks =
            map (\<lambda>(i, (ow, d)). \<lparr>td_name = ''Task '' @ string_of_nat i, td_phase = ''Phase 1'',
                                td_owner = Some ow, td_duration_days = d,
                                td_dependencies = [], td_subtasks = []\<rparr>)
                (enumerate 0 (zip owners ds))\<rparr>)"

definition make_stage_data :: "int option \<Rightarrow> string option \<Rightarrow> stage \<rightharpoonup> stage_record" where
  "make_stage_data team_size deadline =
     [StrategicConstraints \<mapsto>
        ConstraintsRec (default_constraints\<lparr>cd_deadline := deadline, cd_team_size := team_size\<rparr>)]"

definition test_no_contradiction_when_owners_within_team_size :: bool where
  "test_no_contradiction_when_owners_within_team_size \<longleftrightarrow>
     check TasksAndSubtasks (TasksRec (make_tasks_data [''Alice'', ''Bob''] None))
           (make_stage_data (Some 3) None) = None"

definition test_contradiction_when_owners_exceed_team_size :: bool where
  "test_contradiction_when_owners_exceed_team_size \<longleftrightarrow>
     (case check TasksAndSubtasks
             (TasksRec (make_tasks_data [''Alice'', ''Bob'', ''Carol'', ''Dave''] None))
             (make_stage_data (Some 2) None) of
        None \<Rightarrow> False
      | Some r \<Rightarrow> sublist ''4'' (description r) \<or> sublist ''2'' (description r))"

definition test_no_contradiction_when_no_team_size_set :: bool where
  "test_no_contradiction_when_no_team_size_set \<longleftrightarrow>
     check TasksAndSubtasks
           (TasksRec (make_tasks_data [''Alice'', ''Bob'', ''Carol'', ''Dave'', ''Eve''] None))
           (make_stage_data None None) = None"

definition test_contradiction_when_total_duration_very_high :: bool where
  "test_contradiction_when_total_duration_very_high \<longleftrightarrow>
     (case check TasksAndSubtasks
             (TasksRec (make_tasks_data (replicate 5 ''Alice'')
                          (Some [Some 81, Some 80, Some 80, Some 80, Some 80])))
             (make_stage_data None (Some ''Q2 2025'')) of
        None \<Rightarrow> False
      | Some r \<Rightarrow> sublist ''401'' (description r))"

definition test_no_contradiction_for_other_stages :: bool where
  "test_no_contradiction_for_other_stages \<longleftrightarrow>
     check DefineOutcome
           (OutcomeRec \<lparr>od_project_name = ''X'', od_project_type = ''general'',
                        od_success_definition = ''Y'', od_measurable_result = ''Z'',
                        od_key_stakeholders = []\<rparr>)
           Map.empty = None"

definition test_tbd_owners_are_excluded_from_count :: bool where
  "test_tbd_owners_are_excluded_from_count \<longleftrightarrow>
     check TasksAndSubtasks
           (TasksRec (make_tasks_data [''Alice'', ''TBD'', ''unassigned'', ''Bob''] None))
           (make_stage_data (Some 2) None) = None"

section \<open>\<^verbatim>\<open>test_plan_compiler.py\<close>\<close>

text \<open>\<open>build_complete_session\<close>; \<open>sid\<close> is the identifier \<open>Session()\<close> draws.\<close>

definition build_complete_session :: "string \<Rightarrow> string \<Rightarrow> session" where
  "build_complete_session sid project_type =
     (let s = (new_session sid)\<lparr>is_complete := True\<rparr>
      in s\<lparr>stage_data := (stage_data s)
        (DefineOutcome \<mapsto> OutcomeRec
           \<lparr>od_project_name = ''Test Project'', od_project_type = project_type,
            od_success_definition = ''Launch a working product'',
            od_measurable_result = ''1000 users by Q4'', od_key_stakeholders = [''CEO'', ''CTO'']\<rparr>,
         StrategicConstraints \<mapsto> ConstraintsRec
           (default_constraints\<lparr>cd_deadline := Some ''Q4 2026'', cd_budget := Some ''$500,000'',
                                cd_team_size := Some 5, cd_methodology := Some ''Agile''\<rparr>),
         PhasesAndMilestones \<mapsto> PhasesRec
           \<lparr>pd_phases = [''Discovery'', ''Development''],
            pd_milestones =
              [\<lparr>md_name = ''Discovery'', md_deliverable = ''Requirements doc'',
                md_timeline = Some ''Month 1'', md_owner = Some ''PM''\<rparr>,
               \<lparr>md_name = ''Development'', md_deliverable = ''Working MVP'',
                md_timeline = Some ''Month 4'', md_owner = Some ''Tech Lead''\<rparr>]\<rparr>,
         TasksAndSubtasks \<mapsto> TasksRec
           \<lparr>ts_tasks =
              [\<lparr>td_name = ''Stakeholder interviews'', td_phase = ''Discovery'', td_owner = Some ''PM'',
                td_duration_days = Some 5, td_dependencies = [],
                td_subtasks = [\<lparr>sd_name = ''Schedule interviews'', sd_owner = Some ''PM'',
                                 sd_duration_days = Some 1, sd_dependencies = [],
                                 sd_deliverable = Some ''Calendar invites sent''\<rparr>]\<rparr>,
               \<lparr>td_name = ''Build API'', td_phase = ''Development'', td_owner = Some ''Backend Dev'',
                td_duration_days = Some 20, td_dependencies = [], td_subtasks = []\<rparr>]\<rparr>,
         RiskAndGovernance \<mapsto> RiskRec
           \<lparr>rg_risks = [\<lparr>rd_description = ''Key engineer leaves'', rd_severity = ''high'',
                          rd_mitigation = Some ''Cross-train team members''\<rparr>],
            rg_stakeholders = [''CEO'', ''CTO'', ''PM''],
            rg_kpis = [\<lparr>kd_metric = ''User signups'', kd_target = Some ''1000''\<rparr>],
            rg_external_vendors = [''Stripe''],
            rg_review_cadence = Some ''Weekly standup, bi-weekly steering''\<rparr>)\<rparr>)"

text \<open>The tests take the draw of \<open>Session()\<close> and the clock of \<open>compile\<close> as parameters.\<close>

definition test_compile_general_project :: "string \<Rightarrow> string \<Rightarrow> bool" where
  "test_compile_general_project sid now \<longleftrightarrow>
     (case compile_plan (stage_data (build_complete_session sid ''general'')) now of
        Inl _ \<Rightarrow> False
      | Inr plan \<Rightarrow>
          plan_project_name plan = ''Test Project''
          \<and> plan_project_type plan = ''general''
          \<and> plan_deadline plan = Some ''Q4 2026''
          \<and> plan_team_size plan = Some 5
          \<and> length (plan_milestones plan) = 2
          \<and> m_name (plan_milestones plan ! 0) = ''Discovery''
          \<and> length (m_tasks (plan_milestones plan ! 0)) = 1
          \<and> t_name (m_tasks (plan_milestones plan ! 0) ! 0) = ''Stakeholder interviews''
          \<and> length (t_subtasks (m_tasks (plan_milestones plan ! 0) ! 0)) = 1
          \<and> (case plan_governance plan of
               None \<Rightarrow> False
             | Some g \<Rightarrow> length (g_risks g) = 1 \<and> r_severity (g_risks g ! 0) = ''high''))"

definition test_compile_program_project :: "string \<Rightarrow> string \<Rightarrow> bool" where
  "test_compile_program_project sid now \<longleftrightarrow>
     (let s = build_complete_session sid ''program'';
          s = s\<lparr>stage_data := (stage_data s)(PhasesAndMilestones \<mapsto> PhasesRec
                 \<lparr>pd_phases = [''Technology'', ''People''],
                  pd_milestones =
                    [\<lparr>md_name = ''Technology - MVP'', md_deliverable = ''Deployed product'',
                      md_timeline = Some ''Q3'', md_owner = None\<rparr>,
                     \<lparr>md_name = ''People - Onboarding'', md_deliverable = ''Team onboarded'',
                      md_timeline = Some ''Q2'', md_owner = None\<rparr>]\<rparr>)\<rparr>
      in case compile_plan (stage_data s) now of
           Inl _ \<Rightarrow> False
         | Inr plan \<Rightarrow>
             (let pillar_names = set (map p_name (plan_pillars plan))
              in plan_project_type plan = ''program''
                 \<and> length (plan_pillars plan) = 2
                 \<and> ''Technology'' \<in> pillar_names \<and> ''People'' \<in> pillar_names))"

section \<open>\<^verbatim>\<open>test_markdown_renderer.py\<close>\<close>

definition make_plan :: "string \<Rightarrow> project_plan" where
  "make_plan project_type =
     \<lparr>plan_project_name = ''Launch App'', plan_project_type = project_type,
      plan_success_definition = ''1000 active users'', plan_deadline = Some ''Q4 2026'',
      plan_budget = None, plan_team_size = Some 4, plan_methodology = None,
      plan_milestones =
        [\<lparr>m_name = ''MVP'', m_deliverable = Some ''Working app'', m_timeline = Some ''Month 3'',
          m_owner = Some ''Tech Lead'',
          m_tasks =
            [\<lparr>t_name = ''Build backend'', t_owner = Some ''Dev'', t_timeline = None,
              t_duration_days = Some 20, t_dependencies = [],
              t_subtasks = [\<lparr>st_name = ''Design DB schema'', st_owner = Some ''Dev'',
                              st_timeline = Some ''3d'', st_deliverable = None,
                              st_dependencies = []\<rparr>]\<rparr>]\<rparr>],
      plan_pillars = [],
      plan_governance =
        Some \<lparr>g_stakeholders = [''CEO''],
              g_kpis = [\<lparr>k_metric = ''DAU'', k_target = Some ''1000'', k_measurement_method = None\<rparr>],
              g_risks = [\<lparr>r_description = ''Scope creep'', r_severity = ''medium'',
                          r_mitigation = Some ''Strict backlog''\<rparr>],
              g_external_vendors = [], g_review_cadence = None\<rparr>,
      plan_generated_at = None\<rparr>"

definition test_renders_project_name :: bool where
  "test_renders_project_name \<longleftrightarrow> sublist ''# Launch App'' (render (make_plan ''general''))"

definition test_renders_milestone :: bool where
  "test_renders_milestone \<longleftrightarrow>
     (let md = render (make_plan ''general'')
      in sublist ''## MVP'' md \<and> sublist ''_Deliverable: Working app_'' md)"

definition test_renders_task :: bool where
  "test_renders_task \<longleftrightarrow>
     (let md = render (make_plan ''general'')
      in sublist ''**Build backend**'' md \<and> sublist ''Owner: Dev'' md
         \<and> sublist ''Duration: 20d'' md)"

definition test_renders_subtask :: bool where
  "test_renders_subtask \<longleftrightarrow>
     (let md = render (make_plan ''general'')
      in sublist ''Design DB schema'' md \<and> sublist ''Timeline: 3d'' md)"

definition test_renders_governance :: bool where
  "test_renders_governance \<longleftrightarrow>
     (let md = render (make_plan ''general'')
      in sublist ''## Governance & Risk'' md \<and> sublist ''CEO'' md \<and> sublist ''**DAU**'' md
         \<and> sublist ''[MEDIUM] Scope creep'' md \<and> sublist ''Strict backlog'' md)"

section \<open>The tests pass on the model\<close>

lemma contradiction_detector_tests_pass:
  "test_no_contradiction_when_owners_within_team_size
   \<and> test_contradiction_when_owners_exceed_team_size
   \<and> test_no_contradiction_when_no_team_size_set
   \<and> test_contradiction_when_total_duration_very_high
   \<and> test_no_contradiction_for_other_stages
   \<and> test_tbd_owners_are_excluded_from_count"
  by (intro conjI; code_simp)

lemma plan_compiler_tests_pass:
  "test_compile_general_project sid now \<and> test_compile_program_project sid now"
  by (intro conjI; code_simp)

lemma markdown_renderer_tests_pass:
  "test_renders_project_name \<and> test_renders_milestone \<and> test_renders_task
   \<and> test_renders_subtask \<and> test_renders_governance"
  by (intro conjI; code_simp)

end
