(* ===== verification/Spec2Isabelle.thy ===== *)
theory Spec2Isabelle
  imports Deployment ControllerSpec ClientAdapter Tests
begin

text \<open>
  \<^bold>\<open>A verification library for the planning agent (pm-assistant).\<close>

  The program drives a five-stage conversation that elicits a project plan. Per turn,
  the FastAPI route \<^verbatim>\<open>POST /chat\<close> (\<^verbatim>\<open>src/app/api/routes/chat.py\<close>) loads
  the session from the store, and \<open>PlanningStateMachine.process_message\<close>
  (\<^verbatim>\<open>src/app/agent/state_machine.py\<close>) asks the stage's handler
  (\<^verbatim>\<open>src/app/agent/stage_handlers.py\<close>) for a reply and for a structured extraction,
  two calls of the Anthropic Messages API with the texts of \<^verbatim>\<open>src/app/agent/prompts.py\<close>;
  it runs the \<open>ContradictionDetector\<close> (\<^verbatim>\<open>src/app/agent/contradiction_detector.py\<close>)
  and either commits the record and advances the stage or re-prompts; the route saves the
  session on success. Once the last stage is committed, \<^verbatim>\<open>GET /session/{id}/plan\<close>
  runs \<open>PlanCompiler\<close> and \<open>MarkdownRenderer\<close> on the stored data.

  \<^bold>\<open>Theories\<close> (each opens with what it models).
  \<^item> \<open>Prelude\<close>: the Python built-ins the code uses (truthiness, \<open>strip\<close>,
    \<open>lower\<close>, \<open>join\<close>, \<open>split(sep, 1)\<close>, \<open>list.index\<close>, \<open>str(int)\<close>) as
    executable functions on byte strings, with their lemmas (\<open>split_once\<close> splits at the
    first occurrence; decimal rendering is injective and parses back).
  \<^item> \<open>Models\<close>: \<^verbatim>\<open>src/app/models/session.py\<close>, \<^verbatim>\<open>stage_data.py\<close> and
    \<^verbatim>\<open>plan.py\<close>: the \<open>stage\<close> datatype ordered by \<open>STAGE_ORDER\<close> (a
    \<open>linorder\<close> instance), one record per pydantic model, \<open>stage_record\<close> for a
    value of \<open>Session.stage_data\<close>, the \<open>session\<close> record and \<open>advance_stage\<close>.
  \<^item> \<open>Prompts\<close>: every text and table of \<^verbatim>\<open>prompts.py\<close>, byte for byte.
  \<^item> \<open>StageHandlers\<close>: the oracle interface \<open>llm_oracle\<close> the controller is stated
    over (a reply or the client's exception, and a validated tool output) and each
    stage's \<open>_has_required_fields\<close>.
  \<^item> \<open>ClientAdapter\<close>: \<^verbatim>\<open>config.py\<close> settings, the five handler classes by their
    attributes \<open>stage\<close> and \<open>extraction_model\<close> with \<open>STAGE_HANDLER_CLASSES\<close>, and
    the handlers' two calls at the level of the Messages API (requests, \<open>content[0].text\<close>, the tool-use search, the
    \<open>try\<close>/\<open>except\<close>), over interfaces for the API and for pydantic's schema and
    validation; \<open>client_oracle\<close> is the \<open>llm_oracle\<close> they implement.
  \<^item> \<open>Contradiction\<close>: the owner-count and duration rules, texts included.
  \<^item> \<open>StateMachine\<close>: \<open>process_message\<close> as a function from a session and an
    utterance to the reply (or the error) and the new session; \<open>run_turns\<close> for a
    sequence of turns; the inductive set of reachable sessions and its invariant.
  \<^item> \<open>ControllerSpec\<close>: the abstract controller of the specification (stay, or commit
    and advance) and the refinement of it by \<open>process_message\<close>.
  \<^item> \<open>PlanCompiler\<close>, \<open>Renderer\<close>: \<open>compile\<close> and \<open>render\<close> as functions of the
    committed records and of the plan.
  \<^item> \<open>Api\<close>: the four routes over the \<open>SessionStore\<close> interface, each returning an
    HTTP error or its response with the new store state; a \<open>get\<close> that raises is a 500.
  \<^item> \<open>Store\<close>: \<^verbatim>\<open>storage/base.py\<close> and \<^verbatim>\<open>storage/memory_store.py\<close>: the
    \<open>SessionStore\<close> interface as a record of \<open>get\<close>, \<open>save\<close> and \<open>delete\<close>, the
    map store the route properties are proved on, the in-memory store on its dictionary of
    \<open>model_dump(mode="json")\<close> values (the dump, its truthiness and \<open>Session(**data)\<close>
    form a codec interface whose law is pydantic's round trip), the abstraction
    \<open>mem_alpha\<close> with its invariant, and sequences of store calls (\<open>store_run\<close>).
  \<^item> \<open>App\<close>: \<^verbatim>\<open>main.py\<close> and \<^verbatim>\<open>dependencies.py\<close>: the route table of the
    application (documentation routes, \<^verbatim>\<open>/health\<close>, \<^verbatim>\<open>/\<close>, the static mount, and
    the three routers under \<^verbatim>\<open>/api/v1\<close>), Starlette's dispatch on it (first full
    match, else 405, else a 307 to the path with its trailing slash toggled, else 404), and
    \<open>handle_request\<close>, one HTTP request against the single store, with
    \<open>run_requests\<close> for a client's sequence of requests, both over any store instance.
  \<^item> \<open>Deployment\<close>: a simulation between two store instances is kept by every route
    and every request sequence; the in-memory store simulates the map store.
  \<^item> \<open>Tests\<close>: the unit tests of \<^verbatim>\<open>src/tests/unit/\<close>, each fixture a definition and
    each test function a boolean of its assertions; the lemmas \<open>*_tests_pass\<close> show
    that every test passes on the model, the compiler tests for every session identifier
    and clock.
  \<^item> This theory: properties of whole conversations and of the controller over the real
    client.

  \<^bold>\<open>What is proved.\<close> Controller (C1 to C8): the invariant tying committed data to the
  stage on every reachable session, monotonicity, and the outcome of each branch of a
  turn, errors included. Checker (C9 to C13): exact firing conditions, the 400-day
  boundary, rule order and scope, and the owner normalisation (strip, lower case, the
  placeholder labels). Compiler and renderer (C14 to C18, C20 to C23):
  grouping equals filtering, pillar structure and placement, the \<open>" - "\<close> split round
  trip and fallback, the exact conditions under which compilation fails and the error it
  reports, section presence, and when the stakeholders header line occurs in the whole
  document (also from a pillar milestone of that name). Deployment (C19): the application on \<open>InMemorySessionStore\<close>
  answers every request sequence exactly as on the map store, so every route property
  holds of the deployed store.
  Routes (C24, C26, C27, C38): plan retrieval on stored sessions, error mapping,
  progress bounds, and the type of the compiled plan. Application (C25, C28, C34, C39): over
  any sequence of HTTP requests the store keeps its invariants (reachable sessions,
  alternating logs); a chat answered 200 is served back by \<^verbatim>\<open>GET /api/v1/session/{id}\<close>
  and removed by \<^verbatim>\<open>DELETE\<close>; and the routing of the API is exact: a method and path
  reach an endpoint of the API precisely when they are its method and its path under
  \<^verbatim>\<open>/api/v1\<close>, with the session identifier as the path parameter; a wrong method on an API path is
  answered 405 and the chat path with a trailing slash is redirected, without touching
  the store. Whole conversations (C29, C40):
  five committing turns complete a session whose data compiles, and no sequence of
  committing turns is longer than the stages left. Interfaces (C30 to C33): each
  stage's prompt names the stage; each handler class is filed under its own stage and
  the adapter refines the oracle interface, returns only
  complete records of the stage's model, and turns an extraction outage into a plain
  reply. Specification (C35 to C37): \<open>advance_stage\<close> is the successor of the order,
  and \<open>process_message\<close> implements exactly the abstract controller.

  \<^bold>\<open>Modelling choices.\<close> Strings are byte strings; non-ASCII literals are their UTF-8
  bytes and case mapping is ASCII only. The model's answers are an arbitrary oracle, so
  the controller's properties hold whatever it answers. Every function is structurally
  recursive, so no fuel is needed and every call returns; the only loop of the program
  that need not end is the conversation itself, which the user drives; its progress is
  C29 and the number of its committing turns is bounded by C40. The float in
  \<open>_progress\<close> is integer division: \<open>int((i / 5) * 100)\<close> equals \<open>i * 100 div 5\<close>
  for the six indices, checked one by one. Records in \<open>stage_data\<close> are typed: the
  pydantic dump and re-parse of a stage's model is taken as the identity on them, and the
  dump of a whole session is an interface whose round trip is the hypothesis of C19.
  Each store operation is atomic (its lock) and requests run one at a time.

  Routing follows Starlette's rules as summarised above; a path parameter matches one
  non-empty segment, and the request body of \<^verbatim>\<open>POST /chat\<close> arrives parsed (or as
  invalid, answered 422).

  \<^bold>\<open>Not modelled.\<close> In \<^verbatim>\<open>main.py\<close>: the CORS middleware (it only adds headers),
  the lifespan hook (it logs), the contents of the documentation pages and of the static
  files (a response names the page or the file), and HEAD answered as GET without a
  body. JSON parsing of request bodies and serialisation of responses: framework code.
  The fixtures of \<^verbatim>\<open>src/tests/conftest.py\<close> (event-loop backend, HTTP test client,
  empty store): test-harness setup that no unit test uses.
  Reading the environment into \<open>Settings\<close> and \<^verbatim>\<open>utils/logging.py\<close>: I/O.
  Timestamps (\<open>created_at\<close>, \<open>updated_at\<close>, message times, \<open>generated_at\<close> as a
  parameter): no code reads them back. The internals of the Anthropic client and of
  pydantic's JSON schema generation and validation: library code the sources only call.
\<close>

section \<open>A whole planning conversation\<close>

lemma run_turns_complete_stage:
  assumes "all_commit orc s us" and "length us = 5 - stage_index (current_stage s)"
  shows "current_stage (run_turns orc s us) = Complete"
proof -
  have "stage_index (current_stage (run_turns orc s us)) = 5"
    using run_turns_stage [OF assms(1)] assms(2) stage_index_le_5 [of "current_stage s"] by simp
  then show ?thesis by (simp add: stage_index_5_iff)
qed

text \<open>
  C29. Liveness of the conversation: from a reachable session, as many turns as there are
  stages left, each of which the model answers and extracts without a contradiction, end
  in a completed session whose committed records compile into a plan.
\<close>

theorem conversation_completes_and_compiles:
  assumes "reachable_session s" and "all_commit orc s us"
    and "length us = 5 - stage_index (current_stage s)"
  shows "is_complete (run_turns orc s us)
         \<and> (\<exists>plan. compile_plan (stage_data (run_turns orc s us)) now = Inr plan)"
proof -
  let ?t = "run_turns orc s us"
  have inv: "session_inv ?t"
    using run_turns_reachable [OF assms(1)] by (rule reachable_session_invariant)
  have c: "current_stage ?t = Complete" using assms(2,3) by (rule run_turns_complete_stage)
  from inv c have "is_complete ?t" by (simp add: session_inv_def)
  with compile_plan_complete [OF inv c] show ?thesis by blast
qed

theorem conversation_completes_and_compiles_witness:
  "is_complete (run_turns demo_oracle (new_session ''w'') [''a'', ''b'', ''c'', ''d'', ''e''])
   \<and> (\<exists>plan. compile_plan (stage_data (run_turns demo_oracle (new_session ''w'')
                                     [''a'', ''b'', ''c'', ''d'', ''e''])) ''now'' = Inr plan)"
proof -
  have r: "reachable_session (new_session ''w'')" by (rule reachable_session.created)
  have a: "all_commit demo_oracle (new_session ''w'') [''a'', ''b'', ''c'', ''d'', ''e'']"
    by code_simp
  have l: "length [''a'', ''b'', ''c'', ''d'', ''e''] = 5 - stage_index (current_stage (new_session ''w''))"
    by (simp add: new_session_def)
  from conversation_completes_and_compiles [OF r a l] show ?thesis .
qed

section \<open>The controller over the real client\<close>

text \<open>
  C33. A failure of the extraction call is not an error of the turn: when the Messages API
  raises on the extraction request (a status or connection error), a turn of
  \<open>process_message\<close> over the real client answers with the model's reply alone and leaves
  stage and data unchanged, exactly as when no record was extracted.
\<close>

theorem extraction_failure_is_no_record:
  assumes "stage_handler_classes (current_stage s) = Some h"
    and "reply_call api p (current_stage s) (get_claude_messages (add_message ''user'' u s)) = Inr reply"
    and "extraction_request lib p (current_stage s) (hc_extraction_model h)
           (get_claude_messages (add_message ''user'' u s)) = Some rq"
    and "api rq = Inl e"
  shows "process_message (client_oracle api lib p) s u
           = (Inr reply, add_message ''assistant'' reply (add_message ''user'' u s))"
proof -
  have c: "current_stage s \<noteq> Complete" using assms(1) stage_handler_classes_Some by force
  have hs: "hc_stage h = current_stage s" using assms(1) by (rule stage_handler_classes_stage)
  have g: "generate_reply (client_oracle api lib p) (current_stage s) (add_message ''user'' u s) = Inr reply"
    using assms(1,2) hs by (simp add: generate_reply_def client_oracle_def)
  have a: "attempt_extraction (client_oracle api lib p) (current_stage s) (add_message ''user'' u s) = None"
    using assms(1,3,4) hs by (simp add: attempt_extraction_def validate_extraction_def client_oracle_def)
  from c g a show ?thesis by (simp add: process_message_noncomplete)
qed

theorem extraction_failure_is_no_record_witness:
  "process_message (client_oracle example_flaky_api example_lib \<lparr>pl_model = ''m'', pl_max_tokens = 100\<rparr>)
     (new_session ''c3'') ''hi''
   = (Inr ''Thanks.'', add_message ''assistant'' ''Thanks.'' (add_message ''user'' ''hi'' (new_session ''c3'')))"
proof -
  let ?p = "\<lparr>pl_model = ''m'', pl_max_tokens = 100\<rparr>"
  let ?msgs = "get_claude_messages (add_message ''user'' ''hi'' (new_session ''c3''))"
  have st: "current_stage (new_session ''c3'') = DefineOutcome" by (simp add: new_session_def)
  obtain rq where rq: "extraction_request example_lib ?p DefineOutcome OutcomeModel ?msgs = Some rq"
    using extraction_request_Some [of DefineOutcome define_outcome_handler]
    by (fastforce simp: define_outcome_handler_def)
  have e: "example_flaky_api rq = Inl APIConnectionError"
    using rq by (auto simp: extraction_request_def example_flaky_api_def)
  have r: "reply_call example_flaky_api ?p DefineOutcome ?msgs = Inr ''Thanks.''"
    by (simp add: reply_call_def reply_request_def example_flaky_api_def)
  from extraction_failure_is_no_record [of "new_session ''c3''" define_outcome_handler example_flaky_api ?p "''hi''"
        "''Thanks.''" example_lib rq APIConnectionError] st rq e r
  show ?thesis by (simp add: define_outcome_handler_def)
qed

section \<open>Bound on the conversation's progress\<close>

text \<open>
  C40. Bound on progress: a chain of \<open>n\<close> committing turns from a session has \<open>n\<close> at
  most the number of stages left before \<open>complete\<close>; five from \<open>Session()\<close>, and the
  demonstration conversation reaches it.
\<close>

theorem committing_turns_bound:
  assumes "(commit_turn ^^ n) s s'"
  shows "n \<le> 5 - stage_index (current_stage s)"
  using commit_turn_relpow_index [OF assms] stage_index_le_5 [of "current_stage s'"] by simp

theorem committing_turns_bound_witness:
  "(commit_turn ^^ 5) (new_session ''w'') (run_turns demo_oracle (new_session ''w'') [''a'', ''b'', ''c'', ''d'', ''e''])
   \<and> (5::nat) \<le> 5 - stage_index (current_stage (new_session ''w''))"
proof -
  have a: "all_commit demo_oracle (new_session ''w'') [''a'', ''b'', ''c'', ''d'', ''e'']" by code_simp
  have c: "(commit_turn ^^ 5) (new_session ''w'') (run_turns demo_oracle (new_session ''w'') [''a'', ''b'', ''c'', ''d'', ''e''])"
  proof -
    have l: "length [''a'', ''b'', ''c'', ''d'', ''e''] = 5" by simp
    from all_commit_relpow [OF a] show ?thesis unfolding l .
  qed
  from c committing_turns_bound [OF c] show ?thesis by simp
qed

end
